theory Spec2Isabelle
  imports Complex_Main "HOL-Library.Char_ord" "HOL-Library.List_Lexorder"
begin

section \<open>Numbers of type double\<close>

text \<open>
  The program computes with C++ \<open>double\<close>. A double is modelled as a real number or one
  of the three special values the code can see: not-a-number and the two infinities.
  NaN is tested all over the source (\<open>std::isnan\<close> marks "not set"), and a division by
  zero gives an infinity or NaN, so these values are part of the model. Rounding, signed
  zeros and overflow to infinity are not modelled: arithmetic on finite values is the
  arithmetic of the reals.
\<close>

datatype double = NaN | NInf | PInf | Fin real

fun isnan :: "double \<Rightarrow> bool" where
  "isnan NaN = True"
| "isnan _ = False"

text \<open>\<open>a < b\<close> on doubles: false as soon as one side is NaN.\<close>

fun dless :: "double \<Rightarrow> double \<Rightarrow> bool" where
  "dless (Fin a) (Fin b) = (a < b)"
| "dless NaN _ = False"
| "dless _ NaN = False"
| "dless _ NInf = False"
| "dless NInf _ = True"
| "dless PInf _ = False"
| "dless _ PInf = True"

text \<open>\<open>a <= b\<close>, \<open>a > b\<close> and \<open>a >= b\<close> on doubles.\<close>

definition dle :: "double \<Rightarrow> double \<Rightarrow> bool" where
  "dle a b = (dless a b \<or> (a = b \<and> \<not> isnan a))"

definition dgt :: "double \<Rightarrow> double \<Rightarrow> bool" where
  "dgt a b = dless b a"

definition dge :: "double \<Rightarrow> double \<Rightarrow> bool" where
  "dge a b = dle b a"

fun dneg :: "double \<Rightarrow> double" where
  "dneg (Fin a) = Fin (- a)"
| "dneg NaN = NaN"
| "dneg NInf = PInf"
| "dneg PInf = NInf"

fun dadd :: "double \<Rightarrow> double \<Rightarrow> double" where
  "dadd (Fin a) (Fin b) = Fin (a + b)"
| "dadd NaN _ = NaN"
| "dadd _ NaN = NaN"
| "dadd PInf NInf = NaN"
| "dadd NInf PInf = NaN"
| "dadd PInf _ = PInf"
| "dadd _ PInf = PInf"
| "dadd NInf _ = NInf"
| "dadd _ NInf = NInf"

definition dsub :: "double \<Rightarrow> double \<Rightarrow> double" where
  "dsub a b = dadd a (dneg b)"

text \<open>The sign of an infinite or finite value, for products and quotients.\<close>

fun dsign :: "double \<Rightarrow> int" where
  "dsign (Fin a) = (if a < 0 then - 1 else if a = 0 then 0 else 1)"
| "dsign PInf = 1"
| "dsign NInf = - 1"
| "dsign NaN = 0"

definition inf_of_sign :: "int \<Rightarrow> double" where
  "inf_of_sign s = (if s = 0 then NaN else if s < 0 then NInf else PInf)"

fun dmul :: "double \<Rightarrow> double \<Rightarrow> double" where
  "dmul (Fin a) (Fin b) = Fin (a * b)"
| "dmul NaN _ = NaN"
| "dmul _ NaN = NaN"
| "dmul a b = inf_of_sign (dsign a * dsign b)"

fun ddiv :: "double \<Rightarrow> double \<Rightarrow> double" where
  "ddiv (Fin a) (Fin b) = (if b = 0 then inf_of_sign (dsign (Fin a)) else Fin (a / b))"
| "ddiv NaN _ = NaN"
| "ddiv _ NaN = NaN"
| "ddiv (Fin a) _ = Fin 0"
| "ddiv a (Fin b) = inf_of_sign (dsign a * (if b < 0 then - 1 else 1))"
| "ddiv _ _ = NaN"

fun dsqrt :: "double \<Rightarrow> double" where
  "dsqrt (Fin a) = (if a < 0 then NaN else Fin (sqrt a))"
| "dsqrt PInf = PInf"
| "dsqrt _ = NaN"

fun dfabs :: "double \<Rightarrow> double" where
  "dfabs (Fin a) = Fin \<bar>a\<bar>"
| "dfabs NaN = NaN"
| "dfabs _ = PInf"

text \<open>\<open>std::max(a,b)\<close> is \<open>(a < b) ? b : a\<close> and \<open>std::min(a,b)\<close> is \<open>(b < a) ? b : a\<close>.\<close>

definition dmax :: "double \<Rightarrow> double \<Rightarrow> double" where
  "dmax a b = (if dless a b then b else a)"

definition dmin :: "double \<Rightarrow> double \<Rightarrow> double" where
  "dmin a b = (if dless b a then b else a)"

section \<open>Nodes and edges of the taxi network\<close>

text \<open>
  Class \<open>TaxiNode\<close>: geographic position and lazily computed local coordinates
  (members \<open>x\<close> and \<open>z\<close>, here \<open>loc_x\<close> and \<open>loc_z\<close>). Class \<open>RwyEndPt\<close> derives from it
  and adds the runway identifier (member \<open>id\<close>), the altitude and member \<open>y\<close>.
\<close>

record TaxiNode =
  lat :: double
  lon :: double
  loc_x :: double
  loc_z :: double

record RwyEndPt = TaxiNode +
  rwy_id :: string
  alt_m :: double
  loc_y :: double

text \<open>The constructors \<open>TaxiNode(_lat,_lon)\<close> and \<open>RwyEndPt(_id,_lat,_lon)\<close>.\<close>

definition new_TaxiNode :: "double \<Rightarrow> double \<Rightarrow> TaxiNode" where
  "new_TaxiNode la lo = \<lparr>lat = la, lon = lo, loc_x = NaN, loc_z = NaN\<rparr>"

definition new_RwyEndPt :: "string \<Rightarrow> double \<Rightarrow> double \<Rightarrow> RwyEndPt" where
  "new_RwyEndPt i la lo =
     \<lparr>lat = la, lon = lo, loc_x = NaN, loc_z = NaN, rwy_id = i, alt_m = NaN, loc_y = NaN\<rparr>"

definition HasGeoCoords :: "'a TaxiNode_scheme \<Rightarrow> bool" where
  "HasGeoCoords n = (\<not> isnan (lat n) \<and> \<not> isnan (lon n))"

definition HasLocalCoords :: "'a TaxiNode_scheme \<Rightarrow> bool" where
  "HasLocalCoords n = (\<not> isnan (loc_x n) \<and> \<not> isnan (loc_z n))"

datatype nodeTy = UNKNOWN_WAY | RUN_WAY | TAXI_WAY

text \<open>
  Class \<open>TaxiEdge\<close>; members \<open>type\<close>, \<open>a\<close> and \<open>b\<close> are \<open>etype\<close>, \<open>node_a\<close> and
  \<open>node_b\<close>. The indexes are \<open>size_t\<close>; no index arithmetic of the program can wrap,
  so they are natural numbers.
\<close>

record TaxiEdge =
  etype :: nodeTy
  node_a :: nat
  node_b :: nat
  angle :: double
  dist_m :: double

text \<open>
  The constructor \<open>TaxiEdge(_t,_a,_b,_angle,_dist_m)\<close>: an angle of 180 degrees or
  more is reduced by 180 and the two nodes are swapped.
\<close>

definition new_TaxiEdge :: "nodeTy \<Rightarrow> nat \<Rightarrow> nat \<Rightarrow> double \<Rightarrow> double \<Rightarrow> TaxiEdge" where
  "new_TaxiEdge t a b ang d =
     (if dge ang (Fin 180)
      then \<lparr>etype = t, node_a = b, node_b = a, angle = dsub ang (Fin 180), dist_m = d\<rparr>
      else \<lparr>etype = t, node_a = a, node_b = b, angle = ang, dist_m = d\<rparr>)"

text \<open>The constructor \<open>TaxiEdge(_angle)\<close> for comparison objects.\<close>

definition cmp_TaxiEdge :: "double \<Rightarrow> TaxiEdge" where
  "cmp_TaxiEdge ang = \<lparr>etype = TAXI_WAY, node_a = 0, node_b = 0, angle = ang, dist_m = NaN\<rparr>"

definition CompHeadLess :: "TaxiEdge \<Rightarrow> TaxiEdge \<Rightarrow> bool" where
  "CompHeadLess e1 e2 = dless (angle e1) (angle e2)"

text \<open>Whether the constructor swapped the roles of the two nodes.\<close>

definition roles_swapped :: "nat \<Rightarrow> nat \<Rightarrow> TaxiEdge \<Rightarrow> bool" where
  "roles_swapped a b e = (node_a e = b \<and> node_b e = a)"

definition roles_kept :: "nat \<Rightarrow> nat \<Rightarrow> TaxiEdge \<Rightarrow> bool" where
  "roles_kept a b e = (node_a e = a \<and> node_b e = b)"

section \<open>Positions, vectors and bounding boxes\<close>

text \<open>
  Struct \<open>positionTy\<close>: the seven entries of its array \<open>v\<close> are the fields
  \<open>p_lat\<close> to \<open>p_roll\<close> (the accessors \<open>lat()\<close> to \<open>roll()\<close>).
\<close>

datatype onGrndE = GND_UNKNOWN | GND_OFF | GND_ON
datatype coordUnitE = UNIT_WORLD | UNIT_LOCAL
datatype angleUnitE = UNIT_DEG | UNIT_RAD

record positionTy =
  p_lat :: double
  p_lon :: double
  p_alt_m :: double
  p_ts :: double
  p_heading :: double
  p_pitch :: double
  p_roll :: double
  mergeCount :: int
  onGrnd :: onGrndE
  unitCoord :: coordUnitE
  unitAngle :: angleUnitE
  flightPhase :: int

text \<open>The constructor with all its arguments, and the default constructor.\<close>

definition new_positionTy ::
  "double \<Rightarrow> double \<Rightarrow> double \<Rightarrow> double \<Rightarrow> double \<Rightarrow> double \<Rightarrow> double \<Rightarrow>
   onGrndE \<Rightarrow> coordUnitE \<Rightarrow> angleUnitE \<Rightarrow> int \<Rightarrow> positionTy" where
  "new_positionTy dLat dLon dAlt dTS dHead dPitch dRoll grnd uCoord uAngle fPhase =
     \<lparr>p_lat = dLat, p_lon = dLon, p_alt_m = dAlt, p_ts = dTS, p_heading = dHead,
      p_pitch = dPitch, p_roll = dRoll, mergeCount = 1, onGrnd = grnd,
      unitCoord = uCoord, unitAngle = uAngle, flightPhase = fPhase\<rparr>"

definition empty_positionTy :: positionTy where
  "empty_positionTy =
     new_positionTy NaN NaN NaN NaN NaN NaN NaN GND_UNKNOWN UNIT_WORLD UNIT_DEG 0"

record vectorTy =
  v_angle :: double
  v_dist :: double
  v_vsi :: double
  v_speed :: double

text \<open>The constructor \<open>vectorTy(dAngle,dDist)\<close> with its two default arguments.\<close>

definition new_vectorTy :: "double \<Rightarrow> double \<Rightarrow> vectorTy" where
  "new_vectorTy a d = \<lparr>v_angle = a, v_dist = d, v_vsi = NaN, v_speed = NaN\<rparr>"

record boundingBoxTy =
  nw :: positionTy
  se :: positionTy

definition empty_boundingBoxTy :: boundingBoxTy where
  "empty_boundingBoxTy = \<lparr>nw = empty_positionTy, se = empty_positionTy\<rparr>"

section \<open>Functions the airport code calls and whose bodies are elsewhere\<close>

text \<open>
  The coordinate functions are declared in \<open>CoordCalc.h\<close> and defined in a file that
  is not part of the sources at hand, and the conversion between world and local
  coordinates belongs to the simulator. They are pure functions; the airport code is
  modelled for any such functions, which it receives in the record \<open>geo\<close>.
  \<open>pos_add_vec\<close> is \<open>positionTy::operator +=\<close>, and the fields \<open>bb_...\<close> are the member
  functions of \<open>boundingBoxTy\<close>.
\<close>

record geo =
  CoordAngle :: "double \<Rightarrow> double \<Rightarrow> double \<Rightarrow> double \<Rightarrow> double"
  CoordDistance :: "double \<Rightarrow> double \<Rightarrow> double \<Rightarrow> double \<Rightarrow> double"
  DistLatLonSqr :: "double \<Rightarrow> double \<Rightarrow> double \<Rightarrow> double \<Rightarrow> double"
  CoordVectorBetween :: "positionTy \<Rightarrow> positionTy \<Rightarrow> vectorTy"
  pos_add_vec :: "positionTy \<Rightarrow> vectorTy \<Rightarrow> positionTy"
  HeadingNormalize :: "double \<Rightarrow> double"
  HeadingDiff :: "double \<Rightarrow> double \<Rightarrow> double"
  XPLMWorldToLocal :: "double \<Rightarrow> double \<Rightarrow> double \<Rightarrow> double \<times> double \<times> double"
  XPLMLocalToWorld :: "double \<Rightarrow> double \<Rightarrow> double \<Rightarrow> double \<times> double \<times> double"
  bb_enlarge_pos :: "boundingBoxTy \<Rightarrow> double \<Rightarrow> double \<Rightarrow> boundingBoxTy"
  bb_enlarge :: "boundingBoxTy \<Rightarrow> positionTy \<Rightarrow> boundingBoxTy"
  bb_enlarge_m :: "boundingBoxTy \<Rightarrow> double \<Rightarrow> boundingBoxTy"
  bb_contains :: "boundingBoxTy \<Rightarrow> positionTy \<Rightarrow> bool"

text \<open>\<open>DistLatLon\<close> is inline in the header: the root of \<open>DistLatLonSqr\<close>.\<close>

definition DistLatLon :: "geo \<Rightarrow> double \<Rightarrow> double \<Rightarrow> double \<Rightarrow> double \<Rightarrow> double" where
  "DistLatLon G lat1 lon1 lat2 lon2 = dsqrt (DistLatLonSqr G lat1 lon1 lat2 lon2)"

text \<open>
  Modelled from the spec: the constant \<open>ART_RWY_TD_POINT_F\<close> is defined in a header
  that is not part of the sources at hand. The spec gives its value: each runway end is
  moved by 10% of the remaining length.
\<close>

definition ART_RWY_TD_POINT_F :: double where
  "ART_RWY_TD_POINT_F = Fin (1 / 10)"

section \<open>The airport\<close>

text \<open>Class \<open>Apt\<close>; members \<open>id\<close> and \<open>alt_m\<close> are \<open>apt_id\<close> and \<open>apt_alt_m\<close>.\<close>

record Apt =
  apt_id :: string
  bounds :: boundingBoxTy
  apt_alt_m :: double
  vecTaxiNodes :: "TaxiNode list"
  vecRwyEndPts :: "RwyEndPt list"
  vecTaxiEdges :: "TaxiEdge list"

definition new_Apt :: "string \<Rightarrow> Apt" where
  "new_Apt i = \<lparr>apt_id = i, bounds = empty_boundingBoxTy, apt_alt_m = NaN,
                vecTaxiNodes = [], vecRwyEndPts = [], vecTaxiEdges = []\<rparr>"

definition HasId :: "Apt \<Rightarrow> bool" where
  "HasId apt = (apt_id apt \<noteq> [])"

definition HasTaxiWays :: "Apt \<Rightarrow> bool" where
  "HasTaxiWays apt = (vecTaxiEdges apt \<noteq> [])"

definition HasRwyEndpoints :: "Apt \<Rightarrow> bool" where
  "HasRwyEndpoints apt = (vecRwyEndPts apt \<noteq> [])"

definition IsValid :: "Apt \<Rightarrow> bool" where
  "IsValid apt = (HasId apt \<and> HasTaxiWays apt \<and> HasRwyEndpoints apt)"

text \<open>\<open>Apt::AddTaxiNode\<close> returns the index of the new node and the changed airport.\<close>

definition AddTaxiNode :: "geo \<Rightarrow> double \<Rightarrow> double \<Rightarrow> Apt \<Rightarrow> nat \<times> Apt" where
  "AddTaxiNode G la lo apt =
     (let apt1 = apt\<lparr>bounds := bb_enlarge_pos G (bounds apt) la lo\<rparr>;
          apt2 = apt1\<lparr>vecTaxiNodes := vecTaxiNodes apt1 @ [new_TaxiNode la lo]\<rparr>
      in (length (vecTaxiNodes apt2) - 1, apt2))"

text \<open>
  \<open>Apt::AddTaxiEdge\<close> returns its boolean result and the airport after the call. The
  two log messages of the failing branches are no part of the model.
\<close>

definition AddTaxiEdge :: "geo \<Rightarrow> nat \<Rightarrow> nat \<Rightarrow> double \<Rightarrow> Apt \<Rightarrow> bool \<times> Apt" where
  "AddTaxiEdge G n1 n2 dst apt =
     (if n1 \<ge> length (vecTaxiNodes apt) \<or> n2 \<ge> length (vecTaxiNodes apt)
      then (False, apt)
      else
        let a = vecTaxiNodes apt ! n1;
            b = vecTaxiNodes apt ! n2
        in if \<not> HasGeoCoords a \<or> \<not> HasGeoCoords b
           then (False, apt)
           else
             let d = (if isnan dst then DistLatLon G (lat a) (lon a) (lat b) (lon b)
                      else dst)
             in (True,
                 apt\<lparr>vecTaxiEdges := vecTaxiEdges apt @
                       [new_TaxiEdge TAXI_WAY n1 n2
                          (CoordAngle G (lat a) (lon a) (lat b) (lon b)) d]\<rparr>))"

text \<open>
  \<open>Apt::AddRwyEnds\<close>. The steps of the source are kept apart: the positions of the two
  runway ends as given (\<open>rwy_re1\<close>, \<open>rwy_re2\<close>), the length between the displaced
  thresholds (\<open>rwy_remaining\<close>, the value of \<open>vecRwy.dist\<close> after the two subtractions),
  the two vectors by which the ends are moved, and the length that is stored.
\<close>

definition rwy_re :: "double \<Rightarrow> double \<Rightarrow> positionTy" where
  "rwy_re la lo = new_positionTy la lo NaN NaN NaN NaN NaN GND_ON UNIT_WORLD UNIT_DEG 0"

definition rwy_remaining :: "geo \<Rightarrow> positionTy \<Rightarrow> positionTy \<Rightarrow> double \<Rightarrow> double \<Rightarrow> double" where
  "rwy_remaining G re1 re2 displaced1 displaced2 =
     dsub (dsub (v_dist (CoordVectorBetween G re1 re2)) displaced1) displaced2"

definition rwy_move1 :: "geo \<Rightarrow> positionTy \<Rightarrow> positionTy \<Rightarrow> double \<Rightarrow> double \<Rightarrow> vectorTy" where
  "rwy_move1 G re1 re2 displaced1 displaced2 =
     new_vectorTy (v_angle (CoordVectorBetween G re1 re2))
       (dadd displaced1 (dmul (rwy_remaining G re1 re2 displaced1 displaced2) ART_RWY_TD_POINT_F))"

definition rwy_move2 :: "geo \<Rightarrow> positionTy \<Rightarrow> positionTy \<Rightarrow> double \<Rightarrow> double \<Rightarrow> vectorTy" where
  "rwy_move2 G re1 re2 displaced1 displaced2 =
     new_vectorTy (v_angle (CoordVectorBetween G re1 re2))
       (dneg (dadd displaced2
                (dmul (rwy_remaining G re1 re2 displaced1 displaced2) ART_RWY_TD_POINT_F)))"

definition rwy_stored_dist :: "geo \<Rightarrow> positionTy \<Rightarrow> positionTy \<Rightarrow> double \<Rightarrow> double \<Rightarrow> double" where
  "rwy_stored_dist G re1 re2 displaced1 displaced2 =
     dmul (rwy_remaining G re1 re2 displaced1 displaced2)
          (dsub (Fin 1) (dmul (Fin 2) ART_RWY_TD_POINT_F))"

definition AddRwyEnds ::
  "geo \<Rightarrow> double \<Rightarrow> double \<Rightarrow> double \<Rightarrow> string \<Rightarrow>
   double \<Rightarrow> double \<Rightarrow> double \<Rightarrow> string \<Rightarrow> Apt \<Rightarrow> Apt" where
  "AddRwyEnds G lat1 lon1 displaced1 id1 lat2 lon2 displaced2 id2 apt =
     (let re1 = rwy_re lat1 lon1;
          re2 = rwy_re lat2 lon2;
          vecRwy = CoordVectorBetween G re1 re2;
          re1' = pos_add_vec G re1 (rwy_move1 G re1 re2 displaced1 displaced2);
          re2' = pos_add_vec G re2 (rwy_move2 G re1 re2 displaced1 displaced2);
          apt1 = apt\<lparr>bounds := bb_enlarge G (bounds apt) re1'\<rparr>;
          apt2 = apt1\<lparr>vecRwyEndPts := vecRwyEndPts apt1 @
                         [new_RwyEndPt id1 (p_lat re1') (p_lon re1')]\<rparr>;
          apt3 = apt2\<lparr>bounds := bb_enlarge G (bounds apt2) re2'\<rparr>;
          apt4 = apt3\<lparr>vecRwyEndPts := vecRwyEndPts apt3 @
                         [new_RwyEndPt id2 (p_lat re2') (p_lon re2')]\<rparr>
      in apt4\<lparr>vecTaxiEdges := vecTaxiEdges apt4 @
                 [new_TaxiEdge RUN_WAY
                    (length (vecRwyEndPts apt4) - 2)
                    (length (vecRwyEndPts apt4) - 1)
                    (v_angle vecRwy)
                    (rwy_stored_dist G re1 re2 displaced1 displaced2)]\<rparr>)"

text \<open>
  \<open>TaxiEdge::GetA\<close> and \<open>TaxiEdge::GetB\<close> index a vector without a check. An index out
  of range, which is undefined behaviour in the source, is the result \<open>None\<close> here.
  The result is the \<open>TaxiNode\<close> part of the node.
\<close>

definition GetA :: "TaxiEdge \<Rightarrow> Apt \<Rightarrow> TaxiNode option" where
  "GetA e apt =
     (if etype e = RUN_WAY
      then (if node_a e < length (vecRwyEndPts apt)
            then Some (TaxiNode.truncate (vecRwyEndPts apt ! node_a e)) else None)
      else (if node_a e < length (vecTaxiNodes apt)
            then Some (vecTaxiNodes apt ! node_a e) else None))"

definition GetB :: "TaxiEdge \<Rightarrow> Apt \<Rightarrow> TaxiNode option" where
  "GetB e apt =
     (if etype e = RUN_WAY
      then (if node_b e < length (vecRwyEndPts apt)
            then Some (TaxiNode.truncate (vecRwyEndPts apt ! node_b e)) else None)
      else (if node_b e < length (vecTaxiNodes apt)
            then Some (vecTaxiNodes apt ! node_b e) else None))"

text \<open>
  An airport is built by calls of the three public operations, in any order and with
  any arguments, on an airport that the constructor made.
\<close>

datatype apt_call =
    CallAddTaxiNode double double
  | CallAddTaxiEdge nat nat double
  | CallAddRwyEnds double double double string double double double string

fun apt_call_run :: "geo \<Rightarrow> apt_call \<Rightarrow> Apt \<Rightarrow> Apt" where
  "apt_call_run G (CallAddTaxiNode la lo) apt = snd (AddTaxiNode G la lo apt)"
| "apt_call_run G (CallAddTaxiEdge n1 n2 d) apt = snd (AddTaxiEdge G n1 n2 d apt)"
| "apt_call_run G (CallAddRwyEnds la1 lo1 d1 i1 la2 lo2 d2 i2) apt =
     AddRwyEnds G la1 lo1 d1 i1 la2 lo2 d2 i2 apt"

fun apt_calls_run :: "geo \<Rightarrow> apt_call list \<Rightarrow> Apt \<Rightarrow> Apt" where
  "apt_calls_run G [] apt = apt"
| "apt_calls_run G (c # cs) apt = apt_calls_run G cs (apt_call_run G c apt)"

text \<open>The indexes of an edge are in the range of the vector that its type selects.\<close>

definition edge_in_range :: "Apt \<Rightarrow> TaxiEdge \<Rightarrow> bool" where
  "edge_in_range apt e =
     (if etype e = RUN_WAY
      then node_a e < length (vecRwyEndPts apt) \<and> node_b e < length (vecRwyEndPts apt)
      else node_a e < length (vecTaxiNodes apt) \<and> node_b e < length (vecTaxiNodes apt))"

text \<open>
  A simple instance of the outside functions, for examples: a flat world in which a
  degree of latitude or longitude is 100000 metres, the heading from one point to
  another is always taken to be 90 degrees, and a position is moved along the longitude
  axis. Local coordinates are metres, x to the east and z to the south.
\<close>

definition flat_dist2 :: "double \<Rightarrow> double \<Rightarrow> double \<Rightarrow> double \<Rightarrow> double" where
  "flat_dist2 lat1 lon1 lat2 lon2 =
     dadd (dmul (dmul (dsub lat2 lat1) (Fin 100000)) (dmul (dsub lat2 lat1) (Fin 100000)))
          (dmul (dmul (dsub lon2 lon1) (Fin 100000)) (dmul (dsub lon2 lon1) (Fin 100000)))"

definition flat_geo :: geo where
  "flat_geo =
     \<lparr>CoordAngle = (\<lambda>lat1 lon1 lat2 lon2. Fin 90),
      CoordDistance = (\<lambda>lat1 lon1 lat2 lon2. dsqrt (flat_dist2 lat1 lon1 lat2 lon2)),
      DistLatLonSqr = flat_dist2,
      CoordVectorBetween = (\<lambda>p q. new_vectorTy (Fin 90)
                             (dsqrt (flat_dist2 (p_lat p) (p_lon p) (p_lat q) (p_lon q)))),
      pos_add_vec = (\<lambda>p v. p\<lparr>p_lon := dadd (p_lon p) (ddiv (v_dist v) (Fin 100000))\<rparr>),
      HeadingNormalize = (\<lambda>h. h),
      HeadingDiff = (\<lambda>h1 h2. dsub h2 h1),
      XPLMWorldToLocal = (\<lambda>la lo al. (dmul lo (Fin 100000), al, dneg (dmul la (Fin 100000)))),
      XPLMLocalToWorld = (\<lambda>x y z. (dneg (ddiv z (Fin 100000)), ddiv x (Fin 100000), y)),
      bb_enlarge_pos = (\<lambda>bb la lo. bb),
      bb_enlarge = (\<lambda>bb p. bb),
      bb_enlarge_m = (\<lambda>bb m. bb),
      bb_contains = (\<lambda>bb p. True)\<rparr>"

text \<open>Every edge of an airport has its indexes in range.\<close>

definition edges_ok :: "Apt \<Rightarrow> bool" where
  "edges_ok apt = (\<forall>e \<in> set (vecTaxiEdges apt). edge_in_range apt e)"

text \<open>
  An example airport in the flat world: a runway of 2000 metres, three taxi nodes of
  which the third has no latitude, and two attempts to add an edge, of which the second
  names a node that does not exist.
\<close>

definition example_calls :: "apt_call list" where
  "example_calls =
     [CallAddRwyEnds (Fin 0) (Fin 0) (Fin 0) ''09'' (Fin 0) (Fin (2 / 100)) (Fin 0) ''27'',
      CallAddTaxiNode (Fin 0) (Fin 0),
      CallAddTaxiNode (Fin 0) (Fin (1 / 1000)),
      CallAddTaxiNode NaN (Fin 0),
      CallAddTaxiEdge 0 1 NaN,
      CallAddTaxiEdge 0 7 NaN,
      CallAddTaxiEdge 1 2 (Fin 5)]"

definition example_apt :: Apt where
  "example_apt = apt_calls_run flat_geo example_calls (new_Apt ''XAPT'')"

section \<open>Finding edges by heading\<close>

text \<open>
  \<open>std::lower_bound\<close> over the whole vector of edges with the comparison
  \<open>CompHeadLess\<close> against the comparison object \<open>TaxiEdge(v)\<close>: the usual binary
  search, which keeps the first index and the length of the part still to search.
\<close>

function lower_bound_loop :: "TaxiEdge list \<Rightarrow> double \<Rightarrow> nat \<Rightarrow> nat \<Rightarrow> nat" where
  "lower_bound_loop es v first len =
     (if len = 0 then first
      else
        let half = len div 2;
            middle = first + half
        in if CompHeadLess (es ! middle) (cmp_TaxiEdge v)
           then lower_bound_loop es v (middle + 1) (len - half - 1)
           else lower_bound_loop es v first half)"
  by pat_completeness auto
termination
  by (relation "measure (\<lambda>(es, v, first, len). len)") auto

declare lower_bound_loop.simps [simp del]

definition lower_bound :: "TaxiEdge list \<Rightarrow> double \<Rightarrow> nat" where
  "lower_bound es v = lower_bound_loop es v 0 (length es)"

text \<open>
  The one or two search ranges \<open>vecRanges\<close> that \<open>Apt::FindEdgesForHeading\<close> computes
  from the heading searched for and the tolerance.
\<close>

definition vecRanges :: "double \<Rightarrow> double \<Rightarrow> (double \<times> double) list" where
  "vecRanges headSearch0 angleTolerance =
     (let headSearch = (if dge headSearch0 (Fin 180) then dsub headSearch0 (Fin 180)
                        else headSearch0);
          headBegin = dsub headSearch angleTolerance;
          headEnd = dadd headSearch angleTolerance
      in if dle (Fin 0) headBegin \<and> dless headEnd (Fin 180)
         then [(headBegin, headEnd)]
         else if dless headBegin (Fin 0)
         then [(Fin 0, headEnd), (dadd headBegin (Fin 180), Fin 180)]
         else [(Fin 0, dsub headEnd (Fin 180)), (headBegin, Fin 180)])"

text \<open>
  The inner loop: from index \<open>i\<close> on, as long as the end is not reached and the angle is
  at most the upper end of the range, the edge is added to the list if its type is not
  excluded. The list of the source holds pointers to elements of \<open>vecTaxiEdges\<close>; here
  it holds their indexes.
\<close>

function scan_range :: "TaxiEdge list \<Rightarrow> double \<Rightarrow> nodeTy \<Rightarrow> nat \<Rightarrow> nat list \<Rightarrow> nat list" where
  "scan_range es hi restrictType i lst =
     (if i < length es \<and> dle (angle (es ! i)) hi
      then scan_range es hi restrictType (Suc i)
             (if restrictType = UNKNOWN_WAY \<or> restrictType = etype (es ! i)
              then lst @ [i] else lst)
      else lst)"
  by pat_completeness auto
termination
  by (relation "measure (\<lambda>(es, hi, restrictType, i, lst). length es - i)") auto

declare scan_range.simps [simp del]

text \<open>
  \<open>Apt::FindEdgesForHeading\<close>: the list passed in is extended, and the result says
  whether the list is not empty.
\<close>

definition FindEdgesForHeading ::
  "Apt \<Rightarrow> double \<Rightarrow> double \<Rightarrow> nat list \<Rightarrow> nodeTy \<Rightarrow> bool \<times> nat list" where
  "FindEdgesForHeading apt headSearch angleTolerance lst restrictType =
     (let lst' = fold (\<lambda>rngPair l.
                    scan_range (vecTaxiEdges apt) (snd rngPair) restrictType
                      (lower_bound (vecTaxiEdges apt) (fst rngPair)) l)
                  (vecRanges headSearch angleTolerance) lst
      in (lst' \<noteq> [], lst'))"

text \<open>
  The edges are sorted by heading (as \<open>Apt::AddApt\<close> leaves them), and no heading is NaN.
\<close>

definition heading_sorted :: "TaxiEdge list \<Rightarrow> bool" where
  "heading_sorted es =
     (list_all (\<lambda>e. \<not> isnan (angle e)) es
      \<and> sorted_wrt (\<lambda>e1 e2. dle (angle e1) (angle e2)) es)"

text \<open>
  A sub-range of the headings, as the spec words it: the indexes, in ascending order, of
  the edges of an admitted type whose heading is at least \<open>lo\<close> and at most \<open>hi\<close>.
\<close>

definition sub_range :: "TaxiEdge list \<Rightarrow> nodeTy \<Rightarrow> double \<Rightarrow> double \<Rightarrow> nat list" where
  "sub_range es restrictType lo hi =
     filter (\<lambda>k. dle lo (angle (es ! k)) \<and> dle (angle (es ! k)) hi
                 \<and> (restrictType = UNKNOWN_WAY \<or> restrictType = etype (es ! k)))
            [0 ..< length es]"

text \<open>The heading searched for, brought into the range below 180 degrees.\<close>

definition head180 :: "real \<Rightarrow> real" where
  "head180 h = (if 180 \<le> h then h - 180 else h)"

text \<open>
  Two example airports for the search by heading: one with three edges of headings 8,
  100 and 178 degrees, and one with a single edge of heading 90 degrees.
\<close>

definition heading_apt :: Apt where
  "heading_apt = (new_Apt ''XHDG'')
     \<lparr>vecTaxiNodes := [new_TaxiNode (Fin 0) (Fin 0), new_TaxiNode (Fin 0) (Fin (1 / 1000))],
      vecTaxiEdges := [new_TaxiEdge TAXI_WAY 0 1 (Fin 8) (Fin 100),
                       new_TaxiEdge TAXI_WAY 0 1 (Fin 100) (Fin 100),
                       new_TaxiEdge TAXI_WAY 1 0 (Fin 358) (Fin 100)]\<rparr>"

definition single_apt :: Apt where
  "single_apt = (new_Apt ''XONE'')
     \<lparr>vecTaxiNodes := [new_TaxiNode (Fin 0) (Fin 0), new_TaxiNode (Fin 0) (Fin (1 / 1000))],
      vecTaxiEdges := [new_TaxiEdge TAXI_WAY 0 1 (Fin 90) (Fin 100)]\<rparr>"

section \<open>The closest edge\<close>

text \<open>Struct \<open>distToLineTy\<close> of the header, with its member function.\<close>

record distToLineTy =
  dist2 :: double
  len2 :: double
  leg1_len2 :: double
  leg2_len2 :: double

definition DistSqrOfBaseBeyondLine :: "distToLineTy \<Rightarrow> double" where
  "DistSqrOfBaseBeyondLine d = dsub (dmax (leg1_len2 d) (leg2_len2 d)) (len2 d)"

text \<open>
  Modelled from the spec: \<open>DistPointToLineSqr\<close> is declared in the header and defined
  in a file that is not part of the sources at hand. By the spec, \<open>dist2\<close> is the square
  of the distance of the point to the finite segment between the two end points, \<open>len2\<close>
  the square of the length of the segment, and \<open>leg1_len2\<close> and \<open>leg2_len2\<close> the squares
  of the distances of the base to the first and to the second end point, where the base
  is the point of the infinite line through the end points that is closest to the given
  point. Here the base is computed by projecting the point onto the line; the point of
  the segment closest to the given point is the first end point if the base lies before
  it, the second end point if the base lies behind it, and the base otherwise. On a
  segment of length zero the base is its end point.
\<close>

definition dsqr :: "double \<Rightarrow> double" where
  "dsqr a = dmul a a"

definition DistPointToLineSqr ::
  "double \<Rightarrow> double \<Rightarrow> double \<Rightarrow> double \<Rightarrow> double \<Rightarrow> double \<Rightarrow> distToLineTy" where
  "DistPointToLineSqr pt_x pt_y ln_x1 ln_y1 ln_x2 ln_y2 =
     (let dx = dsub ln_x2 ln_x1;
          dy = dsub ln_y2 ln_y1;
          l2 = dadd (dsqr dx) (dsqr dy);
          t = (if l2 = Fin 0 then Fin 0
               else ddiv (dadd (dmul (dsub pt_x ln_x1) dx) (dmul (dsub pt_y ln_y1) dy)) l2);
          base_x = dadd ln_x1 (dmul t dx);
          base_y = dadd ln_y1 (dmul t dy);
          near_x = (if dless t (Fin 0) then ln_x1 else if dgt t (Fin 1) then ln_x2 else base_x);
          near_y = (if dless t (Fin 0) then ln_y1 else if dgt t (Fin 1) then ln_y2 else base_y)
      in \<lparr>dist2 = dadd (dsqr (dsub pt_x near_x)) (dsqr (dsub pt_y near_y)),
          len2 = l2,
          leg1_len2 = dadd (dsqr (dsub base_x ln_x1)) (dsqr (dsub base_y ln_y1)),
          leg2_len2 = dadd (dsqr (dsub base_x ln_x2)) (dsqr (dsub base_y ln_y2))\<rparr>)"

text \<open>
  Modelled from the spec: \<open>DistResultToBaseLoc\<close> is declared in the header and defined
  in a file that is not part of the sources at hand. By the spec it computes, from the
  two end points and the result of \<open>DistPointToLineSqr\<close>, the closest point on the line,
  not clamped to the segment. Here: the point of the line whose distance to the first
  end point is the root of \<open>leg1_len2\<close>, on the side of the second end point unless the
  second leg is longer than both the line and the first leg; on a segment of length
  zero, its end point.
\<close>

definition DistResultToBaseLoc ::
  "double \<Rightarrow> double \<Rightarrow> double \<Rightarrow> double \<Rightarrow> distToLineTy \<Rightarrow> double \<times> double" where
  "DistResultToBaseLoc ln_x1 ln_y1 ln_x2 ln_y2 res =
     (if len2 res = Fin 0 then (ln_x1, ln_y1)
      else
        let r = ddiv (dsqrt (leg1_len2 res)) (dsqrt (len2 res));
            f = (if dgt (leg2_len2 res) (len2 res) \<and> dgt (leg2_len2 res) (leg1_len2 res)
                 then dneg r else r)
        in (dadd ln_x1 (dmul f (dsub ln_x2 ln_x1)), dadd ln_y1 (dmul f (dsub ln_y2 ln_y1))))"


text \<open>
  Settings and constants that the airport code reads and that are defined outside the
  sources at hand: the snapping distance of the data references and constants of the
  header of constants.
\<close>

record cfg =
  GetFdSnapTaxiDist_m :: int
  ART_EDGE_ANGLE_TOLERANCE :: double
  FPH_TAXI :: int
  FPH_TOUCH_DOWN :: int
  ART_RWY_MAX_HEAD_DIFF :: double
  ART_RWY_MAX_VSI_F :: double
  ART_APPR_SPEED_F :: double
  Ms_per_FTm :: double
  KT_per_M_per_S :: double

text \<open>
  The loop of \<open>Apt::FindClosestEdge\<close> over the edges found. The state is the best edge
  with its two nodes (the three pointers of the source, which are set together) and the
  best distance. An edge whose node index is out of range makes the result \<open>None\<close>.
\<close>

fun closest_loop ::
  "Apt \<Rightarrow> bool \<Rightarrow> double \<Rightarrow> double \<Rightarrow> double \<Rightarrow> nat list \<Rightarrow>
   (nat \<times> TaxiNode \<times> TaxiNode) option \<Rightarrow> distToLineTy \<Rightarrow>
   ((nat \<times> TaxiNode \<times> TaxiNode) option \<times> distToLineTy) option" where
  "closest_loop apt bHeadInverted pt_x pt_z maxBeyond2 [] best bestDist = Some (best, bestDist)"
| "closest_loop apt bHeadInverted pt_x pt_z maxBeyond2 (ei # lstEdges) best bestDist =
     (let e = vecTaxiEdges apt ! ei
      in case (if bHeadInverted then GetB e apt else GetA e apt) of
           None \<Rightarrow> None
         | Some nfrom \<Rightarrow>
       (case (if bHeadInverted then GetA e apt else GetB e apt) of
           None \<Rightarrow> None
         | Some nto \<Rightarrow>
           if \<not> HasLocalCoords nfrom \<or> \<not> HasLocalCoords nto
           then closest_loop apt bHeadInverted pt_x pt_z maxBeyond2 lstEdges best bestDist
           else
             let d = DistPointToLineSqr pt_x pt_z (loc_x nfrom) (loc_z nfrom)
                       (loc_x nto) (loc_z nto)
             in if dge (dist2 d) (dist2 bestDist)
                then closest_loop apt bHeadInverted pt_x pt_z maxBeyond2 lstEdges best bestDist
                else if dgt (DistSqrOfBaseBeyondLine d) maxBeyond2
                then closest_loop apt bHeadInverted pt_x pt_z maxBeyond2 lstEdges best bestDist
                else closest_loop apt bHeadInverted pt_x pt_z maxBeyond2 lstEdges
                       (Some (ei, nfrom, nto)) d))"

text \<open>
  The template function \<open>sqr\<close> of the header at type \<open>int\<close>: the product of two \<open>int\<close>
  values. Where the product does not fit into 32 bits the behaviour of the source is
  undefined; the model wraps the product around to 32 bits, as the multiplication of
  the machine does.
\<close>

definition sqr_int :: "int \<Rightarrow> int" where
  "sqr_int a = (a * a + 2 ^ 31) mod 2 ^ 32 - 2 ^ 31"

text \<open>
  \<open>Apt::FindClosestEdge\<close> returns the index of the closest edge, if there is one, and
  the base point after the call. \<open>_maxDist_m\<close> is an \<open>int\<close> whose square is taken
  before the conversion to double.
\<close>

definition FindClosestEdge ::
  "geo \<Rightarrow> Apt \<Rightarrow> positionTy \<Rightarrow> positionTy \<Rightarrow> int \<Rightarrow> double \<Rightarrow>
   (nat option \<times> positionTy) option" where
  "FindClosestEdge G apt pos basePt maxDist_m angleTolerance =
     (let bestDist0 = \<lparr>dist2 = Fin (of_int (sqr_int maxDist_m)), len2 = NaN,
                        leg1_len2 = NaN, leg2_len2 = NaN\<rparr>;
          maxDistBeyondLineEnd2 = Fin (of_int (sqr_int maxDist_m));
          pt = XPLMWorldToLocal G (p_lat pos) (p_lon pos) (p_alt_m pos);
          pt_x = fst pt; pt_y = fst (snd pt); pt_z = snd (snd pt);
          headSearch = HeadingNormalize G (p_heading pos);
          found = FindEdgesForHeading apt headSearch angleTolerance [] UNKNOWN_WAY
      in if \<not> fst found then Some (None, basePt)
         else
           case closest_loop apt (dge headSearch (Fin 180)) pt_x pt_z maxDistBeyondLineEnd2
                  (snd found) None bestDist0 of
             None \<Rightarrow> None
           | Some (None, bestDist) \<Rightarrow> Some (None, basePt)
           | Some (Some (ei, bestFrom, bestTo), bestDist) \<Rightarrow>
               let base = DistResultToBaseLoc (loc_x bestFrom) (loc_z bestFrom)
                            (loc_x bestTo) (loc_z bestTo) bestDist;
                   w = XPLMLocalToWorld G (fst base) pt_y (snd base)
               in Some (Some ei, basePt\<lparr>p_lat := fst w, p_lon := fst (snd w)\<rparr>))"

text \<open>
  \<open>Apt::SnapToTaxiway\<close>: the position is passed both as the position searched for and
  as the base point to change. The result is the boolean result and the position after
  the call; logging is no part of the model.
\<close>

definition SnapToTaxiway :: "geo \<Rightarrow> cfg \<Rightarrow> Apt \<Rightarrow> positionTy \<Rightarrow> (bool \<times> positionTy) option" where
  "SnapToTaxiway G C apt pos =
     (case FindClosestEdge G apt pos pos (GetFdSnapTaxiDist_m C) (ART_EDGE_ANGLE_TOLERANCE C) of
        None \<Rightarrow> None
      | Some (None, pos') \<Rightarrow> Some (False, pos')
      | Some (Some ei, pos') \<Rightarrow>
          Some (True,
                if etype (vecTaxiEdges apt ! ei) \<noteq> RUN_WAY
                then pos'\<lparr>flightPhase := FPH_TAXI C\<rparr> else pos'))"

section \<open>The map of airports\<close>

text \<open>
  The global map \<open>gmapApt\<close> from identifiers to airports is a list of pairs in the order
  in which the map is iterated. \<open>LTAptFind\<close> returns the first airport whose bounding
  box contains the position.
\<close>

type_synonym mapAptTy = "(string \<times> Apt) list"

definition LTAptFind :: "geo \<Rightarrow> mapAptTy \<Rightarrow> positionTy \<Rightarrow> Apt option" where
  "LTAptFind G gmapApt pos =
     map_option snd (find (\<lambda>pair. bb_contains G (bounds (snd pair)) pos) gmapApt)"

definition LTAptSnap :: "geo \<Rightarrow> cfg \<Rightarrow> mapAptTy \<Rightarrow> positionTy \<Rightarrow> (bool \<times> positionTy) option" where
  "LTAptSnap G C gmapApt pos =
     (if GetFdSnapTaxiDist_m C \<le> 0 then Some (False, pos)
      else case LTAptFind G gmapApt pos of
             None \<Rightarrow> Some (False, pos)
           | Some apt \<Rightarrow> SnapToTaxiway G C apt pos)"



text \<open>
  The situation of the spec's example: an airport whose only edge is a straight
  taxiway of length \<open>L\<close> from the local point (0,0) to the local point (L,0), which is
  heading 90, and a position with heading 90 whose local coordinates are \<open>px\<close> along
  the taxiway and 3 metres to its side.
\<close>

definition lateral_scene :: "geo \<Rightarrow> Apt \<Rightarrow> positionTy \<Rightarrow> real \<Rightarrow> real \<Rightarrow> double \<Rightarrow> bool" where
  "lateral_scene G apt pos L px y =
     (0 < L
      \<and> length (vecTaxiNodes apt) = 2
      \<and> loc_x (vecTaxiNodes apt ! 0) = Fin 0 \<and> loc_z (vecTaxiNodes apt ! 0) = Fin 0
      \<and> loc_x (vecTaxiNodes apt ! 1) = Fin L \<and> loc_z (vecTaxiNodes apt ! 1) = Fin 0
      \<and> length (vecTaxiEdges apt) = 1
      \<and> etype (vecTaxiEdges apt ! 0) = TAXI_WAY
      \<and> node_a (vecTaxiEdges apt ! 0) = 0 \<and> node_b (vecTaxiEdges apt ! 0) = 1
      \<and> angle (vecTaxiEdges apt ! 0) = Fin 90
      \<and> HeadingNormalize G (p_heading pos) = Fin 90
      \<and> XPLMWorldToLocal G (p_lat pos) (p_lon pos) (p_alt_m pos) = (Fin px, y, Fin 3))"

text \<open>
  Examples in the flat world: an airport with one taxiway of 100 metres along the
  longitude axis, whose nodes have their local coordinates; a position 3 metres beside
  its middle; and a position 3 metres beside the point 6 metres past its end.
\<close>

definition local_TaxiNode :: "double \<Rightarrow> double \<Rightarrow> TaxiNode" where
  "local_TaxiNode la lo =
     (new_TaxiNode la lo)\<lparr>loc_x := fst (XPLMWorldToLocal flat_geo la lo (Fin 0)),
                          loc_z := snd (snd (XPLMWorldToLocal flat_geo la lo (Fin 0)))\<rparr>"

definition snap_apt :: Apt where
  "snap_apt = (new_Apt ''XSNP'')
     \<lparr>vecTaxiNodes := [local_TaxiNode (Fin 0) (Fin 0), local_TaxiNode (Fin 0) (Fin (1 / 1000))],
      vecTaxiEdges := [new_TaxiEdge TAXI_WAY 0 1 (Fin 90) (Fin 100)]\<rparr>"

definition snap_pos :: positionTy where
  "snap_pos = new_positionTy (Fin (- 3 / 100000)) (Fin (50 / 100000)) (Fin 0) (Fin 1000)
                (Fin 90) (Fin 0) (Fin 0) GND_ON UNIT_WORLD UNIT_DEG 0"


definition example_cfg :: cfg where
  "example_cfg =
     \<lparr>GetFdSnapTaxiDist_m = 5, ART_EDGE_ANGLE_TOLERANCE = Fin 30, FPH_TAXI = 10,
      FPH_TOUCH_DOWN = 64, ART_RWY_MAX_HEAD_DIFF = Fin 10, ART_RWY_MAX_VSI_F = Fin 2,
      ART_APPR_SPEED_F = Fin (9 / 10), Ms_per_FTm = Fin (508 / 100000),
      KT_per_M_per_S = Fin (194384 / 100000)\<rparr>"




text \<open>The example position after it is snapped to the taxiway of the example airport.\<close>

definition snapped_pos :: positionTy where
  "snapped_pos = snap_pos\<lparr>p_lat := Fin 0, p_lon := Fin (50 / 100000), flightPhase := 10\<rparr>"

section \<open>Reading the airport file\<close>

text \<open>
  Modelled from the spec: the input file is a source of lines, and \<open>safeGetline\<close>,
  which is defined in a file that is not part of the sources at hand, reads the next
  line. The stream is the list of the lines not yet read and the flag that the
  stream is good, which is what \<open>while (fIn)\<close> tests. Reading when no line is left
  gives the empty line and leaves the stream not good.
\<close>

type_synonym ifstream = "string list \<times> bool"

definition safeGetline :: "ifstream \<Rightarrow> string \<times> ifstream" where
  "safeGetline fIn =
     (if \<not> snd fIn then ([], fIn)
      else case fst fIn of
             [] \<Rightarrow> ([], ([], False))
           | l # ls \<Rightarrow> (l, (ls, True)))"

text \<open>
  The functions that split a line into fields and convert a field to a number:
  \<open>str_tokenize\<close> (called with blank and tab as separators) is defined outside the
  sources at hand, \<open>std::stoi\<close> and \<open>std::stod\<close> belong to the standard library. The
  two conversions throw an exception when the field is no number, which is the result
  \<open>None\<close> here. The parser is modelled for any such functions.
\<close>

record io =
  str_tokenize :: "string \<Rightarrow> string list"
  stoi :: "string \<Rightarrow> int option"
  stod :: "string \<Rightarrow> double option"

datatype parse_error = InvalidArgument

definition APT_MIN_TAXI_SEGM_LEN_M2 :: double where
  "APT_MIN_TAXI_SEGM_LEN_M2 = dmul (Fin 10) (Fin 10)"

definition is_blank :: "char \<Rightarrow> bool" where
  "is_blank c = (c = CHR '' '' \<or> c = CHR 0x09)"

text \<open>
  The Line Type Code of a line with code \<open>lnCod\<close>: 1 unless the line has the field
  that holds it.
\<close>

definition line_type_code :: "io \<Rightarrow> int \<Rightarrow> string list \<Rightarrow> int option" where
  "line_type_code IO lnCod flds =
     (if lnCod = 111 \<or> lnCod = 113
      then (if length flds \<ge> 4 then stoi IO (flds ! 3) else Some 1)
      else if lnCod = 112 \<or> lnCod = 114
      then (if length flds \<ge> 6 then stoi IO (flds ! 5) else Some 1)
      else Some 1)"

text \<open>
  The first loop of \<open>ReadOneTaxiLine\<close>: it reads lines and collects the nodes of the
  taxi centerline until the stream is not good or a line ends the section. The result
  is the list of nodes, the last line read and the stream, or the exception.
\<close>

function ReadOneTaxiLine_read ::
  "io \<Rightarrow> ifstream \<Rightarrow> TaxiNode list \<Rightarrow> string \<Rightarrow>
   parse_error + (TaxiNode list \<times> string \<times> ifstream)" where
  "ReadOneTaxiLine_read IO fIn vecNodes cur =
     (if \<not> snd fIn then Inr (vecNodes, cur, fIn)
      else
        let r = safeGetline fIn; cur' = fst r; fIn' = snd r
        in if cur' = [] then ReadOneTaxiLine_read IO fIn' vecNodes cur'
           else
             let flds = str_tokenize IO cur'
             in if length flds < 3 then Inr (vecNodes, cur', fIn')
                else
                  case stoi IO (flds ! 0) of
                    None \<Rightarrow> Inl InvalidArgument
                  | Some lnCod \<Rightarrow>
                      if 111 \<le> lnCod \<and> lnCod \<le> 116
                      then
                        (case line_type_code IO lnCod flds of
                           None \<Rightarrow> Inl InvalidArgument
                         | Some lnTypeCode \<Rightarrow>
                             if lnTypeCode = 1 \<or> lnTypeCode = 7
                                \<or> lnTypeCode = 51 \<or> lnTypeCode = 57
                             then
                               (case stod IO (flds ! 1) of
                                  None \<Rightarrow> Inl InvalidArgument
                                | Some la \<Rightarrow>
                                    (case stod IO (flds ! 2) of
                                       None \<Rightarrow> Inl InvalidArgument
                                     | Some lo \<Rightarrow>
                                         ReadOneTaxiLine_read IO fIn'
                                           (vecNodes @ [new_TaxiNode la lo]) cur'))
                             else Inr (vecNodes, cur', fIn'))
                      else Inr (vecNodes, cur', fIn'))"
  by pat_completeness auto
termination
  by (relation "measure (\<lambda>(IO, fIn, vecNodes, cur). length (fst fIn) + (if snd fIn then 1 else 0))")
     (auto simp: safeGetline_def split: list.splits)

declare ReadOneTaxiLine_read.simps [simp del]

text \<open>
  A new node with an edge from the node added before it: the two calls
  \<open>idx = apt.AddTaxiNode(...)\<close> and \<open>apt.AddTaxiEdge(idx-1, idx, d)\<close>, whose boolean
  result the source ignores.
\<close>

definition add_node_and_edge :: "geo \<Rightarrow> TaxiNode \<Rightarrow> double \<Rightarrow> Apt \<Rightarrow> Apt" where
  "add_node_and_edge G b d apt =
     (let r = AddTaxiNode G (lat b) (lon b) apt; idx = fst r
      in snd (AddTaxiEdge G (idx - 1) idx d (snd r)))"

definition node_dist2 :: "geo \<Rightarrow> TaxiNode \<Rightarrow> TaxiNode \<Rightarrow> double" where
  "node_dist2 G a b = DistLatLonSqr G (lat a) (lon a) (lat b) (lon b)"

text \<open>\<open>vecNodes.erase\<close> of the element at position \<open>k\<close>.\<close>

definition erase_at :: "nat \<Rightarrow> 'a list \<Rightarrow> 'a list" where
  "erase_at k xs = take k xs @ drop (Suc k) xs"

text \<open>
  The loop that thins the nodes between the first and the last three: \<open>iter\<close> is the
  position of the iterator. The source runs it until \<open>iter + 3\<close> is the end of the
  vector; the iterator starts at 0 in a vector of at least three nodes and never
  passes that position, so the test is \<open>iter + 3 < size\<close> here.
\<close>

function ReadOneTaxiLine_thin :: "geo \<Rightarrow> nat \<Rightarrow> TaxiNode list \<Rightarrow> Apt \<Rightarrow> TaxiNode list \<times> Apt" where
  "ReadOneTaxiLine_thin G iter vecNodes apt =
     (if iter + 3 < length vecNodes
      then
        let a = vecNodes ! iter;
            b = vecNodes ! (iter + 1);
            distEst = node_dist2 G a b
        in if dless distEst APT_MIN_TAXI_SEGM_LEN_M2
           then ReadOneTaxiLine_thin G iter (erase_at (iter + 1) vecNodes) apt
           else ReadOneTaxiLine_thin G (iter + 1) vecNodes
                  (add_node_and_edge G b (dsqrt distEst) apt)
      else (vecNodes, apt))"
  by pat_completeness auto
termination
  by (relation "measure (\<lambda>(G, iter, vecNodes, apt). length vecNodes - iter)")
     (auto simp: erase_at_def)

declare ReadOneTaxiLine_thin.simps [simp del]

text \<open>
  The decision for the last three nodes: the result is the vector of nodes, the distance
  to the last node and the airport.
\<close>

definition ReadOneTaxiLine_last3 ::
  "geo \<Rightarrow> TaxiNode list \<Rightarrow> Apt \<Rightarrow> TaxiNode list \<times> double \<times> Apt" where
  "ReadOneTaxiLine_last3 G vecNodes apt =
     (if length vecNodes \<ge> 3
      then
        let a = vecNodes ! (length vecNodes - 3);
            b = vecNodes ! (length vecNodes - 2);
            c = last vecNodes;
            AB = node_dist2 G a b;
            BC = node_dist2 G b c
        in if dless AB APT_MIN_TAXI_SEGM_LEN_M2 \<or> dless BC APT_MIN_TAXI_SEGM_LEN_M2
           then (erase_at (length vecNodes - 2) vecNodes, dadd (dsqrt AB) (dsqrt BC), apt)
           else (vecNodes, dsqrt BC, add_node_and_edge G b (dsqrt AB) apt)
      else (vecNodes, NaN, apt))"

text \<open>
  The second half of \<open>ReadOneTaxiLine\<close>, which processes the nodes read: nothing happens
  with fewer than two nodes.
\<close>

definition ReadOneTaxiLine_nodes :: "geo \<Rightarrow> TaxiNode list \<Rightarrow> Apt \<Rightarrow> Apt" where
  "ReadOneTaxiLine_nodes G vecNodes apt =
     (if length vecNodes \<ge> 2
      then
        let apt1 = snd (AddTaxiNode G (lat (hd vecNodes)) (lon (hd vecNodes)) apt);
            t = (if length vecNodes \<ge> 3 then ReadOneTaxiLine_thin G 0 vecNodes apt1
                 else (vecNodes, apt1));
            l3 = ReadOneTaxiLine_last3 G (fst t) (snd t);
            vecNodes3 = fst l3; apt3 = snd (snd l3);
            y = vecNodes3 ! (length vecNodes3 - 2);
            z = last vecNodes3;
            distToLast = (if isnan (fst (snd l3)) then dsqrt (node_dist2 G y z)
                          else fst (snd l3))
        in add_node_and_edge G z distToLast apt3
      else apt)"

text \<open>
  \<open>ReadOneTaxiLine\<close> returns the last line read, the stream and the airport, or the
  exception that a conversion has thrown.
\<close>

definition ReadOneTaxiLine ::
  "geo \<Rightarrow> io \<Rightarrow> ifstream \<Rightarrow> Apt \<Rightarrow> parse_error + (string \<times> ifstream \<times> Apt)" where
  "ReadOneTaxiLine G IO fIn apt =
     (case ReadOneTaxiLine_read IO fIn [] [] of
        Inl e \<Rightarrow> Inl e
      | Inr (vecNodes, cur, fIn') \<Rightarrow> Inr (cur, fIn', ReadOneTaxiLine_nodes G vecNodes apt))"

text \<open>
  The nodes of a section lie on a line at distances of 2 metres, as the estimated
  distance sees them: the estimated distance between node \<open>i\<close> and a later node \<open>j\<close>
  is 2 metres times \<open>j - i\<close>.
\<close>

definition spaced_2m :: "geo \<Rightarrow> TaxiNode list \<Rightarrow> bool" where
  "spaced_2m G ps =
     (\<forall>i < length ps. \<forall>j < length ps.
        i < j \<longrightarrow> node_dist2 G (ps ! i) (ps ! j) = Fin ((2 * real (j - i)) * (2 * real (j - i))))"

text \<open>
  Examples for the parser: five lines of a taxi centerline whose points are 2 metres
  apart in the flat world, a function that splits a line at blanks and tabs, and
  conversions that know the fields of the example lines.
\<close>

fun split_blank_acc :: "string \<Rightarrow> string \<Rightarrow> string list" where
  "split_blank_acc tok [] = (if tok = [] then [] else [tok])"
| "split_blank_acc tok (c # cs) =
     (if is_blank c
      then (if tok = [] then split_blank_acc [] cs else tok # split_blank_acc [] cs)
      else split_blank_acc (tok @ [c]) cs)"

definition example_io :: io where
  "example_io =
     \<lparr>str_tokenize = split_blank_acc [],
      stoi = (\<lambda>s. if s = ''1'' then Some 1 else if s = ''100'' then Some 100
                  else if s = ''111'' then Some 111 else if s = ''115'' then Some 115
                  else if s = ''120'' then Some 120 else if s = ''99'' then Some 99
                  else None),
      stod = (\<lambda>s. if s = ''0'' then Some (Fin 0)
                  else if s = ''0.00000'' then Some (Fin 0)
                  else if s = ''0.00002'' then Some (Fin (2 / 100000))
                  else if s = ''0.00004'' then Some (Fin (4 / 100000))
                  else if s = ''0.00006'' then Some (Fin (6 / 100000))
                  else if s = ''0.00008'' then Some (Fin (8 / 100000))
                  else if s = ''0.02000'' then Some (Fin (2 / 100))
                  else None)\<rparr>"

definition example_taxi_lines :: "string list" where
  "example_taxi_lines =
     [''111 0 0.00000'', ''111 0 0.00002'', ''111 0 0.00004'', ''111 0 0.00006'',
      ''115 0 0.00008'', ''99 end of the section'']"

definition example_taxi_nodes :: "TaxiNode list" where
  "example_taxi_nodes =
     [new_TaxiNode (Fin 0) (Fin 0), new_TaxiNode (Fin 0) (Fin (2 / 100000)),
      new_TaxiNode (Fin 0) (Fin (4 / 100000)), new_TaxiNode (Fin 0) (Fin (6 / 100000)),
      new_TaxiNode (Fin 0) (Fin (8 / 100000))]"

text \<open>
  \<open>std::sort\<close> of the edges with the comparison \<open>CompHeadLess\<close>. The standard leaves
  the order of edges with equal headings open; the model inserts one edge after the
  other into a sorted list.
\<close>

fun insort_edge :: "TaxiEdge \<Rightarrow> TaxiEdge list \<Rightarrow> TaxiEdge list" where
  "insort_edge e [] = [e]"
| "insort_edge e (x # xs) = (if CompHeadLess e x then e # x # xs else x # insort_edge e xs)"

definition sort_edges :: "TaxiEdge list \<Rightarrow> TaxiEdge list" where
  "sort_edges es = foldr insort_edge es []"

text \<open>
  \<open>gmapApt.count(key)\<close> and \<open>gmapApt.emplace(key, apt)\<close>: the map keeps its keys
  unique and in ascending order, and \<open>emplace\<close> adds nothing if the key is there.
\<close>

definition gmap_count :: "mapAptTy \<Rightarrow> string \<Rightarrow> nat" where
  "gmap_count gm key = (if key \<in> fst ` set gm then 1 else 0)"

definition gmap_emplace :: "string \<Rightarrow> Apt \<Rightarrow> mapAptTy \<Rightarrow> mapAptTy" where
  "gmap_emplace key apt gm =
     (if key \<in> fst ` set gm then gm else insort_key fst (key, apt) gm)"

text \<open>
  \<open>Apt::AddApt\<close> enlarges the bounding box of the airport, sorts its edges and moves
  the airport into the map. \<open>AddApt_prepare\<close> is the airport as it is moved. The caller's
  airport is left moved-from: its three vectors are empty, as the standard guarantees,
  and its identifier is empty, as the common implementations of \<open>std::string\<close> leave it.
\<close>

definition AddApt_prepare :: "geo \<Rightarrow> cfg \<Rightarrow> Apt \<Rightarrow> Apt" where
  "AddApt_prepare G C apt =
     (let apt1 = apt\<lparr>bounds := bb_enlarge_m G (bounds apt) (Fin (of_int (GetFdSnapTaxiDist_m C)))\<rparr>
      in apt1\<lparr>vecTaxiEdges := sort_edges (vecTaxiEdges apt1)\<rparr>)"

definition AddApt :: "geo \<Rightarrow> cfg \<Rightarrow> Apt \<Rightarrow> mapAptTy \<Rightarrow> mapAptTy" where
  "AddApt G C apt gm =
     gmap_emplace (apt_id (AddApt_prepare G C apt)) (AddApt_prepare G C apt) gm"

definition moved_from_Apt :: "Apt \<Rightarrow> Apt" where
  "moved_from_Apt apt = apt\<lparr>apt_id := [], vecTaxiNodes := [], vecRwyEndPts := [], vecTaxiEdges := []\<rparr>"

text \<open>
  The state of the loop of \<open>ReadOneAptFile\<close>: the stream, the line \<open>ln\<close>, the flag
  \<open>bProcessGivenLn\<close>, the airport that is being read and the global map of airports.
\<close>

record parse_state =
  ps_fIn :: ifstream
  ps_ln :: string
  bProcessGivenLn :: bool
  ps_apt :: Apt
  gmapApt :: mapAptTy

text \<open>The three tests on the beginning of a line.\<close>

definition is_apt_header :: "string \<Rightarrow> bool" where
  "is_apt_header cur = (length cur > 10 \<and> cur ! 0 = CHR ''1'' \<and> is_blank (cur ! 1))"

definition is_rwy_line :: "string \<Rightarrow> bool" where
  "is_rwy_line cur =
     (length cur > 20 \<and> cur ! 0 = CHR ''1'' \<and> cur ! 1 = CHR ''0'' \<and> cur ! 2 = CHR ''0''
      \<and> is_blank (cur ! 3))"

definition is_taxi_marker :: "string \<Rightarrow> bool" where
  "is_taxi_marker cur =
     ((length cur = 3 \<and> cur = ''120'')
      \<or> (length cur \<ge> 4 \<and> cur ! 0 = CHR ''1'' \<and> cur ! 1 = CHR ''2'' \<and> cur ! 2 = CHR ''0''
          \<and> is_blank (cur ! 3)))"

text \<open>
  The beginning of an airport: the airport read so far is added to the map if it is
  valid and is cleared otherwise; the new airport gets its identifier if the line has
  one and the map does not know it.
\<close>

definition apt_header :: "geo \<Rightarrow> cfg \<Rightarrow> io \<Rightarrow> string \<Rightarrow> parse_state \<Rightarrow> parse_state" where
  "apt_header G C IO cur s =
     (let s1 = (if IsValid (ps_apt s)
                then s\<lparr>ps_apt := moved_from_Apt (AddApt_prepare G C (ps_apt s)),
                        gmapApt := AddApt G C (ps_apt s) (gmapApt s)\<rparr>
                else s\<lparr>ps_apt := new_Apt []\<rparr>);
          flds = str_tokenize IO cur
      in if length flds \<ge> 5 \<and> gmap_count (gmapApt s1) (flds ! 4) = 0
         then s1\<lparr>ps_apt := new_Apt (flds ! 4)\<rparr>
         else s1)"

text \<open>A runway line; a field that is no number throws.\<close>

definition rwy_line ::
  "geo \<Rightarrow> io \<Rightarrow> boundingBoxTy \<Rightarrow> string \<Rightarrow> parse_state \<Rightarrow> parse_error + parse_state" where
  "rwy_line G IO box cur s =
     (let flds = str_tokenize IO cur
      in if length flds = 26
         then
           case (stod IO (flds ! 9), stod IO (flds ! 10)) of
             (Some la, Some lo) \<Rightarrow>
               if dle (Fin (- 90)) la \<and> dle la (Fin 90)
                  \<and> dle (Fin (- 180)) lo \<and> dless lo (Fin 180)
               then
                 if HasTaxiWays (ps_apt s)
                    \<or> bb_contains G box
                         (new_positionTy la lo NaN NaN NaN NaN NaN GND_UNKNOWN UNIT_WORLD UNIT_DEG 0)
                 then
                   (case (stod IO (flds ! 11), stod IO (flds ! 18),
                          stod IO (flds ! 19), stod IO (flds ! 20)) of
                      (Some displaced1, Some lat2, Some lon2, Some displaced2) \<Rightarrow>
                        Inr (s\<lparr>ps_apt := AddRwyEnds G la lo displaced1 (flds ! 8)
                                            lat2 lon2 displaced2 (flds ! 17) (ps_apt s)\<rparr>)
                    | _ \<Rightarrow> Inl InvalidArgument)
                 else Inr (s\<lparr>ps_apt := new_Apt []\<rparr>)
               else Inr s
           | _ \<Rightarrow> Inl InvalidArgument
         else Inr s)"

text \<open>One pass through the body of the loop of \<open>ReadOneAptFile\<close>.\<close>

definition ReadOneAptFile_body ::
  "geo \<Rightarrow> cfg \<Rightarrow> io \<Rightarrow> boundingBoxTy \<Rightarrow> parse_state \<Rightarrow> parse_error + parse_state" where
  "ReadOneAptFile_body G C IO box s =
     (let r = (if bProcessGivenLn s then (ps_ln s, ps_fIn s) else safeGetline (ps_fIn s));
          cur = fst r;
          s1 = s\<lparr>ps_fIn := snd r, ps_ln := cur, bProcessGivenLn := False\<rparr>
      in if cur = [] then Inr s1
         else if is_apt_header cur then Inr (apt_header G C IO cur s1)
         else if HasId (ps_apt s1) \<and> is_rwy_line cur then rwy_line G IO box cur s1
         else if HasRwyEndpoints (ps_apt s1) \<and> is_taxi_marker cur
         then
           (case ReadOneTaxiLine G IO (ps_fIn s1) (ps_apt s1) of
              Inl e \<Rightarrow> Inl e
            | Inr (cur2, fIn2, apt2) \<Rightarrow>
                Inr (s1\<lparr>ps_fIn := fIn2, ps_ln := cur2, bProcessGivenLn := True,
                         ps_apt := apt2\<rparr>))
         else Inr s1)"

text \<open>
  What is left to read, for the termination of the loops: the number of lines not yet
  read, plus one while the stream is good; and the rank of a line that is still to be
  processed.
\<close>

definition stream_size :: "ifstream \<Rightarrow> nat" where
  "stream_size fIn = length (fst fIn) + (if snd fIn then 1 else 0)"

definition given_rank :: "parse_state \<Rightarrow> nat" where
  "given_rank s = (if bProcessGivenLn s then (if ps_ln s = [] then 1 else 2) else 0)"

text \<open>
  The loop of \<open>ReadOneAptFile\<close>. \<open>bStopThread n\<close> is the value of the flag
  \<open>bStopThread\<close>, which another thread sets, when the loop tests it for the \<open>n\<close>-th
  time. An exception ends the loop with the state in which it was thrown. The loop
  terminates: each pass either reads from the stream or processes the line that
  \<open>ReadOneTaxiLine\<close> gave back.
\<close>

function ReadOneAptFile_loop ::
  "geo \<Rightarrow> cfg \<Rightarrow> io \<Rightarrow> boundingBoxTy \<Rightarrow> (nat \<Rightarrow> bool) \<Rightarrow> nat \<Rightarrow> parse_state \<Rightarrow>
   parse_error option \<times> parse_state" where
  "ReadOneAptFile_loop G C IO box bStopThread n s =
     (if bStopThread n \<or> \<not> (bProcessGivenLn s \<or> snd (ps_fIn s)) then (None, s)
      else case ReadOneAptFile_body G C IO box s of
             Inl e \<Rightarrow> (Some e, s)
           | Inr s' \<Rightarrow> ReadOneAptFile_loop G C IO box bStopThread (Suc n) s')"
  by pat_completeness auto
termination
proof (relation "measures [\<lambda>(G, C, IO, box, bStopThread, n, s). stream_size (ps_fIn s),
                          \<lambda>(G, C, IO, box, bStopThread, n, s). given_rank s]")
  show "wf (measures [\<lambda>(G, C, IO, box, bStopThread, n, s). stream_size (ps_fIn s),
                          \<lambda>(G, C, IO, box, bStopThread, n, s). given_rank s])" by simp
next
  fix G C IO box and bStopThread :: "nat \<Rightarrow> bool" and n s s'
  assume run: "\<not> (bStopThread n \<or> \<not> (bProcessGivenLn s \<or> snd (ps_fIn s)))"
    and b: "ReadOneAptFile_body G C IO box s = Inr s'"
  have c: "bProcessGivenLn s \<or> snd (ps_fIn s)" using run by simp
  have safeGetline_size: "stream_size (snd (safeGetline fIn)) < stream_size fIn"
    if "snd fIn" for fIn
    using that by (auto simp: safeGetline_def stream_size_def split: list.splits)
  have read_size: "(snd fIn \<longrightarrow> stream_size fIn' < stream_size fIn)
                   \<and> (\<not> snd fIn \<longrightarrow> fIn' = fIn \<and> cur' = cur)"
    if "ReadOneTaxiLine_read IO fIn vecNodes cur = Inr (v, cur', fIn')"
    for IO fIn vecNodes cur v cur' fIn'
    using that
  proof (induction IO fIn vecNodes cur rule: ReadOneTaxiLine_read.induct)
    case (1 IO fIn vecNodes cur)
    show ?case
    proof (cases "snd fIn")
      case False
      thus ?thesis using "1.prems" by (subst (asm) ReadOneTaxiLine_read.simps) simp
    next
      case True
      define r where "r = safeGetline fIn"
      define c1 where "c1 = fst r"
      define f1 where "f1 = snd r"
      have dec: "stream_size f1 < stream_size fIn"
        using safeGetline_size [OF True] by (simp add: f1_def r_def)
      have le: "\<And>vn cc. ReadOneTaxiLine_read IO f1 vn cc = Inr (v, cur', fIn') \<Longrightarrow>
                   (snd f1 \<longrightarrow> stream_size fIn' < stream_size f1) \<and> (\<not> snd f1 \<longrightarrow> fIn' = f1 \<and> cur' = cc)
                 \<Longrightarrow> stream_size fIn' < stream_size fIn"
        using dec by (cases "snd f1") auto
      have unf: "ReadOneTaxiLine_read IO fIn vecNodes cur =
          (if c1 = [] then ReadOneTaxiLine_read IO f1 vecNodes c1
             else
               let flds = str_tokenize IO c1
               in if length flds < 3 then Inr (vecNodes, c1, f1)
                  else
                    case stoi IO (flds ! 0) of
                      None \<Rightarrow> Inl InvalidArgument
                    | Some lnCod \<Rightarrow>
                        if 111 \<le> lnCod \<and> lnCod \<le> 116
                        then
                          (case line_type_code IO lnCod flds of
                             None \<Rightarrow> Inl InvalidArgument
                           | Some lnTypeCode \<Rightarrow>
                               if lnTypeCode = 1 \<or> lnTypeCode = 7
                                  \<or> lnTypeCode = 51 \<or> lnTypeCode = 57
                               then
                                 (case stod IO (flds ! 1) of
                                    None \<Rightarrow> Inl InvalidArgument
                                  | Some la \<Rightarrow>
                                      (case stod IO (flds ! 2) of
                                         None \<Rightarrow> Inl InvalidArgument
                                       | Some lo \<Rightarrow>
                                           ReadOneTaxiLine_read IO f1
                                             (vecNodes @ [new_TaxiNode la lo]) c1))
                               else Inr (vecNodes, c1, f1))
                        else Inr (vecNodes, c1, f1))"
        unfolding c1_def f1_def r_def
        using True by (subst ReadOneTaxiLine_read.simps) (simp add: Let_def)
      have "stream_size fIn' < stream_size fIn"
      proof (cases "c1 = []")
        case e: True
        hence run: "ReadOneTaxiLine_read IO f1 vecNodes c1 = Inr (v, cur', fIn')"
          using "1.prems" unf by simp
        from "1.IH"(1) [OF _ r_def c1_def f1_def e run] True
        show ?thesis using le [OF run] by simp
      next
        case ne: False
        define flds where "flds = str_tokenize IO c1"
        show ?thesis
        proof (cases "length flds < 3")
          case True
          hence "fIn' = f1" using "1.prems" unf ne by (simp add: Let_def flds_def)
          thus ?thesis using dec by simp
        next
          case l3: False
          then obtain lnCod where sc: "stoi IO (flds ! 0) = Some lnCod"
            using "1.prems" unf ne by (cases "stoi IO (flds ! 0)") (simp_all add: Let_def flds_def)
          show ?thesis
          proof (cases "111 \<le> lnCod \<and> lnCod \<le> 116")
            case False
            hence "fIn' = f1" using "1.prems" unf ne l3 sc by (auto simp: Let_def flds_def split: if_splits)
            thus ?thesis using dec by simp
          next
            case rng: True
            then obtain tc where tc: "line_type_code IO lnCod flds = Some tc"
              using "1.prems" unf ne l3 sc
              by (cases "line_type_code IO lnCod flds") (simp_all add: Let_def flds_def)
            show ?thesis
            proof (cases "tc = 1 \<or> tc = 7 \<or> tc = 51 \<or> tc = 57")
              case False
              hence "fIn' = f1" using "1.prems" unf ne l3 sc rng tc by (auto simp: Let_def flds_def split: if_splits)
              thus ?thesis using dec by simp
            next
              case cl: True
              then obtain la where la: "stod IO (flds ! 1) = Some la"
                using "1.prems" unf ne l3 sc rng tc
                by (cases "stod IO (flds ! 1)") (simp_all add: Let_def flds_def)
              then obtain lo where lo: "stod IO (flds ! 2) = Some lo"
                using "1.prems" unf ne l3 sc rng tc cl
                by (cases "stod IO (flds ! 2)") (simp_all add: Let_def flds_def)
              have run: "ReadOneTaxiLine_read IO f1 (vecNodes @ [new_TaxiNode la lo]) c1 = Inr (v, cur', fIn')"
                using "1.prems" unf ne l3 sc rng tc cl la lo by (simp add: Let_def flds_def)
              from "1.IH"(2) [OF _ r_def c1_def f1_def ne flds_def l3 sc rng tc cl la lo run] True
              show ?thesis using le [OF run] by simp
            qed
          qed
        qed
      qed
      thus ?thesis using True by simp
    qed
  qed
  have dec: "stream_size (ps_fIn s') < stream_size (ps_fIn s)
         \<or> (stream_size (ps_fIn s') = stream_size (ps_fIn s) \<and> given_rank s' < given_rank s)"
  proof -
    define r where "r = (if bProcessGivenLn s then (ps_ln s, ps_fIn s) else safeGetline (ps_fIn s))"
    define cur where "cur = fst r"
    define s1 where "s1 = s\<lparr>ps_fIn := snd r, ps_ln := cur, bProcessGivenLn := False\<rparr>"
    have s1f: "ps_fIn s1 = snd r" "bProcessGivenLn s1 = False" "ps_ln s1 = cur"
      by (simp_all add: s1_def)
    have first: "(bProcessGivenLn s \<and> snd r = ps_fIn s \<and> cur = ps_ln s)
                 \<or> (\<not> bProcessGivenLn s \<and> stream_size (snd r) < stream_size (ps_fIn s))"
      using c safeGetline_size [of "ps_fIn s"] by (auto simp: r_def cur_def)
    have r0: "given_rank s1 = 0" by (simp add: given_rank_def s1_def)
    have plain: "stream_size (ps_fIn s1) < stream_size (ps_fIn s)
           \<or> (stream_size (ps_fIn s1) = stream_size (ps_fIn s) \<and> given_rank s1 < given_rank s)"
      using first by (auto simp: s1f given_rank_def s1_def)
    have same: "\<And>t. ps_fIn t = ps_fIn s1 \<Longrightarrow> bProcessGivenLn t = False \<Longrightarrow>
         stream_size (ps_fIn t) < stream_size (ps_fIn s)
           \<or> (stream_size (ps_fIn t) = stream_size (ps_fIn s) \<and> given_rank t < given_rank s)"
      using plain by (auto simp: given_rank_def s1f)
    have unf: "ReadOneAptFile_body G C IO box s =
        (if cur = [] then Inr s1
           else if is_apt_header cur then Inr (apt_header G C IO cur s1)
           else if HasId (ps_apt s1) \<and> is_rwy_line cur then rwy_line G IO box cur s1
           else if HasRwyEndpoints (ps_apt s1) \<and> is_taxi_marker cur
           then
             (case ReadOneTaxiLine G IO (ps_fIn s1) (ps_apt s1) of
                Inl e \<Rightarrow> Inl e
              | Inr (cur2, fIn2, apt2) \<Rightarrow>
                  Inr (s1\<lparr>ps_fIn := fIn2, ps_ln := cur2, bProcessGivenLn := True,
                           ps_apt := apt2\<rparr>))
           else Inr s1)"
      unfolding s1_def cur_def r_def by (simp add: ReadOneAptFile_body_def Let_def)
    have hdr: "ps_fIn (apt_header G C IO cur s1) = ps_fIn s1
               \<and> bProcessGivenLn (apt_header G C IO cur s1) = False"
      by (simp add: apt_header_def Let_def s1f)
    have rwy: "\<And>t. rwy_line G IO box cur s1 = Inr t \<Longrightarrow> ps_fIn t = ps_fIn s1 \<and> bProcessGivenLn t = False"
      by (auto simp: rwy_line_def Let_def s1f split: if_splits option.splits prod.splits)
    show ?thesis
    proof (cases "cur = [] \<or> is_apt_header cur \<or> (HasId (ps_apt s1) \<and> is_rwy_line cur)
                  \<or> \<not> (HasRwyEndpoints (ps_apt s1) \<and> is_taxi_marker cur)")
      case True
      have "ps_fIn s' = ps_fIn s1 \<and> bProcessGivenLn s' = False"
      proof (cases "cur = []")
        case e: True
        hence "s' = s1" using b unf by simp
        thus ?thesis by (simp add: s1f)
      next
        case ne: False
        show ?thesis
        proof (cases "is_apt_header cur")
          case h: True
          hence "s' = apt_header G C IO cur s1" using b unf ne by simp
          thus ?thesis using hdr by simp
        next
          case nh: False
          show ?thesis
          proof (cases "HasId (ps_apt s1) \<and> is_rwy_line cur")
            case rw: True
            hence "rwy_line G IO box cur s1 = Inr s'" using b unf ne nh by simp
            thus ?thesis by (rule rwy)
          next
            case nrw: False
            hence "\<not> (HasRwyEndpoints (ps_apt s1) \<and> is_taxi_marker cur)" using True ne nh by blast
            hence "s' = s1" using b unf ne nh nrw by (auto split: if_splits)
            thus ?thesis by (simp add: s1f)
          qed
        qed
      qed
      thus ?thesis using same by blast
    next
      case False
      then obtain cur2 fIn2 apt2 where
        rt: "ReadOneTaxiLine G IO (ps_fIn s1) (ps_apt s1) = Inr (cur2, fIn2, apt2)"
        and s': "s' = s1\<lparr>ps_fIn := fIn2, ps_ln := cur2, bProcessGivenLn := True, ps_apt := apt2\<rparr>"
        using b unf by (auto split: if_splits sum.splits)
      from rt obtain v where rd: "ReadOneTaxiLine_read IO (ps_fIn s1) [] [] = Inr (v, cur2, fIn2)"
        by (auto simp: ReadOneTaxiLine_def split: sum.splits)
      note rs = read_size [OF rd]
      have ne: "cur \<noteq> []" using False by simp
      show ?thesis
      proof (cases "snd (ps_fIn s1)")
        case True
        hence "stream_size fIn2 < stream_size (ps_fIn s1)" using rs by simp
        moreover have "stream_size (ps_fIn s1) \<le> stream_size (ps_fIn s)"
          using first by (auto simp: s1f)
        ultimately show ?thesis by (simp add: s')
      next
        case bad: False
        hence e: "fIn2 = ps_fIn s1" "cur2 = []" using rs by simp_all
        have g: "bProcessGivenLn s"
        proof (rule ccontr)
          assume ng: "\<not> bProcessGivenLn s"
          hence "snd (ps_fIn s)" using c by simp
          hence "cur = [] \<or> snd (snd r)"
            using ng by (auto simp: r_def cur_def safeGetline_def split: list.splits)
          thus False using ne bad by (simp add: s1f)
        qed
        hence "snd r = ps_fIn s" "ps_ln s = cur" by (simp_all add: r_def cur_def)
        thus ?thesis using g ne by (simp add: s' e s1f given_rank_def)
      qed
    qed
  qed
  thus "((G, C, IO, box, bStopThread, Suc n, s'), (G, C, IO, box, bStopThread, n, s))
        \<in> measures [\<lambda>(G, C, IO, box, bStopThread, n, s). stream_size (ps_fIn s),
                          \<lambda>(G, C, IO, box, bStopThread, n, s). given_rank s]"
    by auto
qed

declare ReadOneAptFile_loop.simps [simp del]

text \<open>
  \<open>ReadOneAptFile\<close>: the loop, and the last airport added if it is valid. The result is
  the exception, if one has ended the function, and the map of airports.
\<close>

definition ReadOneAptFile ::
  "geo \<Rightarrow> cfg \<Rightarrow> io \<Rightarrow> boundingBoxTy \<Rightarrow> (nat \<Rightarrow> bool) \<Rightarrow> ifstream \<Rightarrow> mapAptTy \<Rightarrow>
   parse_error option \<times> mapAptTy" where
  "ReadOneAptFile G C IO box bStopThread fIn gm =
     (let r = ReadOneAptFile_loop G C IO box bStopThread 0
                \<lparr>ps_fIn = fIn, ps_ln = [], bProcessGivenLn = False, ps_apt = new_Apt [],
                 gmapApt = gm\<rparr>;
          s = snd r
      in case fst r of
           Some e \<Rightarrow> (Some e, gmapApt s)
         | None \<Rightarrow> (None, if IsValid (ps_apt s) then AddApt G C (ps_apt s) (gmapApt s)
                          else gmapApt s))"

text \<open>
  Every airport in the map either was in the map \<open>gm0\<close> before, or is valid and
  stored under its own identifier.
\<close>

definition reg_ok :: "mapAptTy \<Rightarrow> mapAptTy \<Rightarrow> bool" where
  "reg_ok gm0 gm =
     (\<forall>entry \<in> set gm. entry \<in> set gm0 \<or> (IsValid (snd entry) \<and> fst entry = apt_id (snd entry)))"

text \<open>
  An example file: an airport with a runway of 2000 metres and one taxi centerline,
  followed by an airport without a runway.
\<close>

definition example_apt_file :: "string list" where
  "example_apt_file =
     [''1 0 0 0 XAPT Example airport'',
      ''100 29.87 1 0 0.25 0 2 1 09 0 0.00000 0 0 2 0 0 1 27 0 0.02000 0 0 2 0 0 1'',
      ''120 Taxiway A'',
      ''111 0 0.00000'', ''111 0 0.00002'', ''111 0 0.00004'', ''111 0 0.00006'',
      ''115 0 0.00008'',
      ''1 0 0 0 XBAD No runway here'']"

text \<open>
  The states of the loop of \<open>ReadOneAptFile\<close> on the example file: at the start and
  after each of its five passes; the airport after its runway is read, and after its
  taxi centerline is read.
\<close>

definition example_apt_rw :: Apt where
  "example_apt_rw = AddRwyEnds flat_geo (Fin 0) (Fin 0) (Fin 0) ''09''
                      (Fin 0) (Fin (2 / 100)) (Fin 0) ''27'' (new_Apt ''XAPT'')"

definition example_apt_tx :: Apt where
  "example_apt_tx = ReadOneTaxiLine_nodes flat_geo example_taxi_nodes example_apt_rw"

definition example_state :: "nat \<Rightarrow> parse_state" where
  "example_state k =
     (if k = 0 then
        \<lparr>ps_fIn = (example_apt_file, True), ps_ln = [], bProcessGivenLn = False,
         ps_apt = new_Apt [], gmapApt = []\<rparr>
      else if k = 1 then
        \<lparr>ps_fIn = (drop 1 example_apt_file, True), ps_ln = example_apt_file ! 0,
         bProcessGivenLn = False, ps_apt = new_Apt ''XAPT'', gmapApt = []\<rparr>
      else if k = 2 then
        \<lparr>ps_fIn = (drop 2 example_apt_file, True), ps_ln = example_apt_file ! 1,
         bProcessGivenLn = False, ps_apt = example_apt_rw, gmapApt = []\<rparr>
      else if k = 3 then
        \<lparr>ps_fIn = ([], True), ps_ln = example_apt_file ! 8,
         bProcessGivenLn = True, ps_apt = example_apt_tx, gmapApt = []\<rparr>
      else if k = 4 then
        \<lparr>ps_fIn = ([], True), ps_ln = example_apt_file ! 8,
         bProcessGivenLn = False, ps_apt = new_Apt ''XBAD'',
         gmapApt = AddApt flat_geo example_cfg example_apt_tx []\<rparr>
      else
        \<lparr>ps_fIn = ([], False), ps_ln = [],
         bProcessGivenLn = False, ps_apt = new_Apt ''XBAD'',
         gmapApt = AddApt flat_geo example_cfg example_apt_tx []\<rparr>)"

section \<open>The runway to land on\<close>

text \<open>
  Of the aircraft, \<open>LTAptFindRwy\<close> reads three values of the flight model (member
  \<open>mdl\<close>), the position the aircraft is flying to and its speed. Class \<open>LTAircraft\<close> is
  defined outside the sources at hand; the record holds what the function reads.
\<close>

record FlightModel =
  VSI_FINAL :: double
  FLAPS_DOWN_SPEED :: double
  PITCH_FLARE :: double

record LTAircraft =
  mdl :: FlightModel
  GetToPos :: positionTy
  GetSpeed_m_s :: double

text \<open>
  \<open>TaxiEdge::GetRwyEP_A\<close> and \<open>TaxiEdge::GetRwyEP_B\<close> cast the result of \<open>GetA\<close> and
  \<open>GetB\<close> to a runway endpoint. The cast throws for an edge that is not a runway, and
  the index is not checked; both are the result \<open>None\<close>.
\<close>

definition GetRwyEP_A :: "TaxiEdge \<Rightarrow> Apt \<Rightarrow> RwyEndPt option" where
  "GetRwyEP_A e apt =
     (if etype e = RUN_WAY \<and> node_a e < length (vecRwyEndPts apt)
      then Some (vecRwyEndPts apt ! node_a e) else None)"

definition GetRwyEP_B :: "TaxiEdge \<Rightarrow> Apt \<Rightarrow> RwyEndPt option" where
  "GetRwyEP_B e apt =
     (if etype e = RUN_WAY \<and> node_b e < length (vecRwyEndPts apt)
      then Some (vecRwyEndPts apt ! node_b e) else None)"

text \<open>
  The constants that \<open>LTAptFindRwy\<close> computes before its loops: the permitted range of
  the vertical speed, the inversion flag, the heading searched for and the speed.
\<close>

definition vsi_min :: "cfg \<Rightarrow> LTAircraft \<Rightarrow> double" where
  "vsi_min C ac = dmul (dmul (VSI_FINAL (mdl ac)) (ART_RWY_MAX_VSI_F C)) (Ms_per_FTm C)"

definition vsi_max :: "cfg \<Rightarrow> LTAircraft \<Rightarrow> double" where
  "vsi_max C ac = dmul (ddiv (VSI_FINAL (mdl ac)) (ART_RWY_MAX_VSI_F C)) (Ms_per_FTm C)"

definition bHeadInverted :: "geo \<Rightarrow> LTAircraft \<Rightarrow> bool" where
  "bHeadInverted G ac = dge (HeadingNormalize G (p_heading (GetToPos ac))) (Fin 180)"

definition headSearch :: "geo \<Rightarrow> LTAircraft \<Rightarrow> double" where
  "headSearch G ac =
     (if bHeadInverted G ac then dsub (HeadingNormalize G (p_heading (GetToPos ac))) (Fin 180)
      else HeadingNormalize G (p_heading (GetToPos ac)))"

definition speed_m_s :: "cfg \<Rightarrow> LTAircraft \<Rightarrow> double" where
  "speed_m_s C ac =
     dmin (GetSpeed_m_s ac)
          (ddiv (dmul (FLAPS_DOWN_SPEED (mdl ac)) (ART_APPR_SPEED_F C)) (KT_per_M_per_S C))"

text \<open>
  The best match: the three pointers \<open>bestApt\<close>, \<open>bestRwy\<close> and \<open>bestRwyEndPt\<close>, which
  are set together (the airport, the index of the edge and the endpoint), then
  \<open>bestHeadingDiff\<close> and \<open>bestArrivalTS\<close>.
\<close>

type_synonym rwy_match = "(Apt \<times> nat \<times> RwyEndPt) option \<times> double \<times> double"

text \<open>
  The inner loop, over the runways found at one airport. The locals \<open>from\<close> and
  \<open>dist\<close> of the source are \<open>frm\<close> and \<open>dst\<close>; the list holds the indexes of the
  edges found.
\<close>

fun LTAptFindRwy_edges ::
  "geo \<Rightarrow> cfg \<Rightarrow> LTAircraft \<Rightarrow> Apt \<Rightarrow> nat list \<Rightarrow> rwy_match \<Rightarrow> rwy_match option" where
  "LTAptFindRwy_edges G C ac apt [] st = Some st"
| "LTAptFindRwy_edges G C ac apt (ei # lstRwys) (best, bestHeadingDiff, bestArrivalTS) =
     (let e = vecTaxiEdges apt ! ei;
          frm = GetToPos ac
      in case (if bHeadInverted G ac then GetRwyEP_B e apt else GetRwyEP_A e apt) of
           None \<Rightarrow> None
         | Some rwyEP \<Rightarrow>
             if isnan (alt_m rwyEP)
             then LTAptFindRwy_edges G C ac apt lstRwys (best, bestHeadingDiff, bestArrivalTS)
             else
               let bearing = CoordAngle G (p_lat frm) (p_lon frm) (lat rwyEP) (lon rwyEP);
                   headingDiff = dfabs (HeadingDiff G (p_heading frm) bearing)
               in if dgt headingDiff bestHeadingDiff
                  then LTAptFindRwy_edges G C ac apt lstRwys (best, bestHeadingDiff, bestArrivalTS)
                  else
                    let dst = CoordDistance G (p_lat frm) (p_lon frm) (lat rwyEP) (lon rwyEP);
                        d_ts = ddiv dst (speed_m_s C ac);
                        vsi = ddiv (dsub (alt_m rwyEP) (p_alt_m frm)) d_ts
                    in if dless vsi (vsi_min C ac) \<or> dgt vsi (vsi_max C ac)
                       then LTAptFindRwy_edges G C ac apt lstRwys
                              (best, bestHeadingDiff, bestArrivalTS)
                       else LTAptFindRwy_edges G C ac apt lstRwys
                              (Some (apt, ei, rwyEP), headingDiff, dadd (p_ts frm) d_ts))"

text \<open>The outer loop, over the airports of the map.\<close>

fun LTAptFindRwy_apts ::
  "geo \<Rightarrow> cfg \<Rightarrow> LTAircraft \<Rightarrow> mapAptTy \<Rightarrow> rwy_match \<Rightarrow> rwy_match option" where
  "LTAptFindRwy_apts G C ac [] st = Some st"
| "LTAptFindRwy_apts G C ac (pair # rest) st =
     (let apt = snd pair;
          r = FindEdgesForHeading apt (headSearch G ac) (ART_RWY_MAX_HEAD_DIFF C) [] RUN_WAY
      in if fst r
         then (case LTAptFindRwy_edges G C ac apt (snd r) st of
                 None \<Rightarrow> None
               | Some st' \<Rightarrow> LTAptFindRwy_apts G C ac rest st')
         else LTAptFindRwy_apts G C ac rest st)"

text \<open>
  The search of \<open>LTAptFindRwy\<close> and its result: the default position if nothing was
  found, the touch-down position at the endpoint otherwise. \<open>None\<close> is an endpoint that
  could not be read.
\<close>

definition LTAptFindRwy_search :: "geo \<Rightarrow> cfg \<Rightarrow> LTAircraft \<Rightarrow> mapAptTy \<Rightarrow> rwy_match option" where
  "LTAptFindRwy_search G C ac gm =
     LTAptFindRwy_apts G C ac gm (None, ART_RWY_MAX_HEAD_DIFF C, NaN)"

definition rwy_position ::
  "geo \<Rightarrow> cfg \<Rightarrow> LTAircraft \<Rightarrow> Apt \<Rightarrow> nat \<Rightarrow> RwyEndPt \<Rightarrow> double \<Rightarrow> positionTy" where
  "rwy_position G C ac bestApt bestRwy bestRwyEndPt bestArrivalTS =
     new_positionTy (lat bestRwyEndPt) (lon bestRwyEndPt) (alt_m bestRwyEndPt) bestArrivalTS
       (dadd (angle (vecTaxiEdges bestApt ! bestRwy))
             (if bHeadInverted G ac then Fin 180 else Fin 0))
       (PITCH_FLARE (mdl ac)) (Fin 0) GND_ON UNIT_WORLD UNIT_DEG (FPH_TOUCH_DOWN C)"

definition LTAptFindRwy :: "geo \<Rightarrow> cfg \<Rightarrow> LTAircraft \<Rightarrow> mapAptTy \<Rightarrow> positionTy option" where
  "LTAptFindRwy G C ac gm =
     (case LTAptFindRwy_search G C ac gm of
        None \<Rightarrow> None
      | Some (None, bestHeadingDiff, bestArrivalTS) \<Rightarrow> Some empty_positionTy
      | Some (Some (bestApt, bestRwy, bestRwyEndPt), bestHeadingDiff, bestArrivalTS) \<Rightarrow>
          Some (rwy_position G C ac bestApt bestRwy bestRwyEndPt bestArrivalTS))"

text \<open>
  What the loop computes for one runway: the endpoint aimed at, the heading deviation
  towards it, the flying time and the implied vertical speed. A vertical speed is
  outside the permitted range when the test of the loop rejects it: it is below
  \<open>vsi_min\<close> or above \<open>vsi_max\<close>.
\<close>

definition rwy_end :: "geo \<Rightarrow> LTAircraft \<Rightarrow> Apt \<Rightarrow> nat \<Rightarrow> RwyEndPt option" where
  "rwy_end G ac apt ei =
     (if bHeadInverted G ac then GetRwyEP_B (vecTaxiEdges apt ! ei) apt
      else GetRwyEP_A (vecTaxiEdges apt ! ei) apt)"

definition rwy_headingDiff :: "geo \<Rightarrow> LTAircraft \<Rightarrow> RwyEndPt \<Rightarrow> double" where
  "rwy_headingDiff G ac ep =
     dfabs (HeadingDiff G (p_heading (GetToPos ac))
              (CoordAngle G (p_lat (GetToPos ac)) (p_lon (GetToPos ac)) (lat ep) (lon ep)))"

definition rwy_d_ts :: "geo \<Rightarrow> cfg \<Rightarrow> LTAircraft \<Rightarrow> RwyEndPt \<Rightarrow> double" where
  "rwy_d_ts G C ac ep =
     ddiv (CoordDistance G (p_lat (GetToPos ac)) (p_lon (GetToPos ac)) (lat ep) (lon ep))
          (speed_m_s C ac)"

definition rwy_vsi :: "geo \<Rightarrow> cfg \<Rightarrow> LTAircraft \<Rightarrow> RwyEndPt \<Rightarrow> double" where
  "rwy_vsi G C ac ep = ddiv (dsub (alt_m ep) (p_alt_m (GetToPos ac))) (rwy_d_ts G C ac ep)"

definition outside_envelope :: "cfg \<Rightarrow> LTAircraft \<Rightarrow> double \<Rightarrow> bool" where
  "outside_envelope C ac vsi = (dless vsi (vsi_min C ac) \<or> dgt vsi (vsi_max C ac))"

text \<open>
  Inside the permitted range, as the spec words it: a vertical speed that is at least
  \<open>vsi_min\<close> and at most \<open>vsi_max\<close>.
\<close>

definition inside_envelope :: "cfg \<Rightarrow> LTAircraft \<Rightarrow> double \<Rightarrow> bool" where
  "inside_envelope C ac vsi = (dle (vsi_min C ac) vsi \<and> dle vsi (vsi_max C ac))"

text \<open>
  The candidate runways, in the order in which the two loops visit them: for every
  airport of the map the runways that \<open>FindEdgesForHeading\<close> finds. A candidate is
  rejected for its vertical speed when its endpoint can be read and the vertical speed
  towards it is outside the permitted range.
\<close>

definition rwy_candidates :: "geo \<Rightarrow> cfg \<Rightarrow> LTAircraft \<Rightarrow> mapAptTy \<Rightarrow> (Apt \<times> nat) list" where
  "rwy_candidates G C ac gm =
     concat (map (\<lambda>pair. map (Pair (snd pair))
                    (snd (FindEdgesForHeading (snd pair) (headSearch G ac)
                            (ART_RWY_MAX_HEAD_DIFF C) [] RUN_WAY)))
                 gm)"

definition rwy_rejected :: "geo \<Rightarrow> cfg \<Rightarrow> LTAircraft \<Rightarrow> Apt \<times> nat \<Rightarrow> bool" where
  "rwy_rejected G C ac c =
     (case rwy_end G ac (fst c) (snd c) of
        None \<Rightarrow> False
      | Some ep \<Rightarrow> outside_envelope C ac (rwy_vsi G C ac ep))"

text \<open>
  The invariant of the two loops: a best match is a runway of one of the airports in
  \<open>S\<close>, its endpoint has an altitude, and the vertical speed towards it is not outside
  the permitted range.
\<close>

definition rwy_match_ok :: "geo \<Rightarrow> cfg \<Rightarrow> LTAircraft \<Rightarrow> Apt set \<Rightarrow> rwy_match \<Rightarrow> bool" where
  "rwy_match_ok G C ac S st =
     (case fst st of
        None \<Rightarrow> True
      | Some (apt, ei, ep) \<Rightarrow>
          apt \<in> S \<and> rwy_end G ac apt ei = Some ep \<and> \<not> isnan (alt_m ep)
          \<and> \<not> outside_envelope C ac (rwy_vsi G C ac ep))"

text \<open>
  Examples in the flat world: an airport with one runway of 2000 metres and heading 90
  along the longitude axis, whose first end is at latitude \<open>la\<close> and longitude \<open>lo\<close>
  and at altitude 0; an aircraft of heading 90 that flies at 50 metres per second to the
  point of latitude and longitude 0 at an altitude of 300 metres, with a vertical speed
  on final of -600 feet per minute; and the flat world with a compass that knows north:
  the heading to a point due north is 0 degrees.
\<close>

definition rwy_apt :: "string \<Rightarrow> real \<Rightarrow> real \<Rightarrow> Apt" where
  "rwy_apt i la lo = (new_Apt i)
     \<lparr>vecRwyEndPts := [(new_RwyEndPt ''09'' (Fin la) (Fin lo))\<lparr>alt_m := Fin 0\<rparr>,
                       (new_RwyEndPt ''27'' (Fin la) (Fin (lo + 2 / 100)))\<lparr>alt_m := Fin 0\<rparr>],
      vecTaxiEdges := [new_TaxiEdge RUN_WAY 0 1 (Fin 90) (Fin 2000)]\<rparr>"

definition rwy_apt_end :: "real \<Rightarrow> real \<Rightarrow> RwyEndPt" where
  "rwy_apt_end la lo = (new_RwyEndPt ''09'' (Fin la) (Fin lo))\<lparr>alt_m := Fin 0\<rparr>"

definition example_ac :: LTAircraft where
  "example_ac =
     \<lparr>mdl = \<lparr>VSI_FINAL = Fin (- 600), FLAPS_DOWN_SPEED = Fin 200, PITCH_FLARE = Fin 3\<rparr>,
      GetToPos = new_positionTy (Fin 0) (Fin 0) (Fin 300) (Fin 1000) (Fin 90) (Fin 0) (Fin 0)
                   GND_OFF UNIT_WORLD UNIT_DEG 0,
      GetSpeed_m_s = Fin 50\<rparr>"

definition compass_geo :: geo where
  "compass_geo = flat_geo
     \<lparr>CoordAngle := (\<lambda>lat1 lon1 lat2 lon2.
                       if lon1 = lon2 \<and> dless lat1 lat2 then Fin 0 else Fin 90)\<rparr>"

section \<open>Facts about the arithmetic of doubles\<close>

lemma dge_Fin [simp]: "dge (Fin a) (Fin b) = (b \<le> a)"
  by (auto simp: dge_def dle_def)

lemma dle_Fin [simp]: "dle (Fin a) (Fin b) = (a \<le> b)"
  by (auto simp: dle_def)

lemma dgt_Fin [simp]: "dgt (Fin a) (Fin b) = (b < a)"
  by (simp add: dgt_def)

lemma dsub_Fin [simp]: "dsub (Fin a) (Fin b) = Fin (a - b)"
  by (simp add: dsub_def)

section \<open>Heading normalisation at edge construction\<close>

text \<open>
  Claim C6, as stated, fails: the constructor folds once, so a raw heading of 400 degrees
  is stored as 220 degrees, which is outside [0,180).
\<close>

theorem C6_any_heading_counterexample:
  "angle (new_TaxiEdge TAXI_WAY 0 1 (Fin 400) (Fin 1)) = Fin 220
   \<and> \<not> dless (angle (new_TaxiEdge TAXI_WAY 0 1 (Fin 400) (Fin 1))) (Fin 180)"
  by (simp add: new_TaxiEdge_def)

text \<open>
  Claim C6 (amended): for a raw heading h with 0 <= h < 360 the stored heading lies in
  [0,180); the heading is reduced by 180 and the two nodes are swapped exactly when
  h >= 180, and otherwise heading and nodes are stored as given; and for 0 <= h < 180
  the edges built with h and with h + 180 store the same heading, the second with the
  roles of the two nodes swapped.
\<close>

theorem C6_heading_normalised:
  assumes "0 \<le> h" and "h < 360"
  shows "dle (Fin 0) (angle (new_TaxiEdge t a b (Fin h) d))
         \<and> dless (angle (new_TaxiEdge t a b (Fin h) d)) (Fin 180)
         \<and> (180 \<le> h \<longrightarrow> angle (new_TaxiEdge t a b (Fin h) d) = Fin (h - 180)
                \<and> roles_swapped a b (new_TaxiEdge t a b (Fin h) d))
         \<and> (h < 180 \<longrightarrow> angle (new_TaxiEdge t a b (Fin h) d) = Fin h
                \<and> roles_kept a b (new_TaxiEdge t a b (Fin h) d)
                \<and> angle (new_TaxiEdge t a b (Fin (h + 180)) d) = Fin h
                \<and> roles_swapped a b (new_TaxiEdge t a b (Fin (h + 180)) d))
         \<and> etype (new_TaxiEdge t a b (Fin h) d) = t
         \<and> dist_m (new_TaxiEdge t a b (Fin h) d) = d"
  using assms by (simp add: new_TaxiEdge_def roles_swapped_def roles_kept_def)

theorem C6_heading_normalised_witness:
  "angle (new_TaxiEdge TAXI_WAY 3 7 (Fin 200) (Fin 50)) = Fin 20
   \<and> roles_swapped 3 7 (new_TaxiEdge TAXI_WAY 3 7 (Fin 200) (Fin 50))
   \<and> angle (new_TaxiEdge TAXI_WAY 3 7 (Fin 20) (Fin 50)) = Fin 20
   \<and> roles_kept 3 7 (new_TaxiEdge TAXI_WAY 3 7 (Fin 20) (Fin 50))
   \<and> angle (new_TaxiEdge TAXI_WAY 3 7 (Fin (20 + 180)) (Fin 50)) = Fin 20"
  using C6_heading_normalised [of 200 TAXI_WAY 3 7 "Fin 50"]
        C6_heading_normalised [of 20 TAXI_WAY 3 7 "Fin 50"]
  by simp

section \<open>Adding a taxi edge\<close>

lemma example_apt_nodes: "vecTaxiNodes example_apt = [new_TaxiNode (Fin 0) (Fin 0), new_TaxiNode (Fin 0) (Fin (1/1000)), new_TaxiNode NaN (Fin 0)]"
  by (simp add: example_apt_def example_calls_def new_Apt_def AddTaxiNode_def AddTaxiEdge_def AddRwyEnds_def Let_def)

lemma example_apt_edges: "map etype (vecTaxiEdges example_apt) = [RUN_WAY, TAXI_WAY]"
  by (simp add: example_apt_def example_calls_def new_Apt_def AddTaxiNode_def AddTaxiEdge_def AddRwyEnds_def Let_def
     HasGeoCoords_def new_TaxiNode_def new_TaxiEdge_def flat_geo_def)


text \<open>
  Claim C7: \<open>AddTaxiEdge\<close> returns false and leaves the whole airport (nodes, runway
  ends, edges, bounding box) as it was when one of the two indexes is out of range of
  the taxi nodes or one of the two nodes has no geographic coordinates; otherwise it
  returns true and appends exactly one edge of type taxiway, with the heading computed
  from the two nodes and with the distance supplied, or the computed distance when none
  was supplied (NaN). The function is total: it has a result on every input.
\<close>

theorem C7_AddTaxiEdge:
  "(i \<ge> length (vecTaxiNodes apt) \<or> j \<ge> length (vecTaxiNodes apt)
      \<or> (i < length (vecTaxiNodes apt) \<and> j < length (vecTaxiNodes apt)
          \<and> (\<not> HasGeoCoords (vecTaxiNodes apt ! i) \<or> \<not> HasGeoCoords (vecTaxiNodes apt ! j)))
     \<longrightarrow> AddTaxiEdge G i j d apt = (False, apt))
   \<and> (i < length (vecTaxiNodes apt) \<and> j < length (vecTaxiNodes apt)
        \<and> HasGeoCoords (vecTaxiNodes apt ! i) \<and> HasGeoCoords (vecTaxiNodes apt ! j)
     \<longrightarrow> AddTaxiEdge G i j d apt =
           (True, apt\<lparr>vecTaxiEdges := vecTaxiEdges apt @
              [new_TaxiEdge TAXI_WAY i j
                 (CoordAngle G (lat (vecTaxiNodes apt ! i)) (lon (vecTaxiNodes apt ! i))
                               (lat (vecTaxiNodes apt ! j)) (lon (vecTaxiNodes apt ! j)))
                 (if isnan d
                  then DistLatLon G (lat (vecTaxiNodes apt ! i)) (lon (vecTaxiNodes apt ! i))
                                    (lat (vecTaxiNodes apt ! j)) (lon (vecTaxiNodes apt ! j))
                  else d)]\<rparr>)
         \<and> etype (last (vecTaxiEdges (snd (AddTaxiEdge G i j d apt)))) = TAXI_WAY
         \<and> length (vecTaxiEdges (snd (AddTaxiEdge G i j d apt))) = Suc (length (vecTaxiEdges apt)))"
  by (auto simp: AddTaxiEdge_def Let_def new_TaxiEdge_def)

theorem C7_AddTaxiEdge_witness:
  "AddTaxiEdge flat_geo 0 7 NaN example_apt = (False, example_apt)
   \<and> AddTaxiEdge flat_geo 1 2 (Fin 5) example_apt = (False, example_apt)
   \<and> fst (AddTaxiEdge flat_geo 1 0 (Fin 5) example_apt)
   \<and> length (vecTaxiEdges (snd (AddTaxiEdge flat_geo 1 0 (Fin 5) example_apt))) = 3"
  using C7_AddTaxiEdge [where i = 0 and j = 7 and apt = example_apt and G = flat_geo and d = NaN]
        C7_AddTaxiEdge [where i = 1 and j = 2 and apt = example_apt and G = flat_geo and d = "Fin 5"]
        C7_AddTaxiEdge [where i = 1 and j = 0 and apt = example_apt and G = flat_geo and d = "Fin 5"]
        arg_cong [OF example_apt_edges, of length]
  by (simp add: example_apt_nodes HasGeoCoords_def new_TaxiNode_def)

section \<open>Indexes of edges stay in range\<close>

lemma edge_in_range_new:
  "edge_in_range apt (new_TaxiEdge t a b ang d) =
     (if t = RUN_WAY then a < length (vecRwyEndPts apt) \<and> b < length (vecRwyEndPts apt)
      else a < length (vecTaxiNodes apt) \<and> b < length (vecTaxiNodes apt))"
  by (auto simp: edge_in_range_def new_TaxiEdge_def)

lemma edges_ok_AddTaxiNode: "edges_ok apt \<Longrightarrow> edges_ok (snd (AddTaxiNode G la lo apt))"
  by (auto simp: edges_ok_def AddTaxiNode_def Let_def edge_in_range_def)

lemma edges_ok_AddTaxiEdge: "edges_ok apt \<Longrightarrow> edges_ok (snd (AddTaxiEdge G n1 n2 d apt))"
  unfolding edges_ok_def AddTaxiEdge_def Let_def
  by (auto simp: edge_in_range_new) (auto simp: edge_in_range_def)

lemma edges_ok_AddRwyEnds: "edges_ok apt \<Longrightarrow> edges_ok (AddRwyEnds G la1 lo1 d1 i1 la2 lo2 d2 i2 apt)"
  unfolding edges_ok_def AddRwyEnds_def Let_def
  by (auto simp: edge_in_range_new) (auto simp: edge_in_range_def)

lemma edges_ok_calls: "edges_ok apt \<Longrightarrow> edges_ok (apt_calls_run G cs apt)"
proof (induction cs arbitrary: apt)
  case Nil thus ?case by simp
next
  case (Cons c cs)
  have "edges_ok (apt_call_run G c apt)"
    using Cons.prems by (cases c) (simp_all add: edges_ok_AddTaxiNode edges_ok_AddTaxiEdge edges_ok_AddRwyEnds)
  thus ?case using Cons.IH by simp
qed

lemma in_range_Get: "edge_in_range apt e \<Longrightarrow> GetA e apt \<noteq> None \<and> GetB e apt \<noteq> None"
  by (auto simp: edge_in_range_def GetA_def GetB_def)


text \<open>
  Claim C10: in every airport built from a new airport by calls of \<open>AddTaxiNode\<close>,
  \<open>AddTaxiEdge\<close> and \<open>AddRwyEnds\<close>, the two indexes of each edge are in the range of
  the vector that the type of the edge selects (runway ends for a runway edge, taxi
  nodes otherwise), so \<open>GetA\<close> and \<open>GetB\<close> never read out of range.
\<close>

theorem C10_edges_in_range:
  "\<forall>e \<in> set (vecTaxiEdges (apt_calls_run G cs (new_Apt i))).
      edge_in_range (apt_calls_run G cs (new_Apt i)) e
      \<and> GetA e (apt_calls_run G cs (new_Apt i)) \<noteq> None
      \<and> GetB e (apt_calls_run G cs (new_Apt i)) \<noteq> None"
proof -
  have "edges_ok (new_Apt i)" by (simp add: edges_ok_def new_Apt_def)
  hence "edges_ok (apt_calls_run G cs (new_Apt i))" by (rule edges_ok_calls)
  thus ?thesis by (auto simp: edges_ok_def dest: in_range_Get)
qed

theorem C10_edges_in_range_witness:
  "length (vecTaxiEdges example_apt) = 2
   \<and> list_all (\<lambda>e. GetA e example_apt \<noteq> None \<and> GetB e example_apt \<noteq> None)
        (vecTaxiEdges example_apt)"
  using C10_edges_in_range [of flat_geo example_calls "''XAPT''"]
        arg_cong [OF example_apt_edges, of length]
  by (simp add: list_all_iff example_apt_def)

section \<open>Adding the two ends of a runway\<close>

lemma rwy_remaining_Fin:
  "v_dist (CoordVectorBetween G re1 re2) = Fin len \<Longrightarrow>
   rwy_remaining G re1 re2 (Fin d1) (Fin d2) = Fin (len - d1 - d2)"
  by (simp add: rwy_remaining_def)

lemma rwy_move1_Fin:
  "v_dist (CoordVectorBetween G re1 re2) = Fin len \<Longrightarrow>
   rwy_move1 G re1 re2 (Fin d1) (Fin d2) =
     new_vectorTy (v_angle (CoordVectorBetween G re1 re2)) (Fin (d1 + (len - d1 - d2) * (10 / 100)))"
  by (simp add: rwy_move1_def rwy_remaining_Fin ART_RWY_TD_POINT_F_def)

lemma rwy_move2_Fin:
  "v_dist (CoordVectorBetween G re1 re2) = Fin len \<Longrightarrow>
   rwy_move2 G re1 re2 (Fin d1) (Fin d2) =
     new_vectorTy (v_angle (CoordVectorBetween G re1 re2)) (Fin (- (d2 + (len - d1 - d2) * (10 / 100))))"
  by (simp add: rwy_move2_def rwy_remaining_Fin ART_RWY_TD_POINT_F_def)

lemma rwy_stored_dist_Fin:
  "v_dist (CoordVectorBetween G re1 re2) = Fin len \<Longrightarrow>
   rwy_stored_dist G re1 re2 (Fin d1) (Fin d2) = Fin ((len - d1 - d2) * (80 / 100))"
  by (simp add: rwy_stored_dist_def rwy_remaining_Fin ART_RWY_TD_POINT_F_def)


text \<open>
  Claim C5: for a runway of finite length \<open>len\<close> between its two raw ends and finite
  displaced thresholds \<open>d1\<close> and \<open>d2\<close>, \<open>AddRwyEnds\<close> appends exactly two runway ends
  and one runway edge and leaves the taxi nodes alone. The first end is the raw end
  moved along the heading of the runway by \<open>d1\<close> plus 10% of the remaining length
  \<open>len - d1 - d2\<close>, the second is the raw end moved along the same heading by minus
  (\<open>d2\<close> plus 10% of the remaining length), and the distance of the edge is 80% of the
  remaining length. For 2000 metres and no displaced threshold the ends are moved by 200
  metres and the edge stores 1600 metres.
\<close>

theorem C5_AddRwyEnds:
  assumes "v_dist (CoordVectorBetween G (rwy_re lat1 lon1) (rwy_re lat2 lon2)) = Fin len"
  shows "vecRwyEndPts (AddRwyEnds G lat1 lon1 (Fin d1) id1 lat2 lon2 (Fin d2) id2 apt) =
           vecRwyEndPts apt @
           [new_RwyEndPt id1
              (p_lat (pos_add_vec G (rwy_re lat1 lon1)
                 (new_vectorTy (v_angle (CoordVectorBetween G (rwy_re lat1 lon1) (rwy_re lat2 lon2)))
                    (Fin (d1 + (len - d1 - d2) * (10 / 100))))))
              (p_lon (pos_add_vec G (rwy_re lat1 lon1)
                 (new_vectorTy (v_angle (CoordVectorBetween G (rwy_re lat1 lon1) (rwy_re lat2 lon2)))
                    (Fin (d1 + (len - d1 - d2) * (10 / 100)))))),
            new_RwyEndPt id2
              (p_lat (pos_add_vec G (rwy_re lat2 lon2)
                 (new_vectorTy (v_angle (CoordVectorBetween G (rwy_re lat1 lon1) (rwy_re lat2 lon2)))
                    (Fin (- (d2 + (len - d1 - d2) * (10 / 100)))))))
              (p_lon (pos_add_vec G (rwy_re lat2 lon2)
                 (new_vectorTy (v_angle (CoordVectorBetween G (rwy_re lat1 lon1) (rwy_re lat2 lon2)))
                    (Fin (- (d2 + (len - d1 - d2) * (10 / 100)))))))]
       \<and> vecTaxiEdges (AddRwyEnds G lat1 lon1 (Fin d1) id1 lat2 lon2 (Fin d2) id2 apt) =
           vecTaxiEdges apt @
           [new_TaxiEdge RUN_WAY (length (vecRwyEndPts apt)) (Suc (length (vecRwyEndPts apt)))
              (v_angle (CoordVectorBetween G (rwy_re lat1 lon1) (rwy_re lat2 lon2)))
              (Fin ((len - d1 - d2) * (80 / 100)))]
       \<and> vecTaxiNodes (AddRwyEnds G lat1 lon1 (Fin d1) id1 lat2 lon2 (Fin d2) id2 apt) =
           vecTaxiNodes apt"
  unfolding AddRwyEnds_def Let_def
  by (simp only: rwy_move1_Fin [OF assms] rwy_move2_Fin [OF assms] rwy_stored_dist_Fin [OF assms])
     simp

lemma flat_between: "v_dist (CoordVectorBetween flat_geo (rwy_re (Fin 0) (Fin 0)) (rwy_re (Fin 0) (Fin (2 / 100)))) = Fin 2000"
  by (simp add: flat_geo_def rwy_re_def new_positionTy_def new_vectorTy_def flat_dist2_def)

theorem C5_AddRwyEnds_witness:
  "vecRwyEndPts (AddRwyEnds flat_geo (Fin 0) (Fin 0) (Fin 0) ''09'' (Fin 0) (Fin (2 / 100)) (Fin 0) ''27''
                   (new_Apt ''XAPT'')) =
     [new_RwyEndPt ''09'' (Fin 0) (Fin (200 / 100000)),
      new_RwyEndPt ''27'' (Fin 0) (Fin (1800 / 100000))]
   \<and> vecTaxiEdges (AddRwyEnds flat_geo (Fin 0) (Fin 0) (Fin 0) ''09'' (Fin 0) (Fin (2 / 100)) (Fin 0) ''27''
                   (new_Apt ''XAPT'')) =
     [\<lparr>etype = RUN_WAY, node_a = 0, node_b = 1, angle = Fin 90, dist_m = Fin 1600\<rparr>]"
  using C5_AddRwyEnds [OF flat_between, of 0 "''09''" 0 "''27''" "new_Apt ''XAPT''"]
  by (simp add: flat_geo_def rwy_re_def new_positionTy_def new_vectorTy_def new_Apt_def new_TaxiEdge_def)

section \<open>Finding edges by heading: the search returns the sub-ranges\<close>

lemma dle_dless_trans: "dle a b \<Longrightarrow> dless b c \<Longrightarrow> dless a c"
  by (cases a; cases b; cases c) (auto simp: dle_def)

lemma dle_trans: "dle a b \<Longrightarrow> dle b c \<Longrightarrow> dle a c"
  by (cases a; cases b; cases c) (auto simp: dle_def)

lemma not_dless_iff_dle: "\<not> isnan a \<Longrightarrow> \<not> isnan b \<Longrightarrow> (\<not> dless a b) = dle b a"
  by (cases a; cases b) (auto simp: dle_def)

lemma heading_sorted_nth:
  "heading_sorted es \<Longrightarrow> i \<le> j \<Longrightarrow> j < length es \<Longrightarrow> dle (angle (es ! i)) (angle (es ! j))"
proof (cases "i = j")
  case True
  assume "heading_sorted es" "j < length es"
  hence "\<not> isnan (angle (es ! j))" by (simp add: heading_sorted_def list_all_length)
  thus ?thesis using True by (simp add: dle_def)
next
  case False
  assume "heading_sorted es" "i \<le> j" "j < length es"
  thus ?thesis using False by (simp add: heading_sorted_def sorted_wrt_iff_nth_less)
qed

lemma heading_sorted_nan: "heading_sorted es \<Longrightarrow> i < length es \<Longrightarrow> \<not> isnan (angle (es ! i))"
  by (simp add: heading_sorted_def list_all_length)

lemma lower_bound_loop_spec:
  "heading_sorted es \<Longrightarrow> first + len \<le> length es \<Longrightarrow>
         (\<forall>k < first. dless (angle (es ! k)) v) \<Longrightarrow>
         (\<forall>k. first + len \<le> k \<and> k < length es \<longrightarrow> \<not> dless (angle (es ! k)) v) \<Longrightarrow>
         lower_bound_loop es v first len \<le> length es
         \<and> (\<forall>k < lower_bound_loop es v first len. dless (angle (es ! k)) v)
         \<and> (\<forall>k. lower_bound_loop es v first len \<le> k \<and> k < length es \<longrightarrow> \<not> dless (angle (es ! k)) v)"
proof (induction es v first len rule: lower_bound_loop.induct)
  case (1 es v first len)
  note srt = "1.prems"(1)
  note bnd = "1.prems"(2)
  note low = "1.prems"(3)
  note high = "1.prems"(4)
  show ?case
  proof (cases "len = 0")
    case True
    have "lower_bound_loop es v first len = first"
      using True by (subst lower_bound_loop.simps) simp
    thus ?thesis using True bnd low high by simp
  next
    case False
    define half where "half = len div 2"
    define middle where "middle = first + half"
    have hl: "half < len" using False unfolding half_def by arith
    have mid: "middle < length es" using hl bnd unfolding middle_def by arith
    show ?thesis
    proof (cases "CompHeadLess (es ! middle) (cmp_TaxiEdge v)")
      case True
      hence lt: "dless (angle (es ! middle)) v" by (simp add: CompHeadLess_def cmp_TaxiEdge_def)
      have a: "\<forall>k < middle + 1. dless (angle (es ! k)) v"
      proof (intro allI impI)
        fix k assume "k < middle + 1"
        hence "k \<le> middle" by arith
        hence "dle (angle (es ! k)) (angle (es ! middle))"
          by (rule heading_sorted_nth [OF srt _ mid])
        thus "dless (angle (es ! k)) v" using lt by (rule dle_dless_trans)
      qed
      have idx: "middle + 1 + (len - half - 1) = first + len"
        using hl unfolding middle_def by arith
      have b: "middle + 1 + (len - half - 1) \<le> length es"
        using bnd by (simp only: idx)
      have c: "\<forall>k. middle + 1 + (len - half - 1) \<le> k \<and> k < length es \<longrightarrow> \<not> dless (angle (es ! k)) v"
        using high by (simp only: idx)
      have eq: "lower_bound_loop es v first len = lower_bound_loop es v (middle + 1) (len - half - 1)"
        using False True unfolding half_def middle_def
        by (subst lower_bound_loop.simps) (simp add: Let_def)
      show ?thesis
        unfolding eq by (rule "1.IH"(1) [OF False half_def middle_def True srt b a c])
    next
      case nlt: False
      hence ge: "\<not> dless (angle (es ! middle)) v" by (simp add: CompHeadLess_def cmp_TaxiEdge_def)
      have b: "first + half \<le> length es" using bnd hl by arith
      have c: "\<forall>k. first + half \<le> k \<and> k < length es \<longrightarrow> \<not> dless (angle (es ! k)) v"
      proof (intro allI impI notI)
        fix k assume k: "first + half \<le> k \<and> k < length es" and l: "dless (angle (es ! k)) v"
        have "middle \<le> k" "k < length es" using k by (simp_all add: middle_def)
        hence "dle (angle (es ! middle)) (angle (es ! k))"
          by (rule heading_sorted_nth [OF srt])
        hence "dless (angle (es ! middle)) v" using l by (rule dle_dless_trans)
        thus False using ge by simp
      qed
      have eq: "lower_bound_loop es v first len = lower_bound_loop es v first half"
        using False nlt unfolding half_def middle_def
        by (subst lower_bound_loop.simps) (simp add: Let_def)
      show ?thesis
        unfolding eq by (rule "1.IH"(2) [OF False half_def middle_def nlt srt b low c])
    qed
  qed
qed

lemma lower_bound_spec:
  assumes "heading_sorted es"
  shows "lower_bound es v \<le> length es"
    and "k < lower_bound es v \<Longrightarrow> dless (angle (es ! k)) v"
    and "lower_bound es v \<le> k \<Longrightarrow> k < length es \<Longrightarrow> \<not> dless (angle (es ! k)) v"
proof -
  have *: "lower_bound_loop es v 0 (length es) \<le> length es
         \<and> (\<forall>k < lower_bound_loop es v 0 (length es). dless (angle (es ! k)) v)
         \<and> (\<forall>k. lower_bound_loop es v 0 (length es) \<le> k \<and> k < length es \<longrightarrow> \<not> dless (angle (es ! k)) v)"
    by (rule lower_bound_loop_spec [OF assms]) auto
  show "lower_bound es v \<le> length es" using * unfolding lower_bound_def by blast
  show "k < lower_bound es v \<Longrightarrow> dless (angle (es ! k)) v" using * unfolding lower_bound_def by blast
  show "lower_bound es v \<le> k \<Longrightarrow> k < length es \<Longrightarrow> \<not> dless (angle (es ! k)) v"
    using * unfolding lower_bound_def by blast
qed

lemma scan_range_spec:
  "heading_sorted es \<Longrightarrow> i \<le> length es \<Longrightarrow>
         scan_range es hi rt i lst =
           lst @ filter (\<lambda>k. dle (angle (es ! k)) hi \<and> (rt = UNKNOWN_WAY \<or> rt = etype (es ! k)))
                   [i ..< length es]"
proof (induction es hi rt i lst rule: scan_range.induct)
  case (1 es hi rt i lst)
  note assms = "1.prems"(1)
  show ?case
  proof (cases "i < length es \<and> dle (angle (es ! i)) hi")
    case True
    hence up: "[i ..< length es] = i # [Suc i ..< length es]" by (simp add: upt_conv_Cons)
    have "scan_range es hi rt i lst =
            scan_range es hi rt (Suc i) (if rt = UNKNOWN_WAY \<or> rt = etype (es ! i) then lst @ [i] else lst)"
      using True by (subst scan_range.simps) simp
    also have "\<dots> = (if rt = UNKNOWN_WAY \<or> rt = etype (es ! i) then lst @ [i] else lst) @
        filter (\<lambda>k. dle (angle (es ! k)) hi \<and> (rt = UNKNOWN_WAY \<or> rt = etype (es ! k))) [Suc i ..< length es]"
      using "1.IH" [OF True assms] True by simp
    finally show ?thesis using True by (simp add: up)
  next
    case False
    have "filter (\<lambda>k. dle (angle (es ! k)) hi \<and> (rt = UNKNOWN_WAY \<or> rt = etype (es ! k))) [i ..< length es] = []"
    proof (rule filter_False, intro ballI)
      fix k assume "k \<in> set [i ..< length es]"
      hence k: "i \<le> k" "k < length es" by simp_all
      hence "i < length es" by simp
      with False have n: "\<not> dle (angle (es ! i)) hi" by simp
      have "dle (angle (es ! i)) (angle (es ! k))" using heading_sorted_nth [OF assms k] .
      hence "\<not> dle (angle (es ! k)) hi" using n dle_trans by blast
      thus "\<not> (dle (angle (es ! k)) hi \<and> (rt = UNKNOWN_WAY \<or> rt = etype (es ! k)))" by simp
    qed
    moreover have "scan_range es hi rt i lst = lst"
      using False by (subst scan_range.simps) auto
    ultimately show ?thesis by simp
  qed
qed

lemma search_one_range:
  assumes "heading_sorted es" and "\<not> isnan lo"
  shows "scan_range es hi rt (lower_bound es lo) lst = lst @ sub_range es rt lo hi"
proof -
  let ?r = "lower_bound es lo"
  let ?P = "\<lambda>k. dle (angle (es ! k)) hi \<and> (rt = UNKNOWN_WAY \<or> rt = etype (es ! k))"
  have r: "?r \<le> length es" by (rule lower_bound_spec(1) [OF assms(1)])
  have split: "[0 ..< length es] = [0 ..< ?r] @ [?r ..< length es]"
    using r upt_add_eq_append [of 0 ?r "length es - ?r"] by simp
  have lowpart: "filter (\<lambda>k. dle lo (angle (es ! k)) \<and> ?P k) [0 ..< ?r] = []"
  proof (rule filter_False, intro ballI)
    fix k assume "k \<in> set [0 ..< ?r]"
    hence k: "k < ?r" by simp
    hence "dless (angle (es ! k)) lo" by (rule lower_bound_spec(2) [OF assms(1)])
    hence "\<not> dle lo (angle (es ! k))"
      by (cases lo; cases "angle (es ! k)") (auto simp: dle_def)
    thus "\<not> (dle lo (angle (es ! k)) \<and> ?P k)" by simp
  qed
  have highpart: "filter (\<lambda>k. dle lo (angle (es ! k)) \<and> ?P k) [?r ..< length es] = filter ?P [?r ..< length es]"
  proof (rule filter_cong [OF refl])
    fix k assume "k \<in> set [?r ..< length es]"
    hence k: "?r \<le> k" "k < length es" by simp_all
    have "\<not> dless (angle (es ! k)) lo" using lower_bound_spec(3) [OF assms(1) k] .
    moreover have "\<not> isnan (angle (es ! k))" using heading_sorted_nan [OF assms(1) k(2)] .
    ultimately have "dle lo (angle (es ! k))" using assms(2) not_dless_iff_dle by blast
    thus "(dle lo (angle (es ! k)) \<and> ?P k) = ?P k" by simp
  qed
  have "sub_range es rt lo hi = filter ?P [?r ..< length es]"
    unfolding sub_range_def by (subst split) (simp only: filter_append lowpart highpart append_Nil)
  thus ?thesis using scan_range_spec [OF assms(1) r] by simp
qed

lemma vecRanges_Fin:
  "vecRanges (Fin hs) (Fin tol) =
     (if 0 \<le> head180 hs - tol \<and> head180 hs + tol < 180
      then [(Fin (head180 hs - tol), Fin (head180 hs + tol))]
      else if head180 hs - tol < 0
      then [(Fin 0, Fin (head180 hs + tol)), (Fin (head180 hs - tol + 180), Fin 180)]
      else [(Fin 0, Fin (head180 hs + tol - 180)), (Fin (head180 hs - tol), Fin 180)])"
  by (simp add: vecRanges_def head180_def Let_def)

lemma fold_ranges:
  assumes "heading_sorted es"
  shows "\<forall>r \<in> set rs. \<not> isnan (fst r) \<Longrightarrow>
         fold (\<lambda>rngPair l. scan_range es (snd rngPair) rt (lower_bound es (fst rngPair)) l) rs lst =
           lst @ concat (map (\<lambda>r. sub_range es rt (fst r) (snd r)) rs)"
proof (induction rs arbitrary: lst)
  case Nil
  show ?case by simp
next
  case (Cons r rs)
  have "\<not> isnan (fst r)" using Cons.prems by simp
  hence "scan_range es (snd r) rt (lower_bound es (fst r)) lst = lst @ sub_range es rt (fst r) (snd r)"
    by (rule search_one_range [OF assms])
  moreover have "\<forall>r \<in> set rs. \<not> isnan (fst r)" using Cons.prems by simp
  ultimately show ?case using Cons.IH by simp
qed

lemma FindEdgesForHeading_ranges:
  assumes "heading_sorted (vecTaxiEdges apt)"
  shows "FindEdgesForHeading apt (Fin hs) (Fin tol) lst rt =
           (lst @ concat (map (\<lambda>r. sub_range (vecTaxiEdges apt) rt (fst r) (snd r))
                          (vecRanges (Fin hs) (Fin tol))) \<noteq> [],
            lst @ concat (map (\<lambda>r. sub_range (vecTaxiEdges apt) rt (fst r) (snd r))
                          (vecRanges (Fin hs) (Fin tol))))"
proof -
  have "\<forall>r \<in> set (vecRanges (Fin hs) (Fin tol)). \<not> isnan (fst r)"
    by (simp add: vecRanges_Fin)
  thus ?thesis
    unfolding FindEdgesForHeading_def Let_def
    by (simp only: fold_ranges [OF assms])
qed

lemma distinct_sub_range: "distinct (sub_range es rt lo hi)"
  by (simp add: sub_range_def)

lemma sub_range_disjoint:
  "hi1 < lo2 \<Longrightarrow> set (sub_range es rt lo1 (Fin hi1)) \<inter> set (sub_range es rt (Fin lo2) hi2) = {}"
proof -
  assume lt: "hi1 < lo2"
  have "\<And>a. dle a (Fin hi1) \<Longrightarrow> dle (Fin lo2) a \<Longrightarrow> False"
  proof -
    fix a assume "dle a (Fin hi1)" "dle (Fin lo2) a"
    hence "dle (Fin lo2) (Fin hi1)" using dle_trans by blast
    thus False using lt by simp
  qed
  thus ?thesis unfolding sub_range_def by auto
qed

lemma mem_sub_range:
  "k \<in> set (sub_range es rt lo hi) =
     (k < length es \<and> dle lo (angle (es ! k)) \<and> dle (angle (es ! k)) hi
      \<and> (rt = UNKNOWN_WAY \<or> rt = etype (es ! k)))"
  by (auto simp: sub_range_def)

text \<open>
  Claim C1 (amended): for an airport whose edges are sorted by heading, a finite heading
  searched for and a finite tolerance below 90 degrees, \<open>FindEdgesForHeading\<close> called
  with an empty list returns, when the window falls below 0 or reaches 180 after the
  heading is brought below 180, exactly the edges of the lower sub-range followed by
  the edges of the upper sub-range, each edge of an admitted type once: no edge of the
  two sub-ranges is missing and none is listed twice. The boolean result says whether
  the list is not empty. For the heading 5 and the tolerance 10 every edge of heading
  178 or 8 is in the list.
\<close>

theorem C1_FindEdgesForHeading:
  assumes "heading_sorted (vecTaxiEdges apt)" and "tol < 90"
  shows "(head180 hs - tol < 0 \<longrightarrow>
            snd (FindEdgesForHeading apt (Fin hs) (Fin tol) [] rt) =
              sub_range (vecTaxiEdges apt) rt (Fin 0) (Fin (head180 hs + tol))
              @ sub_range (vecTaxiEdges apt) rt (Fin (head180 hs - tol + 180)) (Fin 180))
       \<and> (0 \<le> head180 hs - tol \<and> 180 \<le> head180 hs + tol \<longrightarrow>
            snd (FindEdgesForHeading apt (Fin hs) (Fin tol) [] rt) =
              sub_range (vecTaxiEdges apt) rt (Fin 0) (Fin (head180 hs + tol - 180))
              @ sub_range (vecTaxiEdges apt) rt (Fin (head180 hs - tol)) (Fin 180))
       \<and> distinct (snd (FindEdgesForHeading apt (Fin hs) (Fin tol) [] rt))
       \<and> fst (FindEdgesForHeading apt (Fin hs) (Fin tol) [] rt) =
           (snd (FindEdgesForHeading apt (Fin hs) (Fin tol) [] rt) \<noteq> [])
       \<and> (hs = 5 \<and> tol = 10 \<longrightarrow>
            (\<forall>k < length (vecTaxiEdges apt).
               (angle (vecTaxiEdges apt ! k) = Fin 178 \<or> angle (vecTaxiEdges apt ! k) = Fin 8)
               \<and> (rt = UNKNOWN_WAY \<or> rt = etype (vecTaxiEdges apt ! k))
               \<longrightarrow> k \<in> set (snd (FindEdgesForHeading apt (Fin hs) (Fin tol) [] rt))))"
proof -
  let ?es = "vecTaxiEdges apt"
  let ?res = "snd (FindEdgesForHeading apt (Fin hs) (Fin tol) [] rt)"
  have res: "?res = concat (map (\<lambda>r. sub_range ?es rt (fst r) (snd r)) (vecRanges (Fin hs) (Fin tol)))"
    by (simp add: FindEdgesForHeading_ranges [OF assms(1)])
  have c1: "head180 hs - tol < 0 \<longrightarrow> ?res =
              sub_range ?es rt (Fin 0) (Fin (head180 hs + tol))
              @ sub_range ?es rt (Fin (head180 hs - tol + 180)) (Fin 180)"
    unfolding res by (simp add: vecRanges_Fin)
  have c2: "0 \<le> head180 hs - tol \<and> 180 \<le> head180 hs + tol \<longrightarrow> ?res =
              sub_range ?es rt (Fin 0) (Fin (head180 hs + tol - 180))
              @ sub_range ?es rt (Fin (head180 hs - tol)) (Fin 180)"
    unfolding res by (simp add: vecRanges_Fin)
  have d1: "set (sub_range ?es rt (Fin 0) (Fin (head180 hs + tol)))
            \<inter> set (sub_range ?es rt (Fin (head180 hs - tol + 180)) (Fin 180)) = {}"
    by (rule sub_range_disjoint) (use assms(2) in simp)
  have d2: "set (sub_range ?es rt (Fin 0) (Fin (head180 hs + tol - 180)))
            \<inter> set (sub_range ?es rt (Fin (head180 hs - tol)) (Fin 180)) = {}"
    by (rule sub_range_disjoint) (use assms(2) in simp)
  have c3: "distinct ?res"
    unfolding res by (simp add: vecRanges_Fin distinct_sub_range d1 d2)
  have c4: "fst (FindEdgesForHeading apt (Fin hs) (Fin tol) [] rt) = (?res \<noteq> [])"
    by (simp add: FindEdgesForHeading_def Let_def)
  have c5: "hs = 5 \<and> tol = 10 \<longrightarrow>
            (\<forall>k < length ?es.
               (angle (?es ! k) = Fin 178 \<or> angle (?es ! k) = Fin 8)
               \<and> (rt = UNKNOWN_WAY \<or> rt = etype (?es ! k))
               \<longrightarrow> k \<in> set ?res)"
  proof (intro impI allI)
    fix k assume h: "hs = 5 \<and> tol = 10" and k: "k < length ?es"
      and a: "(angle (?es ! k) = Fin 178 \<or> angle (?es ! k) = Fin 8)
               \<and> (rt = UNKNOWN_WAY \<or> rt = etype (?es ! k))"
    have "?res = sub_range ?es rt (Fin 0) (Fin 15) @ sub_range ?es rt (Fin 175) (Fin 180)"
      using c1 h by (simp add: head180_def)
    moreover have "k \<in> set (sub_range ?es rt (Fin 0) (Fin 15)) \<or> k \<in> set (sub_range ?es rt (Fin 175) (Fin 180))"
      unfolding mem_sub_range using k a by auto
    ultimately show "k \<in> set ?res" by simp
  qed
  show ?thesis using c1 c2 c3 c4 c5 by blast
qed

lemma heading_apt_edges:
  "vecTaxiEdges heading_apt =
     [\<lparr>etype = TAXI_WAY, node_a = 0, node_b = 1, angle = Fin 8, dist_m = Fin 100\<rparr>,
      \<lparr>etype = TAXI_WAY, node_a = 0, node_b = 1, angle = Fin 100, dist_m = Fin 100\<rparr>,
      \<lparr>etype = TAXI_WAY, node_a = 0, node_b = 1, angle = Fin 178, dist_m = Fin 100\<rparr>]"
  by (simp add: heading_apt_def new_Apt_def new_TaxiEdge_def)

lemma heading_apt_sorted: "heading_sorted (vecTaxiEdges heading_apt)"
  by (simp add: heading_apt_edges heading_sorted_def)

theorem C1_FindEdgesForHeading_witness:
  "FindEdgesForHeading heading_apt (Fin 5) (Fin 10) [] UNKNOWN_WAY = (True, [0, 2])"
proof -
  have t: "(10::real) < 90" by simp
  have a: "sub_range (vecTaxiEdges heading_apt) UNKNOWN_WAY (Fin 0) (Fin 15) = [0]"
    by (simp add: heading_apt_edges sub_range_def)
  have b: "sub_range (vecTaxiEdges heading_apt) UNKNOWN_WAY (Fin 175) (Fin 180) = [2]"
    by (simp add: heading_apt_edges sub_range_def)
  have "snd (FindEdgesForHeading heading_apt (Fin 5) (Fin 10) [] UNKNOWN_WAY) = [0, 2]
        \<and> fst (FindEdgesForHeading heading_apt (Fin 5) (Fin 10) [] UNKNOWN_WAY)"
    using C1_FindEdgesForHeading [OF heading_apt_sorted t, of 5 UNKNOWN_WAY]
    by (simp add: head180_def a b)
  thus ?thesis by (cases "FindEdgesForHeading heading_apt (Fin 5) (Fin 10) [] UNKNOWN_WAY") simp
qed

lemma single_apt_edges:
  "vecTaxiEdges single_apt =
     [\<lparr>etype = TAXI_WAY, node_a = 0, node_b = 1, angle = Fin 90, dist_m = Fin 100\<rparr>]"
  by (simp add: single_apt_def new_Apt_def new_TaxiEdge_def)

text \<open>
  Claim C1, as stated for every window, fails: with a tolerance of 100 degrees around
  the heading 5 the two sub-ranges are [0,105] and [85,180], and an edge of heading 90
  lies in both and is returned twice.
\<close>

theorem C1_duplicates_counterexample:
  "heading_sorted (vecTaxiEdges single_apt)
   \<and> FindEdgesForHeading single_apt (Fin 5) (Fin 100) [] UNKNOWN_WAY = (True, [0, 0])
   \<and> \<not> distinct (snd (FindEdgesForHeading single_apt (Fin 5) (Fin 100) [] UNKNOWN_WAY))"
  by (simp add: single_apt_edges heading_sorted_def FindEdgesForHeading_def vecRanges_def Let_def
        lower_bound_def lower_bound_loop.simps scan_range.simps CompHeadLess_def cmp_TaxiEdge_def)

section \<open>Snapping a position: what changes\<close>

lemma ex_latlon_upd: "\<exists>la lo. (bp::positionTy) = bp\<lparr>p_lat := la, p_lon := lo\<rparr>"
  by (rule exI [of _ "p_lat bp"], rule exI [of _ "p_lon bp"]) simp

lemma FindClosestEdge_frame:
  assumes "FindClosestEdge G apt pos basePt m tol = Some (r, bp)"
  shows "(r = None \<longrightarrow> bp = basePt) \<and> (\<exists>la lo. bp = basePt\<lparr>p_lat := la, p_lon := lo\<rparr>)"
proof -
  show ?thesis
    using assms unfolding FindClosestEdge_def Let_def
    by (auto split: if_splits option.splits prod.splits simp: ex_latlon_upd)
qed

lemma SnapToTaxiway_frame:
  assumes "SnapToTaxiway G C apt pos = Some (r, pos')"
  shows "(\<not> r \<longrightarrow> pos' = pos)
       \<and> (r \<longrightarrow> pos'\<lparr>p_lat := p_lat pos, p_lon := p_lon pos, flightPhase := flightPhase pos\<rparr> = pos
              \<and> (\<exists>ei bp. FindClosestEdge G apt pos pos (GetFdSnapTaxiDist_m C)
                            (ART_EDGE_ANGLE_TOLERANCE C) = Some (Some ei, bp)
                    \<and> flightPhase pos' = (if etype (vecTaxiEdges apt ! ei) \<noteq> RUN_WAY
                                          then FPH_TAXI C else flightPhase pos)))"
proof (cases "FindClosestEdge G apt pos pos (GetFdSnapTaxiDist_m C) (ART_EDGE_ANGLE_TOLERANCE C)")
  case None
  with assms show ?thesis by (simp add: SnapToTaxiway_def)
next
  case (Some res)
  obtain e bp where res: "res = (e, bp)" by (cases res)
  note fr = FindClosestEdge_frame [OF Some [unfolded res]]
  show ?thesis
  proof (cases e)
    case None
    with assms Some res fr show ?thesis by (simp add: SnapToTaxiway_def)
  next
    case (Some ei)
    from fr obtain la lo where bp: "bp = pos\<lparr>p_lat := la, p_lon := lo\<rparr>" by blast
    show ?thesis
      using assms \<open>FindClosestEdge G apt pos pos (GetFdSnapTaxiDist_m C) (ART_EDGE_ANGLE_TOLERANCE C) = Some res\<close>
        res Some bp
      by (auto simp: SnapToTaxiway_def split: if_splits)
  qed
qed

lemma scan_range_bound:
  "set (scan_range es hi rt i lst) \<subseteq> set lst \<union> {i ..< length es}"
proof (induction es hi rt i lst rule: scan_range.induct)
  case (1 es hi rt i lst)
  show ?case
  proof (cases "i < length es \<and> dle (angle (es ! i)) hi")
    case True
    have "scan_range es hi rt i lst =
            scan_range es hi rt (Suc i) (if rt = UNKNOWN_WAY \<or> rt = etype (es ! i) then lst @ [i] else lst)"
      using True by (subst scan_range.simps) simp
    moreover have "set (if rt = UNKNOWN_WAY \<or> rt = etype (es ! i) then lst @ [i] else lst) \<union> {Suc i ..< length es}
        \<subseteq> set lst \<union> {i ..< length es}" using True by auto
    ultimately show ?thesis using "1.IH" [OF True] by auto
  next
    case False
    hence "scan_range es hi rt i lst = lst" by (subst scan_range.simps) auto
    thus ?thesis by simp
  qed
qed

lemma fold_scan_bound:
  "set lst \<subseteq> {0 ..< length es} \<Longrightarrow>
   set (fold (\<lambda>rngPair l. scan_range es (snd rngPair) rt (lower_bound es (fst rngPair)) l) rs lst)
     \<subseteq> {0 ..< length es}"
proof (induction rs arbitrary: lst)
  case Nil thus ?case by simp
next
  case (Cons r rs)
  have "set (scan_range es (snd r) rt (lower_bound es (fst r)) lst) \<subseteq> {0 ..< length es}"
    using scan_range_bound [of es "snd r" rt "lower_bound es (fst r)" lst] Cons.prems by auto
  thus ?case using Cons.IH by simp
qed

lemma FindEdgesForHeading_bound:
  "set (snd (FindEdgesForHeading apt hs tol [] rt)) \<subseteq> {0 ..< length (vecTaxiEdges apt)}"
  unfolding FindEdgesForHeading_def Let_def snd_conv
  by (rule fold_scan_bound) simp

lemma closest_loop_total:
  "edges_ok apt \<Longrightarrow> set lst \<subseteq> {0 ..< length (vecTaxiEdges apt)} \<Longrightarrow>
   closest_loop apt hinv px pz mb lst best bd \<noteq> None"
proof (induction lst arbitrary: best bd)
  case Nil thus ?case by simp
next
  case (Cons ei lst)
  have "ei < length (vecTaxiEdges apt)" using Cons.prems(2) by simp
  hence "edge_in_range apt (vecTaxiEdges apt ! ei)" using Cons.prems(1) by (simp add: edges_ok_def)
  hence g: "GetA (vecTaxiEdges apt ! ei) apt \<noteq> None \<and> GetB (vecTaxiEdges apt ! ei) apt \<noteq> None"
    by (auto simp: edge_in_range_def GetA_def GetB_def)
  have r: "\<And>best bd. closest_loop apt hinv px pz mb lst best bd \<noteq> None"
    using Cons.IH Cons.prems by simp
  show ?case using g r by (auto simp: Let_def split: option.splits)
qed

lemma FindClosestEdge_total:
  "edges_ok apt \<Longrightarrow> FindClosestEdge G apt pos basePt m tol \<noteq> None"
proof -
  assume ok: "edges_ok apt"
  have "closest_loop apt (dge (HeadingNormalize G (p_heading pos)) (Fin 180))
          (fst (XPLMWorldToLocal G (p_lat pos) (p_lon pos) (p_alt_m pos)))
          (snd (snd (XPLMWorldToLocal G (p_lat pos) (p_lon pos) (p_alt_m pos))))
          (Fin (of_int (sqr_int m)))
          (snd (FindEdgesForHeading apt (HeadingNormalize G (p_heading pos)) tol [] UNKNOWN_WAY))
          None \<lparr>dist2 = Fin (of_int (sqr_int m)), len2 = NaN, leg1_len2 = NaN, leg2_len2 = NaN\<rparr>
        \<noteq> None"
    by (rule closest_loop_total [OF ok FindEdgesForHeading_bound])
  then obtain b d where "closest_loop apt (dge (HeadingNormalize G (p_heading pos)) (Fin 180))
          (fst (XPLMWorldToLocal G (p_lat pos) (p_lon pos) (p_alt_m pos)))
          (snd (snd (XPLMWorldToLocal G (p_lat pos) (p_lon pos) (p_alt_m pos))))
          (Fin (of_int (sqr_int m)))
          (snd (FindEdgesForHeading apt (HeadingNormalize G (p_heading pos)) tol [] UNKNOWN_WAY))
          None \<lparr>dist2 = Fin (of_int (sqr_int m)), len2 = NaN, leg1_len2 = NaN, leg2_len2 = NaN\<rparr>
        = Some (b, d)" by fastforce
  thus ?thesis
    unfolding FindClosestEdge_def Let_def
    by (simp split: option.split prod.split)
qed

lemma LTAptFind_mem: "LTAptFind G gm pos = Some apt \<Longrightarrow> apt \<in> snd ` set gm"
proof -
  assume "LTAptFind G gm pos = Some apt"
  then obtain pair where "find (\<lambda>pair. bb_contains G (bounds (snd pair)) pos) gm = Some pair"
    and ap: "apt = snd pair" by (auto simp: LTAptFind_def)
  then obtain i where "i < length gm" "pair = gm ! i" by (auto simp: find_Some_iff)
  hence "pair \<in> set gm" by simp
  thus ?thesis using ap by simp
qed

text \<open>
  Claim C9: when \<open>LTAptSnap\<close> returns false, which it does in particular when snapping
  is configured off or no airport contains the position, the position passed in is
  unchanged. When it returns true, the position differs from the one passed in at most
  in latitude, longitude and flight phase, so altitude, timestamp, heading, pitch and
  roll are unchanged; the flight phase is set to the taxi phase if the edge found is
  not a runway and is unchanged if it is a runway. If the edges of all airports have
  their indexes in range, the function has a result.
\<close>

theorem C9_snap_frame:
  "(GetFdSnapTaxiDist_m C \<le> 0 \<or> LTAptFind G gm pos = None \<longrightarrow> LTAptSnap G C gm pos = Some (False, pos))
   \<and> (LTAptSnap G C gm pos = Some (False, pos') \<longrightarrow> pos' = pos)
   \<and> (LTAptSnap G C gm pos = Some (True, pos') \<longrightarrow>
        pos'\<lparr>p_lat := p_lat pos, p_lon := p_lon pos, flightPhase := flightPhase pos\<rparr> = pos
        \<and> p_alt_m pos' = p_alt_m pos \<and> p_ts pos' = p_ts pos \<and> p_heading pos' = p_heading pos
        \<and> p_pitch pos' = p_pitch pos \<and> p_roll pos' = p_roll pos
        \<and> (\<exists>apt ei bp. LTAptFind G gm pos = Some apt
              \<and> FindClosestEdge G apt pos pos (GetFdSnapTaxiDist_m C)
                   (ART_EDGE_ANGLE_TOLERANCE C) = Some (Some ei, bp)
              \<and> flightPhase pos' = (if etype (vecTaxiEdges apt ! ei) \<noteq> RUN_WAY
                                    then FPH_TAXI C else flightPhase pos)))
   \<and> ((\<forall>apt \<in> snd ` set gm. edges_ok apt) \<longrightarrow> LTAptSnap G C gm pos \<noteq> None)"
proof -
  have a: "GetFdSnapTaxiDist_m C \<le> 0 \<or> LTAptFind G gm pos = None \<longrightarrow> LTAptSnap G C gm pos = Some (False, pos)"
    by (auto simp: LTAptSnap_def)
  have b: "LTAptSnap G C gm pos = Some (False, pos') \<longrightarrow> pos' = pos"
  proof
    assume s: "LTAptSnap G C gm pos = Some (False, pos')"
    show "pos' = pos"
    proof (cases "GetFdSnapTaxiDist_m C \<le> 0 \<or> LTAptFind G gm pos = None")
      case True
      with a s show ?thesis by simp
    next
      case False
      then obtain apt where f: "LTAptFind G gm pos = Some apt" by auto
      have "SnapToTaxiway G C apt pos = Some (False, pos')"
        using s f False by (simp add: LTAptSnap_def)
      from SnapToTaxiway_frame [OF this] show ?thesis by simp
    qed
  qed
  have c: "LTAptSnap G C gm pos = Some (True, pos') \<longrightarrow>
        pos'\<lparr>p_lat := p_lat pos, p_lon := p_lon pos, flightPhase := flightPhase pos\<rparr> = pos
        \<and> p_alt_m pos' = p_alt_m pos \<and> p_ts pos' = p_ts pos \<and> p_heading pos' = p_heading pos
        \<and> p_pitch pos' = p_pitch pos \<and> p_roll pos' = p_roll pos
        \<and> (\<exists>apt ei bp. LTAptFind G gm pos = Some apt
              \<and> FindClosestEdge G apt pos pos (GetFdSnapTaxiDist_m C)
                   (ART_EDGE_ANGLE_TOLERANCE C) = Some (Some ei, bp)
              \<and> flightPhase pos' = (if etype (vecTaxiEdges apt ! ei) \<noteq> RUN_WAY
                                    then FPH_TAXI C else flightPhase pos))"
  proof
    assume s: "LTAptSnap G C gm pos = Some (True, pos')"
    have n: "\<not> (GetFdSnapTaxiDist_m C \<le> 0 \<or> LTAptFind G gm pos = None)"
      using a s by auto
    then obtain apt where f: "LTAptFind G gm pos = Some apt" by auto
    have st: "SnapToTaxiway G C apt pos = Some (True, pos')"
      using s f n by (simp add: LTAptSnap_def)
    note fr = SnapToTaxiway_frame [OF st]
    have eq: "pos'\<lparr>p_lat := p_lat pos, p_lon := p_lon pos, flightPhase := flightPhase pos\<rparr> = pos"
      using fr by simp
    have f1: "p_alt_m pos' = p_alt_m pos" using arg_cong [OF eq, of p_alt_m] by simp
    have f2: "p_ts pos' = p_ts pos" using arg_cong [OF eq, of p_ts] by simp
    have f3: "p_heading pos' = p_heading pos" using arg_cong [OF eq, of p_heading] by simp
    have f4: "p_pitch pos' = p_pitch pos" using arg_cong [OF eq, of p_pitch] by simp
    have f5: "p_roll pos' = p_roll pos" using arg_cong [OF eq, of p_roll] by simp
    from fr obtain ei bp where
      fc: "FindClosestEdge G apt pos pos (GetFdSnapTaxiDist_m C) (ART_EDGE_ANGLE_TOLERANCE C)
             = Some (Some ei, bp)"
      and fp: "flightPhase pos' = (if etype (vecTaxiEdges apt ! ei) \<noteq> RUN_WAY
                                    then FPH_TAXI C else flightPhase pos)"
      by blast
    have ex: "\<exists>apt ei bp. LTAptFind G gm pos = Some apt
              \<and> FindClosestEdge G apt pos pos (GetFdSnapTaxiDist_m C)
                   (ART_EDGE_ANGLE_TOLERANCE C) = Some (Some ei, bp)
              \<and> flightPhase pos' = (if etype (vecTaxiEdges apt ! ei) \<noteq> RUN_WAY
                                    then FPH_TAXI C else flightPhase pos)"
      by (intro exI conjI) (rule f, rule fc, rule fp)
    show "pos'\<lparr>p_lat := p_lat pos, p_lon := p_lon pos, flightPhase := flightPhase pos\<rparr> = pos
        \<and> p_alt_m pos' = p_alt_m pos \<and> p_ts pos' = p_ts pos \<and> p_heading pos' = p_heading pos
        \<and> p_pitch pos' = p_pitch pos \<and> p_roll pos' = p_roll pos
        \<and> (\<exists>apt ei bp. LTAptFind G gm pos = Some apt
              \<and> FindClosestEdge G apt pos pos (GetFdSnapTaxiDist_m C)
                   (ART_EDGE_ANGLE_TOLERANCE C) = Some (Some ei, bp)
              \<and> flightPhase pos' = (if etype (vecTaxiEdges apt ! ei) \<noteq> RUN_WAY
                                    then FPH_TAXI C else flightPhase pos))"
      by (intro conjI) (rule eq, rule f1, rule f2, rule f3, rule f4, rule f5, rule ex)
  qed
  have d: "(\<forall>apt \<in> snd ` set gm. edges_ok apt) \<longrightarrow> LTAptSnap G C gm pos \<noteq> None"
  proof
    assume ok: "\<forall>apt \<in> snd ` set gm. edges_ok apt"
    show "LTAptSnap G C gm pos \<noteq> None"
    proof (cases "LTAptFind G gm pos")
      case None
      hence "LTAptSnap G C gm pos = Some (False, pos)" using a by simp
      thus ?thesis by simp
    next
      case (Some apt)
      hence "apt \<in> snd ` set gm" by (rule LTAptFind_mem)
      hence "edges_ok apt" using ok by blast
      hence "FindClosestEdge G apt pos pos (GetFdSnapTaxiDist_m C) (ART_EDGE_ANGLE_TOLERANCE C) \<noteq> None"
        by (rule FindClosestEdge_total)
      then obtain r where "FindClosestEdge G apt pos pos (GetFdSnapTaxiDist_m C) (ART_EDGE_ANGLE_TOLERANCE C) = Some r"
        by (cases "FindClosestEdge G apt pos pos (GetFdSnapTaxiDist_m C) (ART_EDGE_ANGLE_TOLERANCE C)") simp_all
      hence "SnapToTaxiway G C apt pos \<noteq> None"
        by (cases r; cases "fst r") (simp_all add: SnapToTaxiway_def)
      thus ?thesis using Some by (auto simp: LTAptSnap_def)
    qed
  qed
  show ?thesis
    by (intro conjI) (rule a, rule b, rule c, rule d)
qed

section \<open>The closest edge: distance and excursion within the tolerance\<close>







lemma sqr_int_5: "sqr_int 5 = 25"
  by (simp add: sqr_int_def)








lemma DistPointToLineSqr_x_axis:
  assumes "0 < L"
  shows "DistPointToLineSqr (Fin px) (Fin pz) (Fin 0) (Fin 0) (Fin L) (Fin 0) =
           \<lparr>dist2 = Fin (if px < 0 then px * px + pz * pz
                         else if L < px then (px - L) * (px - L) + pz * pz
                         else pz * pz),
            len2 = Fin (L * L),
            leg1_len2 = Fin (px * px), leg2_len2 = Fin ((px - L) * (px - L))\<rparr>"
proof -
  have l2: "dadd (dsqr (dsub (Fin L) (Fin 0))) (dsqr (dsub (Fin 0) (Fin 0))) = Fin (L * L)"
    by (simp add: dsqr_def dsub_def)
  have t: "(if Fin (L * L) = Fin 0 then Fin 0
            else ddiv (dadd (dmul (dsub (Fin px) (Fin 0)) (dsub (Fin L) (Fin 0)))
                            (dmul (dsub (Fin pz) (Fin 0)) (dsub (Fin 0) (Fin 0)))) (Fin (L * L)))
           = Fin (px / L)"
    using assms by (simp add: dsub_def)
  have c1: "dless (Fin (px / L)) (Fin 0) = (px < 0)"
    using assms by (simp add: divide_less_0_iff)
  have c2: "dgt (Fin (px / L)) (Fin 1) = (L < px)"
    using assms by (simp add: dgt_def)
  have b: "dadd (Fin 0) (dmul (Fin (px / L)) (dsub (Fin L) (Fin 0))) = Fin px"
    using assms by (simp add: dsub_def)
  have z: "dadd (Fin 0) (dmul (Fin (px / L)) (dsub (Fin 0) (Fin 0))) = Fin 0"
    by (simp add: dsub_def)
  show ?thesis
    unfolding DistPointToLineSqr_def Let_def l2 t c1 c2 b z
    by (simp add: dsqr_def dsub_def)
qed

lemma DistPointToLineSqr_zero_length:
  "DistPointToLineSqr (Fin 50) (Fin 0) (Fin 0) (Fin 0) (Fin 0) (Fin 0) =
     \<lparr>dist2 = Fin 2500, len2 = Fin 0, leg1_len2 = Fin 0, leg2_len2 = Fin 0\<rparr>"
  by (simp add: DistPointToLineSqr_def Let_def dsqr_def dsub_def)

lemma DistPointToLineSqr_past_the_end:
  "DistPointToLineSqr (Fin 5) (Fin (49 / 10)) (Fin 0) (Fin 0) (Fin 1) (Fin 0) =
     \<lparr>dist2 = Fin (4001 / 100), len2 = Fin 1, leg1_len2 = Fin 25, leg2_len2 = Fin 16\<rparr>"
  by (simp add: DistPointToLineSqr_def Let_def dsqr_def dsub_def dgt_def)

lemma scene_edges_found:
  assumes sc: "lateral_scene G apt pos L px y" and tol: "0 \<le> tol" "tol < 90"
  shows "FindEdgesForHeading apt (Fin 90) (Fin tol) [] UNKNOWN_WAY = (True, [0])"
proof -
  from sc obtain e where es: "vecTaxiEdges apt = [e]"
    by (auto simp: lateral_scene_def length_Suc_conv)
  have ang: "angle e = Fin 90" using sc es by (simp add: lateral_scene_def)
  have srt: "heading_sorted (vecTaxiEdges apt)" by (simp add: es heading_sorted_def ang)
  have rng: "vecRanges (Fin 90) (Fin tol) = [(Fin (90 - tol), Fin (90 + tol))]"
    using tol by (simp add: vecRanges_Fin head180_def)
  have sr: "sub_range (vecTaxiEdges apt) UNKNOWN_WAY (Fin (90 - tol)) (Fin (90 + tol)) = [0]"
    using tol by (simp add: sub_range_def es ang)
  show ?thesis
    by (simp add: FindEdgesForHeading_ranges [OF srt] rng sr)
qed


lemma scene_loop_step:
  assumes sc: "lateral_scene G apt pos L px y"
  shows "closest_loop apt False (Fin px) (Fin 3) (Fin 25) [0] None
           \<lparr>dist2 = Fin 25, len2 = NaN, leg1_len2 = NaN, leg2_len2 = NaN\<rparr> =
         (let d = DistPointToLineSqr (Fin px) (Fin 3) (Fin 0) (Fin 0) (Fin L) (Fin 0)
          in if dge (dist2 d) (Fin 25) \<or> dgt (DistSqrOfBaseBeyondLine d) (Fin 25)
             then Some (None, \<lparr>dist2 = Fin 25, len2 = NaN, leg1_len2 = NaN, leg2_len2 = NaN\<rparr>)
             else Some (Some (0, vecTaxiNodes apt ! 0, vecTaxiNodes apt ! Suc 0), d))"
proof -
  have ga: "GetA (vecTaxiEdges apt ! 0) apt = Some (vecTaxiNodes apt ! 0)"
    and gb: "GetB (vecTaxiEdges apt ! 0) apt = Some (vecTaxiNodes apt ! Suc 0)"
    using sc by (simp_all add: lateral_scene_def GetA_def GetB_def)
  have lc: "HasLocalCoords (vecTaxiNodes apt ! 0)" "HasLocalCoords (vecTaxiNodes apt ! Suc 0)"
    using sc by (simp_all add: lateral_scene_def HasLocalCoords_def)
  have co: "loc_x (vecTaxiNodes apt ! 0) = Fin 0" "loc_z (vecTaxiNodes apt ! 0) = Fin 0"
           "loc_x (vecTaxiNodes apt ! Suc 0) = Fin L" "loc_z (vecTaxiNodes apt ! Suc 0) = Fin 0"
    using sc by (simp_all add: lateral_scene_def)
  show ?thesis
    by (simp add: Let_def ga gb lc co)
qed

lemma scene_base:
  assumes "0 < L" "0 \<le> px" "px \<le> L"
  shows "DistResultToBaseLoc (Fin 0) (Fin 0) (Fin L) (Fin 0)
           \<lparr>dist2 = Fin 9, len2 = Fin (L * L),
            leg1_len2 = Fin (px * px), leg2_len2 = Fin ((px - L) * (px - L))\<rparr> = (Fin px, Fin 0)"
proof -
  have le: "(px - L) * (px - L) \<le> L * L"
  proof -
    have "\<bar>px - L\<bar> \<le> \<bar>L\<bar>" using assms by simp
    hence "(px - L)\<^sup>2 \<le> L\<^sup>2" by (rule abs_le_square_iff [THEN iffD1])
    thus ?thesis by (simp add: power2_eq_square)
  qed
  have s1: "sqrt (px * px) = px" using assms by simp
  have s2: "sqrt (L * L) = L" using assms by simp
  have r: "px / L * L = px" using assms by simp
  show ?thesis
    using assms le by (simp add: DistResultToBaseLoc_def Let_def s1 s2 r dgt_def dsub_def)
qed

lemma lateral_match:
  assumes sc: "lateral_scene G apt pos L px y" and tol: "0 \<le> tol" "tol < 90"
    and px: "0 \<le> px" "px \<le> L"
  shows "FindClosestEdge G apt pos basePt 5 (Fin tol) =
           Some (Some 0, basePt\<lparr>p_lat := fst (XPLMLocalToWorld G (Fin px) y (Fin 0)),
                                p_lon := fst (snd (XPLMLocalToWorld G (Fin px) y (Fin 0)))\<rparr>)"
proof -
  have L: "0 < L" using sc by (simp add: lateral_scene_def)
  have hs: "HeadingNormalize G (p_heading pos) = Fin 90"
    and pt: "XPLMWorldToLocal G (p_lat pos) (p_lon pos) (p_alt_m pos) = (Fin px, y, Fin 3)"
    using sc by (simp_all add: lateral_scene_def)
  have co: "loc_x (vecTaxiNodes apt ! 0) = Fin 0" "loc_z (vecTaxiNodes apt ! 0) = Fin 0"
           "loc_x (vecTaxiNodes apt ! Suc 0) = Fin L" "loc_z (vecTaxiNodes apt ! Suc 0) = Fin 0"
    using sc by (simp_all add: lateral_scene_def)
  have "px * px \<le> L * L" using px by (simp add: mult_mono)
  moreover have "(px - L) * (px - L) \<le> L * L"
  proof -
    have "\<bar>px - L\<bar> \<le> \<bar>L\<bar>" using px L by simp
    hence "(px - L)\<^sup>2 \<le> L\<^sup>2" by (rule abs_le_square_iff [THEN iffD1])
    thus ?thesis by (simp add: power2_eq_square)
  qed
  ultimately have nb: "\<not> max (px * px) ((px - L) * (px - L)) - L * L > 25" by simp
  have mx: "dmax (Fin (px * px)) (Fin ((px - L) * (px - L))) = Fin (max (px * px) ((px - L) * (px - L)))"
    by (simp add: dmax_def max_def)
  have lp: "closest_loop apt False (Fin px) (Fin 3) (Fin 25) [0] None
           \<lparr>dist2 = Fin 25, len2 = NaN, leg1_len2 = NaN, leg2_len2 = NaN\<rparr> =
          Some (Some (0, vecTaxiNodes apt ! 0, vecTaxiNodes apt ! Suc 0),
                     \<lparr>dist2 = Fin 9, len2 = Fin (L * L),
                      leg1_len2 = Fin (px * px), leg2_len2 = Fin ((px - L) * (px - L))\<rparr>)"
    unfolding scene_loop_step [OF sc] DistPointToLineSqr_x_axis [OF L] Let_def
    using nb px by (simp add: DistSqrOfBaseBeyondLine_def mx dge_def dle_def dgt_def dsub_def)
  show ?thesis
    unfolding FindClosestEdge_def Let_def
    by (simp add: hs pt scene_edges_found [OF sc tol] lp co scene_base [OF L px] sqr_int_5
          del: closest_loop.simps)
qed




lemma snap_scene: "lateral_scene flat_geo snap_apt snap_pos 100 50 (Fin 0)"
  by (simp add: lateral_scene_def snap_apt_def snap_pos_def new_Apt_def local_TaxiNode_def
        new_TaxiNode_def new_TaxiEdge_def new_positionTy_def flat_geo_def)


lemma snap_value:
  "FindClosestEdge flat_geo snap_apt snap_pos snap_pos 5 (Fin 30) =
     Some (Some 0, snap_pos\<lparr>p_lat := Fin 0, p_lon := Fin (50 / 100000)\<rparr>)"
  using lateral_match [OF snap_scene, of 30 snap_pos]
  by (simp add: flat_geo_def)


lemma snap_registry_value:
  "LTAptSnap flat_geo example_cfg [(''XSNP'', snap_apt)] snap_pos = Some (True, snapped_pos)"
proof -
  have f: "LTAptFind flat_geo [(''XSNP'', snap_apt)] snap_pos = Some snap_apt"
    by (simp add: LTAptFind_def flat_geo_def)
  have e: "etype (vecTaxiEdges snap_apt ! 0) = TAXI_WAY"
    by (simp add: snap_apt_def new_TaxiEdge_def)
  show ?thesis
    by (simp add: LTAptSnap_def f SnapToTaxiway_def example_cfg_def snap_value e snapped_pos_def)
qed

theorem C9_snap_frame_witness:
  "LTAptSnap flat_geo example_cfg [(''XSNP'', snap_apt)] snap_pos = Some (True, snapped_pos)
   \<and> p_alt_m snapped_pos = Fin 0 \<and> p_ts snapped_pos = Fin 1000 \<and> p_heading snapped_pos = Fin 90
   \<and> p_pitch snapped_pos = Fin 0 \<and> p_roll snapped_pos = Fin 0
   \<and> LTAptSnap flat_geo example_cfg [] snap_pos = Some (False, snap_pos)
   \<and> LTAptSnap flat_geo (example_cfg\<lparr>GetFdSnapTaxiDist_m := 0\<rparr>) [(''XSNP'', snap_apt)] snap_pos
       = Some (False, snap_pos)"
proof -
  note c9 = C9_snap_frame [of example_cfg flat_geo "[(''XSNP'', snap_apt)]" snap_pos snapped_pos]
  have fr: "p_alt_m snapped_pos = p_alt_m snap_pos \<and> p_ts snapped_pos = p_ts snap_pos
        \<and> p_heading snapped_pos = p_heading snap_pos
        \<and> p_pitch snapped_pos = p_pitch snap_pos \<and> p_roll snapped_pos = p_roll snap_pos"
    using c9 snap_registry_value by blast
  have a: "LTAptSnap flat_geo example_cfg [] snap_pos = Some (False, snap_pos)"
    using C9_snap_frame [of example_cfg flat_geo "[]" snap_pos snap_pos]
    by (simp add: LTAptFind_def)
  have b: "LTAptSnap flat_geo (example_cfg\<lparr>GetFdSnapTaxiDist_m := 0\<rparr>) [(''XSNP'', snap_apt)] snap_pos
       = Some (False, snap_pos)"
    using C9_snap_frame [of "example_cfg\<lparr>GetFdSnapTaxiDist_m := 0\<rparr>" flat_geo
                            "[(''XSNP'', snap_apt)]" snap_pos snap_pos]
    by simp
  show ?thesis
    using fr a b snap_registry_value by (simp add: snap_pos_def new_positionTy_def)
qed

section \<open>Thinning the nodes of a taxi centerline\<close>

lemma min_len2: "APT_MIN_TAXI_SEGM_LEN_M2 = Fin 100"
  by (simp add: APT_MIN_TAXI_SEGM_LEN_M2_def)

lemma thin_stop: "\<not> iter + 3 < length v \<Longrightarrow> ReadOneTaxiLine_thin G iter v apt = (v, apt)"
  by (subst ReadOneTaxiLine_thin.simps) simp

lemma thin_erase:
  "iter + 3 < length v \<Longrightarrow>
   dless (node_dist2 G (v ! iter) (v ! (iter + 1))) APT_MIN_TAXI_SEGM_LEN_M2 \<Longrightarrow>
   ReadOneTaxiLine_thin G iter v apt = ReadOneTaxiLine_thin G iter (erase_at (iter + 1) v) apt"
  by (subst ReadOneTaxiLine_thin.simps) (simp add: Let_def)

lemma thin_keep:
  "iter + 3 < length v \<Longrightarrow>
   \<not> dless (node_dist2 G (v ! iter) (v ! (iter + 1))) APT_MIN_TAXI_SEGM_LEN_M2 \<Longrightarrow>
   ReadOneTaxiLine_thin G iter v apt =
     ReadOneTaxiLine_thin G (iter + 1) v
       (add_node_and_edge G (v ! (iter + 1))
          (dsqrt (node_dist2 G (v ! iter) (v ! (iter + 1)))) apt)"
  by (subst ReadOneTaxiLine_thin.simps) (simp add: Let_def)

lemma add_node_and_edge_geo:
  assumes "HasGeoCoords b" and "vecTaxiNodes apt \<noteq> []"
    and "HasGeoCoords (last (vecTaxiNodes apt))"
  shows "add_node_and_edge G b d apt =
           apt\<lparr>bounds := bb_enlarge_pos G (bounds apt) (lat b) (lon b),
               vecTaxiNodes := vecTaxiNodes apt @ [new_TaxiNode (lat b) (lon b)],
               vecTaxiEdges := vecTaxiEdges apt @
                 [new_TaxiEdge TAXI_WAY (length (vecTaxiNodes apt) - 1) (length (vecTaxiNodes apt))
                    (CoordAngle G (lat (last (vecTaxiNodes apt))) (lon (last (vecTaxiNodes apt)))
                       (lat b) (lon b))
                    (if isnan d
                     then DistLatLon G (lat (last (vecTaxiNodes apt))) (lon (last (vecTaxiNodes apt)))
                            (lat b) (lon b)
                     else d)]\<rparr>"
proof -
  let ?n = "length (vecTaxiNodes apt)"
  have n: "0 < ?n" using assms(2) by simp
  have l: "(vecTaxiNodes apt @ [new_TaxiNode (lat b) (lon b)]) ! (?n - Suc 0) = last (vecTaxiNodes apt)"
    using n assms(2) by (simp add: nth_append last_conv_nth)
  have g: "HasGeoCoords (new_TaxiNode (lat b) (lon b))"
    using assms(1) by (simp add: HasGeoCoords_def new_TaxiNode_def)
  have la: "lat (new_TaxiNode (lat b) (lon b)) = lat b" "lon (new_TaxiNode (lat b) (lon b)) = lon b"
    by (simp_all add: new_TaxiNode_def)
  show ?thesis
    using n assms(3) g
    by (simp add: add_node_and_edge_def AddTaxiNode_def AddTaxiEdge_def Let_def l la)
qed

lemma nodes_five:
  assumes len: "length ps = 5" and sp: "spaced_2m G ps" and geo: "list_all HasGeoCoords ps"
  shows "ReadOneTaxiLine_nodes G ps apt =
           apt\<lparr>bounds := bb_enlarge_pos G
                            (bb_enlarge_pos G (bounds apt) (lat (ps ! 0)) (lon (ps ! 0)))
                            (lat (ps ! 4)) (lon (ps ! 4)),
               vecTaxiNodes := vecTaxiNodes apt @
                 [new_TaxiNode (lat (ps ! 0)) (lon (ps ! 0)),
                  new_TaxiNode (lat (ps ! 4)) (lon (ps ! 4))],
               vecTaxiEdges := vecTaxiEdges apt @
                 [new_TaxiEdge TAXI_WAY (length (vecTaxiNodes apt)) (Suc (length (vecTaxiNodes apt)))
                    (CoordAngle G (lat (ps ! 0)) (lon (ps ! 0)) (lat (ps ! 4)) (lon (ps ! 4)))
                    (Fin (2 + 2 + 2 + 2))]\<rparr>"
proof -
  from len obtain p0 p1 p2 p3 p4 where ps: "ps = [p0, p1, p2, p3, p4]"
    by (auto simp: length_Suc_conv eval_nat_numeral)
  have d01: "node_dist2 G p0 p1 = Fin 4"
    using sp [unfolded spaced_2m_def, rule_format, of 0 1] by (simp add: ps)
  have d02: "node_dist2 G p0 p2 = Fin 16"
    using sp [unfolded spaced_2m_def, rule_format, of 0 2] by (simp add: ps)
  have d03: "node_dist2 G p0 p3 = Fin 36"
    using sp [unfolded spaced_2m_def, rule_format, of 0 3] by (simp add: ps)
  have d34: "node_dist2 G p3 p4 = Fin 4"
    using sp [unfolded spaced_2m_def, rule_format, of 3 4] by (simp add: ps)
  have g0: "HasGeoCoords p0" and g4: "HasGeoCoords p4" using geo by (simp_all add: ps)
  define apt1 where "apt1 = snd (AddTaxiNode G (lat p0) (lon p0) apt)"
  have apt1: "apt1 = apt\<lparr>bounds := bb_enlarge_pos G (bounds apt) (lat p0) (lon p0),
                          vecTaxiNodes := vecTaxiNodes apt @ [new_TaxiNode (lat p0) (lon p0)]\<rparr>"
    by (simp add: apt1_def AddTaxiNode_def Let_def)
  have t1: "ReadOneTaxiLine_thin G 0 [p0, p1, p2, p3, p4] apt1 =
            ReadOneTaxiLine_thin G 0 [p0, p2, p3, p4] apt1"
    using thin_erase [of 0 "[p0, p1, p2, p3, p4]" G apt1]
    by (simp add: d01 min_len2 erase_at_def)
  have t2: "ReadOneTaxiLine_thin G 0 [p0, p2, p3, p4] apt1 =
            ReadOneTaxiLine_thin G 0 [p0, p3, p4] apt1"
    using thin_erase [of 0 "[p0, p2, p3, p4]" G apt1]
    by (simp add: d02 min_len2 erase_at_def)
  have t3: "ReadOneTaxiLine_thin G 0 [p0, p3, p4] apt1 = ([p0, p3, p4], apt1)"
    by (rule thin_stop) simp
  have l3: "ReadOneTaxiLine_last3 G [p0, p3, p4] apt1 = ([p0, p4], Fin 8, apt1)"
    by (simp add: ReadOneTaxiLine_last3_def Let_def d03 d34 min_len2 erase_at_def
          eval_nat_numeral)
  have fin: "add_node_and_edge G p4 (Fin 8) apt1 =
           apt1\<lparr>bounds := bb_enlarge_pos G (bounds apt1) (lat p4) (lon p4),
               vecTaxiNodes := vecTaxiNodes apt1 @ [new_TaxiNode (lat p4) (lon p4)],
               vecTaxiEdges := vecTaxiEdges apt1 @
                 [new_TaxiEdge TAXI_WAY (length (vecTaxiNodes apt1) - 1) (length (vecTaxiNodes apt1))
                    (CoordAngle G (lat (last (vecTaxiNodes apt1))) (lon (last (vecTaxiNodes apt1)))
                       (lat p4) (lon p4))
                    (if isnan (Fin 8)
                     then DistLatLon G (lat (last (vecTaxiNodes apt1))) (lon (last (vecTaxiNodes apt1)))
                            (lat p4) (lon p4)
                     else Fin 8)]\<rparr>"
    using g0 by (intro add_node_and_edge_geo [OF g4]) (simp_all add: apt1 HasGeoCoords_def new_TaxiNode_def)
  have "ReadOneTaxiLine_nodes G ps apt = add_node_and_edge G p4 (Fin 8) apt1"
    by (simp add: ReadOneTaxiLine_nodes_def Let_def ps apt1_def [symmetric] t1 t2 t3 l3)
  thus ?thesis
    by (simp add: fin) (simp add: apt1 ps new_TaxiNode_def)
qed

lemma dist_m_new_TaxiEdge: "dist_m (new_TaxiEdge t a b ang d) = d"
  by (simp add: new_TaxiEdge_def)

text \<open>
  Claim C3: a section of five nodes that lie on a line 2 metres apart (as the estimated
  distance sees them, all below the minimum of 10 metres) adds exactly two taxi nodes to
  the airport, the first and the last node of the section, and exactly one edge, between
  these two nodes, whose stored length is the sum 2 + 2 + 2 + 2 of the four parts.
\<close>

theorem C3_thinning_five_points:
  assumes "ReadOneTaxiLine_read IO fIn [] [] = Inr (ps, cur, fIn')"
    and "length ps = 5" and "spaced_2m G ps" and "list_all HasGeoCoords ps"
  shows "ReadOneTaxiLine G IO fIn apt =
           Inr (cur, fIn',
             apt\<lparr>bounds := bb_enlarge_pos G
                            (bb_enlarge_pos G (bounds apt) (lat (ps ! 0)) (lon (ps ! 0)))
                            (lat (ps ! 4)) (lon (ps ! 4)),
                 vecTaxiNodes := vecTaxiNodes apt @
                   [new_TaxiNode (lat (ps ! 0)) (lon (ps ! 0)),
                    new_TaxiNode (lat (ps ! 4)) (lon (ps ! 4))],
                 vecTaxiEdges := vecTaxiEdges apt @
                   [new_TaxiEdge TAXI_WAY (length (vecTaxiNodes apt)) (Suc (length (vecTaxiNodes apt)))
                      (CoordAngle G (lat (ps ! 0)) (lon (ps ! 0)) (lat (ps ! 4)) (lon (ps ! 4)))
                      (Fin (2 + 2 + 2 + 2))]\<rparr>)
       \<and> dist_m (new_TaxiEdge TAXI_WAY (length (vecTaxiNodes apt)) (Suc (length (vecTaxiNodes apt)))
                      (CoordAngle G (lat (ps ! 0)) (lon (ps ! 0)) (lat (ps ! 4)) (lon (ps ! 4)))
                      (Fin (2 + 2 + 2 + 2))) = Fin 8"
proof -
  have "ReadOneTaxiLine G IO fIn apt = Inr (cur, fIn', ReadOneTaxiLine_nodes G ps apt)"
    using assms(1) by (simp add: ReadOneTaxiLine_def)
  thus ?thesis
    by (simp only: nodes_five [OF assms(2) assms(3) assms(4)] dist_m_new_TaxiEdge) simp
qed

lemma example_read:
  "ReadOneTaxiLine_read example_io (example_taxi_lines, True) [] [] =
     Inr (example_taxi_nodes, ''99 end of the section'', ([], True))"
  by (simp add: ReadOneTaxiLine_read.simps example_taxi_lines_def example_taxi_nodes_def
        example_io_def safeGetline_def Let_def line_type_code_def is_blank_def)

lemma example_spaced: "spaced_2m flat_geo example_taxi_nodes"
  by (auto simp: spaced_2m_def example_taxi_nodes_def node_dist2_def flat_geo_def flat_dist2_def
        new_TaxiNode_def less_Suc_eq numeral_eq_Suc)

lemma example_geo: "list_all HasGeoCoords example_taxi_nodes"
  by (simp add: example_taxi_nodes_def HasGeoCoords_def new_TaxiNode_def)

theorem C3_thinning_five_points_witness:
  "ReadOneTaxiLine flat_geo example_io (example_taxi_lines, True) (new_Apt ''XTAX'') =
     Inr (''99 end of the section'', ([], True),
          (new_Apt ''XTAX'')
            \<lparr>vecTaxiNodes := [new_TaxiNode (Fin 0) (Fin 0), new_TaxiNode (Fin 0) (Fin (8 / 100000))],
             vecTaxiEdges := [\<lparr>etype = TAXI_WAY, node_a = 0, node_b = 1, angle = Fin 90,
                               dist_m = Fin 8\<rparr>]\<rparr>)"
proof -
  have len: "length example_taxi_nodes = 5" by (simp add: example_taxi_nodes_def)
  show ?thesis
    using C3_thinning_five_points [OF example_read len example_spaced example_geo,
            of "new_Apt ''XTAX''"]
    by (simp add: example_taxi_nodes_def new_Apt_def new_TaxiNode_def new_TaxiEdge_def flat_geo_def)
qed

section \<open>Reading the file: only valid airports reach the map\<close>

lemma insort_edge_not_Nil: "insort_edge e xs \<noteq> []"
  by (cases xs) auto

lemma sort_edges_Nil: "(sort_edges es = []) = (es = [])"
  by (cases es) (simp_all add: sort_edges_def insort_edge_not_Nil)

lemma IsValid_prepare: "IsValid (AddApt_prepare G C apt) = IsValid apt"
  by (simp add: AddApt_prepare_def Let_def IsValid_def HasId_def HasTaxiWays_def
        HasRwyEndpoints_def sort_edges_Nil)

lemma set_emplace: "set (gmap_emplace k a gm) \<subseteq> insert (k, a) (set gm)"
  by (auto simp: gmap_emplace_def set_insort_key)

lemma reg_ok_AddApt: "IsValid apt \<Longrightarrow> reg_ok gm0 gm \<Longrightarrow> reg_ok gm0 (AddApt G C apt gm)"
  using set_emplace [of "apt_id (AddApt_prepare G C apt)" "AddApt_prepare G C apt" gm]
  by (auto simp: reg_ok_def AddApt_def IsValid_prepare)

lemma gmap_apt_header:
  "gmapApt (apt_header G C IO cur s) =
     (if IsValid (ps_apt s) then AddApt G C (ps_apt s) (gmapApt s) else gmapApt s)"
  by (simp add: apt_header_def Let_def)

lemma gmap_rwy_line: "rwy_line G IO box cur s = Inr t \<Longrightarrow> gmapApt t = gmapApt s"
  by (auto simp: rwy_line_def Let_def split: if_splits option.splits prod.splits)

lemma gmap_body:
  assumes "ReadOneAptFile_body G C IO box s = Inr s'"
  shows "gmapApt s' = gmapApt s
         \<or> (\<exists>apt. IsValid apt \<and> gmapApt s' = AddApt G C apt (gmapApt s))"
proof -
  define r where "r = (if bProcessGivenLn s then (ps_ln s, ps_fIn s) else safeGetline (ps_fIn s))"
  define cur where "cur = fst r"
  define s1 where "s1 = s\<lparr>ps_fIn := snd r, ps_ln := cur, bProcessGivenLn := False\<rparr>"
  have g1: "gmapApt s1 = gmapApt s" "ps_apt s1 = ps_apt s" by (simp_all add: s1_def)
  have unf: "ReadOneAptFile_body G C IO box s =
      (if cur = [] then Inr s1
         else if is_apt_header cur then Inr (apt_header G C IO cur s1)
         else if HasId (ps_apt s1) \<and> is_rwy_line cur then rwy_line G IO box cur s1
         else if HasRwyEndpoints (ps_apt s1) \<and> is_taxi_marker cur
         then
           (case ReadOneTaxiLine G IO (ps_fIn s1) (ps_apt s1) of
              Inl e \<Rightarrow> Inl e
            | Inr (cur2, fIn2, apt2) \<Rightarrow>
                Inr (s1\<lparr>ps_fIn := fIn2, ps_ln := cur2, bProcessGivenLn := True,
                         ps_apt := apt2\<rparr>))
         else Inr s1)"
    unfolding s1_def cur_def r_def by (simp add: ReadOneAptFile_body_def Let_def)
  show ?thesis
  proof (cases "cur \<noteq> [] \<and> is_apt_header cur")
    case True
    hence "s' = apt_header G C IO cur s1" using assms unf by simp
    thus ?thesis by (auto simp: gmap_apt_header g1)
  next
    case False
    have "gmapApt s' = gmapApt s1"
    proof (cases "cur = []")
      case True
      thus ?thesis using assms unf by simp
    next
      case ne: False
      hence nh: "\<not> is_apt_header cur" using False by simp
      show ?thesis
      proof (cases "HasId (ps_apt s1) \<and> is_rwy_line cur")
        case True
        hence "rwy_line G IO box cur s1 = Inr s'" using assms unf ne nh by simp
        thus ?thesis by (rule gmap_rwy_line)
      next
        case nrw: False
        show ?thesis
        proof (cases "HasRwyEndpoints (ps_apt s1) \<and> is_taxi_marker cur")
          case True
          thus ?thesis using assms unf ne nh nrw
            by (auto split: if_splits sum.splits)
        next
          case False
          thus ?thesis using assms unf ne nh nrw by (auto split: if_splits)
        qed
      qed
    qed
    thus ?thesis by (simp add: g1)
  qed
qed

lemma reg_ok_body:
  "ReadOneAptFile_body G C IO box s = Inr s' \<Longrightarrow> reg_ok gm0 (gmapApt s) \<Longrightarrow> reg_ok gm0 (gmapApt s')"
  using gmap_body [of G C IO box s s'] reg_ok_AddApt by auto

lemma reg_ok_loop:
  "reg_ok gm0 (gmapApt s) \<Longrightarrow>
   reg_ok gm0 (gmapApt (snd (ReadOneAptFile_loop G C IO box bStopThread n s)))"
proof (induction G C IO box bStopThread n s rule: ReadOneAptFile_loop.induct)
  case (1 G C IO box bStopThread n s)
  show ?case
  proof (cases "bStopThread n \<or> \<not> (bProcessGivenLn s \<or> snd (ps_fIn s))")
    case True
    hence "ReadOneAptFile_loop G C IO box bStopThread n s = (None, s)"
      by (subst ReadOneAptFile_loop.simps) simp
    thus ?thesis using "1.prems" by simp
  next
    case False
    show ?thesis
    proof (cases "ReadOneAptFile_body G C IO box s")
      case (Inl e)
      hence "ReadOneAptFile_loop G C IO box bStopThread n s = (Some e, s)"
        using False by (subst ReadOneAptFile_loop.simps) simp
      thus ?thesis using "1.prems" by simp
    next
      case (Inr s')
      hence eq: "ReadOneAptFile_loop G C IO box bStopThread n s =
                 ReadOneAptFile_loop G C IO box bStopThread (Suc n) s'"
        using False by (subst ReadOneAptFile_loop.simps) simp
      have "reg_ok gm0 (gmapApt s')" using Inr "1.prems" by (rule reg_ok_body)
      from "1.IH" [OF False Inr this] show ?thesis by (simp add: eq)
    qed
  qed
qed

text \<open>
  Claim C8: every airport that \<open>ReadOneAptFile\<close> adds to the map of airports is valid
  (it has an identifier, at least one edge and at least one runway end) and is stored
  under its identifier, whether it is added when the line of the next airport is read
  or after the loop; this holds for every input, also when the function is stopped or
  ends with an exception. An airport that is not valid is not added: the line of the
  next airport leaves the map as it is, and so does the end of the function.
\<close>

theorem C8_registry_valid:
  "(\<forall>entry \<in> set (snd (ReadOneAptFile G C IO box bStopThread fIn gm)).
      entry \<in> set gm \<or> (IsValid (snd entry) \<and> fst entry = apt_id (snd entry)))
   \<and> (\<not> IsValid (ps_apt s) \<longrightarrow> gmapApt (apt_header G C IO cur s) = gmapApt s)
   \<and> (fst (ReadOneAptFile G C IO box bStopThread fIn gm) = None
        \<and> \<not> IsValid (ps_apt (snd (ReadOneAptFile_loop G C IO box bStopThread 0
                \<lparr>ps_fIn = fIn, ps_ln = [], bProcessGivenLn = False, ps_apt = new_Apt [],
                 gmapApt = gm\<rparr>)))
      \<longrightarrow> snd (ReadOneAptFile G C IO box bStopThread fIn gm) =
            gmapApt (snd (ReadOneAptFile_loop G C IO box bStopThread 0
                \<lparr>ps_fIn = fIn, ps_ln = [], bProcessGivenLn = False, ps_apt = new_Apt [],
                 gmapApt = gm\<rparr>)))"
proof -
  let ?s0 = "\<lparr>ps_fIn = fIn, ps_ln = [], bProcessGivenLn = False, ps_apt = new_Apt [], gmapApt = gm\<rparr>"
  let ?r = "ReadOneAptFile_loop G C IO box bStopThread 0 ?s0"
  have "reg_ok gm (gmapApt ?s0)" by (simp add: reg_ok_def)
  hence l: "reg_ok gm (gmapApt (snd ?r))" by (rule reg_ok_loop)
  have "reg_ok gm (snd (ReadOneAptFile G C IO box bStopThread fIn gm))"
    using l reg_ok_AddApt [of "ps_apt (snd ?r)" gm "gmapApt (snd ?r)" G C]
    by (simp add: ReadOneAptFile_def Let_def split: option.splits)
  hence a: "\<forall>entry \<in> set (snd (ReadOneAptFile G C IO box bStopThread fIn gm)).
      entry \<in> set gm \<or> (IsValid (snd entry) \<and> fst entry = apt_id (snd entry))"
    by (simp add: reg_ok_def)
  have b: "\<not> IsValid (ps_apt s) \<longrightarrow> gmapApt (apt_header G C IO cur s) = gmapApt s"
    by (simp add: gmap_apt_header)
  have c: "fst (ReadOneAptFile G C IO box bStopThread fIn gm) = None
        \<and> \<not> IsValid (ps_apt (snd ?r))
      \<longrightarrow> snd (ReadOneAptFile G C IO box bStopThread fIn gm) = gmapApt (snd ?r)"
    by (simp add: ReadOneAptFile_def Let_def split: option.splits)
  show ?thesis using a b c by blast
qed

lemma tok_h1: "split_blank_acc [] ''1 0 0 0 XAPT Example airport'' =
   [''1'', ''0'', ''0'', ''0'', ''XAPT'', ''Example'', ''airport'']"
  by (simp add: is_blank_def)

lemma tok_h2: "split_blank_acc [] ''1 0 0 0 XBAD No runway here'' =
   [''1'', ''0'', ''0'', ''0'', ''XBAD'', ''No'', ''runway'', ''here'']"
  by (simp add: is_blank_def)

lemma tok_rw: "split_blank_acc [] ''100 29.87 1 0 0.25 0 2 1 09 0 0.00000 0 0 2 0 0 1 27 0 0.02000 0 0 2 0 0 1'' =
   [''100'', ''29.87'', ''1'', ''0'', ''0.25'', ''0'', ''2'', ''1'', ''09'', ''0'', ''0.00000'', ''0'', ''0'',
    ''2'', ''0'', ''0'', ''1'', ''27'', ''0'', ''0.02000'', ''0'', ''0'', ''2'', ''0'', ''0'', ''1'']"
  by (simp add: is_blank_def)

lemma example_step0:
  "ReadOneAptFile_body flat_geo example_cfg example_io empty_boundingBoxTy (example_state 0)
     = Inr (example_state (Suc 0))"
  by (simp add: ReadOneAptFile_body_def example_state_def safeGetline_def example_apt_file_def
        Let_def is_apt_header_def is_blank_def apt_header_def example_io_def tok_h1
        gmap_count_def IsValid_def HasId_def new_Apt_def)

lemma example_step1:
  "ReadOneAptFile_body flat_geo example_cfg example_io empty_boundingBoxTy (example_state (Suc 0))
     = Inr (example_state 2)"
  by (simp add: ReadOneAptFile_body_def example_state_def safeGetline_def example_apt_file_def
        Let_def is_apt_header_def is_rwy_line_def is_blank_def rwy_line_def example_io_def tok_rw
        HasId_def HasTaxiWays_def new_Apt_def example_apt_rw_def flat_geo_def)

lemma example_rw_parts:
  "apt_id example_apt_rw = ''XAPT''" "vecRwyEndPts example_apt_rw \<noteq> []"
  "vecTaxiEdges example_apt_rw \<noteq> []" "vecTaxiNodes example_apt_rw = []"
  by (simp_all add: example_apt_rw_def AddRwyEnds_def Let_def new_Apt_def)

lemma example_taxi_read:
  "ReadOneTaxiLine_read example_io (drop 3 example_apt_file, True) [] [] =
     Inr (example_taxi_nodes, ''1 0 0 0 XBAD No runway here'', ([], True))"
  by (simp add: ReadOneTaxiLine_read.simps example_apt_file_def example_taxi_nodes_def
        example_io_def safeGetline_def Let_def line_type_code_def is_blank_def)

lemma example_step2:
  "ReadOneAptFile_body flat_geo example_cfg example_io empty_boundingBoxTy (example_state 2)
     = Inr (example_state 3)"
proof -
  have d: "drop 2 example_apt_file = ''120 Taxiway A'' # drop 3 example_apt_file"
    by (simp add: example_apt_file_def)
  have l8: "example_apt_file ! 8 = ''1 0 0 0 XBAD No runway here''"
    by (simp add: example_apt_file_def)
  have rt: "ReadOneTaxiLine flat_geo example_io (drop 3 example_apt_file, True) example_apt_rw =
              Inr (''1 0 0 0 XBAD No runway here'', ([], True), example_apt_tx)"
    by (simp add: ReadOneTaxiLine_def example_taxi_read example_apt_tx_def)
  show ?thesis
    by (simp add: ReadOneAptFile_body_def example_state_def safeGetline_def d l8 Let_def
          is_apt_header_def is_rwy_line_def is_taxi_marker_def is_blank_def
          HasRwyEndpoints_def example_rw_parts rt)
qed

lemma example_tx_parts:
  "apt_id example_apt_tx = ''XAPT''" "vecRwyEndPts example_apt_tx \<noteq> []"
  "vecTaxiEdges example_apt_tx \<noteq> []"
  using nodes_five [OF _ example_spaced example_geo, of example_apt_rw]
  by (simp_all add: example_apt_tx_def example_taxi_nodes_def example_rw_parts)

lemma example_tx_valid: "IsValid example_apt_tx"
  by (simp add: IsValid_def HasId_def HasTaxiWays_def HasRwyEndpoints_def example_tx_parts)

lemma example_registry:
  "AddApt flat_geo example_cfg example_apt_tx [] =
     [(''XAPT'', AddApt_prepare flat_geo example_cfg example_apt_tx)]"
  by (simp add: AddApt_def gmap_emplace_def AddApt_prepare_def Let_def example_tx_parts)

lemma example_step3:
  "ReadOneAptFile_body flat_geo example_cfg example_io empty_boundingBoxTy (example_state 3)
     = Inr (example_state 4)"
proof -
  have l8: "example_apt_file ! 8 = ''1 0 0 0 XBAD No runway here''"
    by (simp add: example_apt_file_def)
  show ?thesis
    by (simp add: ReadOneAptFile_body_def example_state_def l8 Let_def is_apt_header_def
          is_blank_def apt_header_def example_tx_valid example_io_def tok_h2 gmap_count_def
          example_registry)
qed

lemma example_step4:
  "ReadOneAptFile_body flat_geo example_cfg example_io empty_boundingBoxTy (example_state 4)
     = Inr (example_state 5)"
  by (simp add: ReadOneAptFile_body_def example_state_def safeGetline_def Let_def)

lemma example_loop:
  "ReadOneAptFile_loop flat_geo example_cfg example_io empty_boundingBoxTy (\<lambda>n. False) 0
     (example_state 0) = (None, example_state 5)"
proof -
  have g: "snd (ps_fIn (example_state 0))" "snd (ps_fIn (example_state (Suc 0)))"
          "snd (ps_fIn (example_state 2))" "bProcessGivenLn (example_state 3)"
          "snd (ps_fIn (example_state 4))"
          "\<not> (bProcessGivenLn (example_state 5) \<or> snd (ps_fIn (example_state 5)))"
    by (simp_all add: example_state_def)
  have l5: "ReadOneAptFile_loop flat_geo example_cfg example_io empty_boundingBoxTy (\<lambda>n. False) n
     (example_state 5) = (None, example_state 5)" for n
    using g(6) by (subst ReadOneAptFile_loop.simps) simp
  have l4: "ReadOneAptFile_loop flat_geo example_cfg example_io empty_boundingBoxTy (\<lambda>n. False) n
     (example_state 4) = (None, example_state 5)" for n
    using g(5) by (subst ReadOneAptFile_loop.simps) (simp add: example_step4 l5)
  have l3: "ReadOneAptFile_loop flat_geo example_cfg example_io empty_boundingBoxTy (\<lambda>n. False) n
     (example_state 3) = (None, example_state 5)" for n
    using g(4) by (subst ReadOneAptFile_loop.simps) (simp add: example_step3 l4)
  have l2: "ReadOneAptFile_loop flat_geo example_cfg example_io empty_boundingBoxTy (\<lambda>n. False) n
     (example_state 2) = (None, example_state 5)" for n
    using g(3) by (subst ReadOneAptFile_loop.simps) (simp add: example_step2 l3)
  have l1: "ReadOneAptFile_loop flat_geo example_cfg example_io empty_boundingBoxTy (\<lambda>n. False) n
     (example_state (Suc 0)) = (None, example_state 5)" for n
    using g(2) by (subst ReadOneAptFile_loop.simps) (simp add: example_step1 l2)
  show ?thesis
    using g(1) by (subst ReadOneAptFile_loop.simps) (simp add: example_step0 l1)
qed

lemma example_file_result:
  "ReadOneAptFile flat_geo example_cfg example_io empty_boundingBoxTy (\<lambda>n. False)
     (example_apt_file, True) [] =
   (None, [(''XAPT'', AddApt_prepare flat_geo example_cfg example_apt_tx)])"
proof -
  have s0: "\<lparr>ps_fIn = (example_apt_file, True), ps_ln = [], bProcessGivenLn = False,
            ps_apt = new_Apt [], gmapApt = []\<rparr> = example_state 0"
    by (simp add: example_state_def)
  have nv: "\<not> IsValid (ps_apt (example_state 5))"
    by (simp add: example_state_def IsValid_def HasTaxiWays_def new_Apt_def)
  have g5: "gmapApt (example_state 5) = AddApt flat_geo example_cfg example_apt_tx []"
    by (simp add: example_state_def)
  show ?thesis
    by (simp add: ReadOneAptFile_def Let_def s0 example_loop nv g5 example_registry)
qed

theorem C8_registry_valid_witness:
  "ReadOneAptFile flat_geo example_cfg example_io empty_boundingBoxTy (\<lambda>n. False)
     (example_apt_file, True) [] =
   (None, [(''XAPT'', AddApt_prepare flat_geo example_cfg example_apt_tx)])
   \<and> IsValid (AddApt_prepare flat_geo example_cfg example_apt_tx)
   \<and> apt_id (AddApt_prepare flat_geo example_cfg example_apt_tx) = ''XAPT''
   \<and> \<not> IsValid (new_Apt ''XBAD'')"
  using C8_registry_valid [of flat_geo example_cfg example_io empty_boundingBoxTy "\<lambda>n. False"
          "(example_apt_file, True)" "[]" "example_state 0" "[]"]
        example_file_result
  by (simp add: IsValid_def HasTaxiWays_def new_Apt_def)

section \<open>The runway to land on: heading deviation and vertical speed\<close>

lemma dgt_irrefl: "\<not> dgt a a"
  by (cases a) (simp_all add: dgt_def)

lemma LTAptFindRwy_edges_step:
  "LTAptFindRwy_edges G C ac apt (ei # l) (b, h, t) =
     (case rwy_end G ac apt ei of
        None \<Rightarrow> None
      | Some ep \<Rightarrow>
          if isnan (alt_m ep) \<or> dgt (rwy_headingDiff G ac ep) h
             \<or> outside_envelope C ac (rwy_vsi G C ac ep)
          then LTAptFindRwy_edges G C ac apt l (b, h, t)
          else LTAptFindRwy_edges G C ac apt l
                 (Some (apt, ei, ep), rwy_headingDiff G ac ep,
                  dadd (p_ts (GetToPos ac)) (rwy_d_ts G C ac ep)))"
  by (simp add: rwy_end_def rwy_headingDiff_def rwy_d_ts_def rwy_vsi_def outside_envelope_def
        Let_def split: option.splits)

lemma FindEdgesForHeading_fst:
  "fst (FindEdgesForHeading apt hs tol [] rt) = (snd (FindEdgesForHeading apt hs tol [] rt) \<noteq> [])"
  by (simp add: FindEdgesForHeading_def Let_def)

lemma LTAptFindRwy_apts_step:
  "LTAptFindRwy_apts G C ac (pair # rest) st =
     (case LTAptFindRwy_edges G C ac (snd pair)
             (snd (FindEdgesForHeading (snd pair) (headSearch G ac) (ART_RWY_MAX_HEAD_DIFF C) [] RUN_WAY)) st of
        None \<Rightarrow> None
      | Some st' \<Rightarrow> LTAptFindRwy_apts G C ac rest st')"
  by (simp add: Let_def FindEdgesForHeading_fst)

lemma rwy_candidates_Cons:
  "rwy_candidates G C ac (pair # rest) =
     map (Pair (snd pair))
       (snd (FindEdgesForHeading (snd pair) (headSearch G ac) (ART_RWY_MAX_HEAD_DIFF C) [] RUN_WAY))
     @ rwy_candidates G C ac rest"
  by (simp add: rwy_candidates_def)

lemma rwy_candidates_Nil: "rwy_candidates G C ac [] = []"
  by (simp add: rwy_candidates_def)

subsection \<open>The best match is never outside the permitted range\<close>

lemma LTAptFindRwy_edges_ok:
  "LTAptFindRwy_edges G C ac apt l st = Some st' \<Longrightarrow> rwy_match_ok G C ac S st \<Longrightarrow> apt \<in> S
   \<Longrightarrow> rwy_match_ok G C ac S st'"
proof (induction l arbitrary: st)
  case Nil
  then show ?case by simp
next
  case (Cons ei l)
  obtain b h t where st: "st = (b, h, t)" by (cases st)
  from Cons.prems(1) obtain ep where ep: "rwy_end G ac apt ei = Some ep"
    unfolding st LTAptFindRwy_edges_step by (cases "rwy_end G ac apt ei") simp_all
  show ?case
  proof (cases "isnan (alt_m ep) \<or> dgt (rwy_headingDiff G ac ep) h
                \<or> outside_envelope C ac (rwy_vsi G C ac ep)")
    case True
    with Cons.prems(1) ep have "LTAptFindRwy_edges G C ac apt l st = Some st'"
      unfolding st LTAptFindRwy_edges_step by simp
    from Cons.IH [OF this Cons.prems(2) Cons.prems(3)] show ?thesis .
  next
    case False
    let ?n = "(Some (apt, ei, ep), rwy_headingDiff G ac ep,
               dadd (p_ts (GetToPos ac)) (rwy_d_ts G C ac ep))"
    from False Cons.prems(1) ep have r: "LTAptFindRwy_edges G C ac apt l ?n = Some st'"
      unfolding st LTAptFindRwy_edges_step by simp
    have "rwy_match_ok G C ac S ?n"
      using False ep Cons.prems(3) by (simp add: rwy_match_ok_def)
    from Cons.IH [OF r this Cons.prems(3)] show ?thesis .
  qed
qed

lemma LTAptFindRwy_apts_ok:
  "LTAptFindRwy_apts G C ac gm st = Some st' \<Longrightarrow> rwy_match_ok G C ac S st
   \<Longrightarrow> snd ` set gm \<subseteq> S \<Longrightarrow> rwy_match_ok G C ac S st'"
proof (induction gm arbitrary: st)
  case Nil
  then show ?case by simp
next
  case (Cons pair rest)
  let ?l = "snd (FindEdgesForHeading (snd pair) (headSearch G ac) (ART_RWY_MAX_HEAD_DIFF C) [] RUN_WAY)"
  from Cons.prems(1) obtain st1 where
    a: "LTAptFindRwy_edges G C ac (snd pair) ?l st = Some st1"
    and b: "LTAptFindRwy_apts G C ac rest st1 = Some st'"
    unfolding LTAptFindRwy_apts_step
    by (cases "LTAptFindRwy_edges G C ac (snd pair) ?l st") simp_all
  have "snd pair \<in> S" using Cons.prems(3) by simp
  from LTAptFindRwy_edges_ok [OF a Cons.prems(2) this] have "rwy_match_ok G C ac S st1" .
  moreover have "snd ` set rest \<subseteq> S" using Cons.prems(3) by simp
  ultimately show ?case using Cons.IH [OF b] by blast
qed

subsection \<open>Candidates that are rejected leave the best match as it is\<close>

lemma LTAptFindRwy_edges_rejected:
  "\<forall>ei \<in> set l. rwy_rejected G C ac (apt, ei) \<Longrightarrow> LTAptFindRwy_edges G C ac apt l st = Some st"
proof (induction l)
  case Nil
  show ?case by simp
next
  case (Cons ei l)
  obtain b h t where st: "st = (b, h, t)" by (cases st)
  from Cons.prems have "rwy_rejected G C ac (apt, ei)" by simp
  then obtain ep where "rwy_end G ac apt ei = Some ep"
    and "outside_envelope C ac (rwy_vsi G C ac ep)"
    by (auto simp: rwy_rejected_def split: option.splits)
  moreover have "LTAptFindRwy_edges G C ac apt l st = Some st"
    using Cons by simp
  ultimately show ?case unfolding st LTAptFindRwy_edges_step by simp
qed

lemma LTAptFindRwy_apts_rejected:
  "\<forall>c \<in> set (rwy_candidates G C ac gm). rwy_rejected G C ac c
   \<Longrightarrow> LTAptFindRwy_apts G C ac gm st = Some st"
proof (induction gm)
  case Nil
  show ?case by simp
next
  case (Cons pair rest)
  let ?l = "snd (FindEdgesForHeading (snd pair) (headSearch G ac) (ART_RWY_MAX_HEAD_DIFF C) [] RUN_WAY)"
  have "\<forall>ei \<in> set ?l. rwy_rejected G C ac (snd pair, ei)"
    using Cons.prems unfolding rwy_candidates_Cons by simp
  from LTAptFindRwy_edges_rejected [OF this]
  have a: "LTAptFindRwy_edges G C ac (snd pair) ?l st = Some st" .
  have "\<forall>c \<in> set (rwy_candidates G C ac rest). rwy_rejected G C ac c"
    using Cons.prems unfolding rwy_candidates_Cons by simp
  from Cons.IH [OF this] a show ?case unfolding LTAptFindRwy_apts_step by simp
qed

subsection \<open>One candidate that qualifies among candidates that are rejected\<close>

lemma LTAptFindRwy_edges_one:
  assumes x: "rwy_end G ac xapt xei = Some xep" "\<not> isnan (alt_m xep)"
             "\<not> dgt (rwy_headingDiff G ac xep) h0"
             "\<not> outside_envelope C ac (rwy_vsi G C ac xep)"
    and X: "X = (Some (xapt, xei, xep), rwy_headingDiff G ac xep,
                 dadd (p_ts (GetToPos ac)) (rwy_d_ts G C ac xep))"
  shows "\<forall>ei \<in> set l. (apt, ei) = (xapt, xei) \<or> rwy_rejected G C ac (apt, ei)
         \<Longrightarrow> LTAptFindRwy_edges G C ac apt l X = Some X
             \<and> LTAptFindRwy_edges G C ac apt l (b0, h0, t0) =
                 Some (if (xapt, xei) \<in> set (map (Pair apt) l) then X else (b0, h0, t0))"
proof (induction l)
  case Nil
  show ?case by simp
next
  case (Cons ei l)
  have ih: "LTAptFindRwy_edges G C ac apt l X = Some X"
       "LTAptFindRwy_edges G C ac apt l (b0, h0, t0) =
          Some (if (xapt, xei) \<in> set (map (Pair apt) l) then X else (b0, h0, t0))"
    using Cons by simp_all
  show ?case
  proof (cases "(apt, ei) = (xapt, xei)")
    case True
    hence e: "apt = xapt" "ei = xei" by simp_all
    have s1: "LTAptFindRwy_edges G C ac apt (ei # l) (b0, h0, t0) = LTAptFindRwy_edges G C ac apt l X"
      unfolding LTAptFindRwy_edges_step using x by (simp add: e X)
    have s2: "LTAptFindRwy_edges G C ac apt (ei # l) X = LTAptFindRwy_edges G C ac apt l X"
      unfolding X LTAptFindRwy_edges_step using x by (simp add: e dgt_irrefl)
    show ?thesis unfolding s1 s2 using ih(1) True by simp
  next
    case False
    with Cons.prems have "rwy_rejected G C ac (apt, ei)" by auto
    then obtain ep where ep: "rwy_end G ac apt ei = Some ep"
      "outside_envelope C ac (rwy_vsi G C ac ep)"
      by (auto simp: rwy_rejected_def split: option.splits)
    have s1: "LTAptFindRwy_edges G C ac apt (ei # l) (b0, h0, t0) =
              LTAptFindRwy_edges G C ac apt l (b0, h0, t0)"
      unfolding LTAptFindRwy_edges_step using ep by simp
    have s2: "LTAptFindRwy_edges G C ac apt (ei # l) X = LTAptFindRwy_edges G C ac apt l X"
      unfolding X LTAptFindRwy_edges_step using ep by simp
    show ?thesis unfolding s1 s2 using ih False by auto
  qed
qed

lemma LTAptFindRwy_apts_one:
  assumes x: "rwy_end G ac xapt xei = Some xep" "\<not> isnan (alt_m xep)"
             "\<not> dgt (rwy_headingDiff G ac xep) h0"
             "\<not> outside_envelope C ac (rwy_vsi G C ac xep)"
    and X: "X = (Some (xapt, xei, xep), rwy_headingDiff G ac xep,
                 dadd (p_ts (GetToPos ac)) (rwy_d_ts G C ac xep))"
  shows "\<forall>c \<in> set (rwy_candidates G C ac gm). c = (xapt, xei) \<or> rwy_rejected G C ac c
         \<Longrightarrow> LTAptFindRwy_apts G C ac gm X = Some X
             \<and> LTAptFindRwy_apts G C ac gm (b0, h0, t0) =
                 Some (if (xapt, xei) \<in> set (rwy_candidates G C ac gm) then X else (b0, h0, t0))"
proof (induction gm)
  case Nil
  show ?case by (simp add: rwy_candidates_Nil)
next
  case (Cons pair rest)
  let ?l = "snd (FindEdgesForHeading (snd pair) (headSearch G ac) (ART_RWY_MAX_HEAD_DIFF C) [] RUN_WAY)"
  have "\<forall>ei \<in> set ?l. (snd pair, ei) = (xapt, xei) \<or> rwy_rejected G C ac (snd pair, ei)"
    using Cons.prems unfolding rwy_candidates_Cons by auto
  from LTAptFindRwy_edges_one [OF x X this, of b0 t0]
  have a: "LTAptFindRwy_edges G C ac (snd pair) ?l X = Some X"
    and b: "LTAptFindRwy_edges G C ac (snd pair) ?l (b0, h0, t0) =
              Some (if (xapt, xei) \<in> set (map (Pair (snd pair)) ?l) then X else (b0, h0, t0))"
    by simp_all
  have "\<forall>c \<in> set (rwy_candidates G C ac rest). c = (xapt, xei) \<or> rwy_rejected G C ac c"
    using Cons.prems unfolding rwy_candidates_Cons by auto
  from Cons.IH [OF this]
  have c: "LTAptFindRwy_apts G C ac rest X = Some X"
    and d: "LTAptFindRwy_apts G C ac rest (b0, h0, t0) =
              Some (if (xapt, xei) \<in> set (rwy_candidates G C ac rest) then X else (b0, h0, t0))"
    by simp_all
  have e: "LTAptFindRwy_apts G C ac (pair # rest) X = Some X"
    unfolding LTAptFindRwy_apts_step a using c by simp
  have f: "LTAptFindRwy_apts G C ac (pair # rest) (b0, h0, t0) =
             Some (if (xapt, xei) \<in> set (rwy_candidates G C ac (pair # rest)) then X else (b0, h0, t0))"
    unfolding LTAptFindRwy_apts_step b rwy_candidates_Cons using c d by simp
  show ?case using e f by simp
qed

subsection \<open>The example aircraft and the example airports\<close>

lemma example_vsi_range:
  "vsi_min example_cfg example_ac = Fin (- 6096 / 1000)"
  "vsi_max example_cfg example_ac = Fin (- 1524 / 1000)"
  by (simp_all add: vsi_min_def vsi_max_def example_cfg_def example_ac_def)

lemma example_speed: "speed_m_s example_cfg example_ac = Fin 50"
  by (simp add: speed_m_s_def example_cfg_def example_ac_def dmin_def)

lemma flat_not_inverted:
  "\<not> bHeadInverted flat_geo example_ac" "\<not> bHeadInverted compass_geo example_ac"
  by (simp_all add: bHeadInverted_def flat_geo_def compass_geo_def example_ac_def
        new_positionTy_def dge_def dle_def)

lemma flat_headSearch:
  "headSearch flat_geo example_ac = Fin 90" "headSearch compass_geo example_ac = Fin 90"
  by (simp_all add: headSearch_def flat_not_inverted)
     (simp_all add: flat_geo_def compass_geo_def example_ac_def new_positionTy_def)

lemma example_max: "ART_RWY_MAX_HEAD_DIFF example_cfg = Fin 10"
  by (simp add: example_cfg_def)

lemma example_ts: "p_ts (GetToPos example_ac) = Fin 1000"
  by (simp add: example_ac_def new_positionTy_def)

lemma rwy_apt_find:
  "FindEdgesForHeading (rwy_apt i la lo) (Fin 90) (Fin 10) [] RUN_WAY = (True, [0])"
  by (simp add: rwy_apt_def new_Apt_def new_TaxiEdge_def FindEdgesForHeading_def
        vecRanges_def Let_def lower_bound_def lower_bound_loop.simps scan_range.simps
        CompHeadLess_def cmp_TaxiEdge_def dge_def dle_def dsub_def)

lemma rwy_apt_candidates:
  "rwy_candidates flat_geo example_cfg example_ac [(i, rwy_apt i la lo), (j, rwy_apt j la' lo')] =
     [(rwy_apt i la lo, 0), (rwy_apt j la' lo', 0)]"
  "rwy_candidates compass_geo example_cfg example_ac [(i, rwy_apt i la lo), (j, rwy_apt j la' lo')] =
     [(rwy_apt i la lo, 0), (rwy_apt j la' lo', 0)]"
  "rwy_candidates flat_geo example_cfg example_ac [(i, rwy_apt i la lo)] = [(rwy_apt i la lo, 0)]"
  by (simp_all add: rwy_candidates_def flat_headSearch example_max rwy_apt_find)

lemma rwy_apt_rwy_end:
  "rwy_end flat_geo example_ac (rwy_apt i la lo) 0 = Some (rwy_apt_end la lo)"
  "rwy_end compass_geo example_ac (rwy_apt i la lo) 0 = Some (rwy_apt_end la lo)"
  by (simp_all add: rwy_end_def flat_not_inverted GetRwyEP_A_def)
     (simp_all add: rwy_apt_def rwy_apt_end_def new_Apt_def new_TaxiEdge_def dge_def dle_def)

lemma rwy_apt_end_alt: "\<not> isnan (alt_m (rwy_apt_end la lo))"
  by (simp add: rwy_apt_end_def new_RwyEndPt_def)

lemma flat_headingDiff: "rwy_headingDiff flat_geo example_ac (rwy_apt_end la lo) = Fin 0"
  by (simp add: rwy_headingDiff_def flat_geo_def example_ac_def new_positionTy_def dsub_def)

lemma compass_headingDiff:
  "0 < la \<Longrightarrow> rwy_headingDiff compass_geo example_ac (rwy_apt_end la 0) = Fin 90"
  by (simp add: rwy_headingDiff_def flat_geo_def compass_geo_def example_ac_def new_positionTy_def
        dsub_def rwy_apt_end_def new_RwyEndPt_def)

lemma sqrt_flat: "0 \<le> x \<Longrightarrow> sqrt (10000000000 * (x * x)) = 100000 * (x::real)"
  by (rule real_sqrt_unique) (simp_all add: power2_eq_square)

lemma flat_d_ts:
  "0 \<le> lo \<Longrightarrow> rwy_d_ts flat_geo example_cfg example_ac (rwy_apt_end 0 lo) = Fin (lo * 2000)"
  by (simp add: rwy_d_ts_def example_speed)
     (simp add: flat_geo_def example_ac_def new_positionTy_def rwy_apt_end_def new_RwyEndPt_def
        flat_dist2_def dsub_def sqrt_flat)

lemma compass_d_ts:
  "0 \<le> la \<Longrightarrow> rwy_d_ts compass_geo example_cfg example_ac (rwy_apt_end la 0) = Fin (la * 2000)"
  by (simp add: rwy_d_ts_def example_speed)
     (simp add: flat_geo_def compass_geo_def example_ac_def new_positionTy_def rwy_apt_end_def
        new_RwyEndPt_def flat_dist2_def dsub_def sqrt_flat)

lemma flat_vsi:
  "0 < lo \<Longrightarrow> rwy_vsi flat_geo example_cfg example_ac (rwy_apt_end 0 lo) = Fin (- 300 / (lo * 2000))"
  by (simp add: rwy_vsi_def flat_d_ts)
     (simp add: example_ac_def new_positionTy_def rwy_apt_end_def new_RwyEndPt_def dsub_def)

lemma compass_vsi:
  "0 < la \<Longrightarrow> rwy_vsi compass_geo example_cfg example_ac (rwy_apt_end la 0) = Fin (- 300 / (la * 2000))"
  by (simp add: rwy_vsi_def compass_d_ts)
     (simp add: example_ac_def new_positionTy_def rwy_apt_end_def new_RwyEndPt_def dsub_def)

lemma rwy_apt_neq: "i \<noteq> j \<Longrightarrow> rwy_apt i la lo \<noteq> rwy_apt j la' lo'"
  by (simp add: rwy_apt_def new_Apt_def)

lemma dle_not_dless: "dle a b \<Longrightarrow> \<not> dless b a"
  by (cases a; cases b) (auto simp: dle_def)

lemma dle_not_nan: "dle a b \<Longrightarrow> \<not> isnan a \<and> \<not> isnan b"
  by (cases a; cases b) (auto simp: dle_def)

lemma dless_iff_not_dle: "\<not> isnan a \<Longrightarrow> \<not> isnan b \<Longrightarrow> dless a b = (\<not> dle b a)"
  by (cases a; cases b) (auto simp: dle_def)

lemma inside_not_outside: "inside_envelope C ac v \<Longrightarrow> \<not> outside_envelope C ac v"
  by (simp add: inside_envelope_def outside_envelope_def dgt_def dle_not_dless)

lemma outside_iff_not_inside:
  "\<not> isnan v \<Longrightarrow> \<not> isnan (vsi_min C ac) \<Longrightarrow> \<not> isnan (vsi_max C ac)
   \<Longrightarrow> outside_envelope C ac v = (\<not> inside_envelope C ac v)"
  by (auto simp: inside_envelope_def outside_envelope_def dgt_def dless_iff_not_dle)

lemma rwy_vsi_nan: "isnan (alt_m ep) \<Longrightarrow> isnan (rwy_vsi G C ac ep)"
  by (cases "alt_m ep") (simp_all add: rwy_vsi_def dsub_def)

lemma inside_alt: "inside_envelope C ac (rwy_vsi G C ac ep) \<Longrightarrow> \<not> isnan (alt_m ep)"
  using rwy_vsi_nan [of ep G C ac] dle_not_nan [of "rwy_vsi G C ac ep" "vsi_max C ac"]
  by (auto simp: inside_envelope_def)

text \<open>
  Claim C4 (amended): the runway that \<open>LTAptFindRwy\<close> chooses is a runway of an airport
  of the map, and the vertical speed towards its endpoint is not outside the permitted
  range; the position returned is the touch-down position at that endpoint. If one
  candidate has a vertical speed inside the permitted range and a heading deviation
  that does not exceed \<open>ART_RWY_MAX_HEAD_DIFF\<close>, and the vertical speed of every other
  candidate is outside the permitted range, then that candidate is chosen, whatever
  the order of the candidates, their distances and their heading deviations (equal
  ones included). If the vertical speed of every candidate is outside the permitted
  range, the default position is returned. For numbers, outside the permitted range
  is the same as not inside it.
\<close>

theorem C4_LTAptFindRwy:
  "(LTAptFindRwy_search G C ac gm = Some (Some (apt, ei, ep), hdiff, ts)
      \<longrightarrow> apt \<in> snd ` set gm \<and> rwy_end G ac apt ei = Some ep
          \<and> \<not> outside_envelope C ac (rwy_vsi G C ac ep)
          \<and> LTAptFindRwy G C ac gm = Some (rwy_position G C ac apt ei ep ts))
   \<and> ((xapt, xei) \<in> set (rwy_candidates G C ac gm)
       \<and> (\<forall>c \<in> set (rwy_candidates G C ac gm). c = (xapt, xei) \<or> rwy_rejected G C ac c)
       \<and> rwy_end G ac xapt xei = Some xep
       \<and> inside_envelope C ac (rwy_vsi G C ac xep)
       \<and> \<not> dgt (rwy_headingDiff G ac xep) (ART_RWY_MAX_HEAD_DIFF C)
      \<longrightarrow> LTAptFindRwy_search G C ac gm =
            Some (Some (xapt, xei, xep), rwy_headingDiff G ac xep,
                  dadd (p_ts (GetToPos ac)) (rwy_d_ts G C ac xep)))
   \<and> ((\<forall>c \<in> set (rwy_candidates G C ac gm'). rwy_rejected G C ac c)
      \<longrightarrow> LTAptFindRwy_search G C ac gm' = Some (None, ART_RWY_MAX_HEAD_DIFF C, NaN)
          \<and> LTAptFindRwy G C ac gm' = Some empty_positionTy)
   \<and> (\<not> isnan v \<and> \<not> isnan (vsi_min C ac) \<and> \<not> isnan (vsi_max C ac)
      \<longrightarrow> outside_envelope C ac v = (\<not> inside_envelope C ac v))"
proof (intro conjI impI)
  assume s: "LTAptFindRwy_search G C ac gm = Some (Some (apt, ei, ep), hdiff, ts)"
  have "rwy_match_ok G C ac (snd ` set gm) (None, ART_RWY_MAX_HEAD_DIFF C, NaN)"
    by (simp add: rwy_match_ok_def)
  from LTAptFindRwy_apts_ok [OF s [unfolded LTAptFindRwy_search_def] this]
  have ok: "rwy_match_ok G C ac (snd ` set gm) (Some (apt, ei, ep), hdiff, ts)" by simp
  from ok show "apt \<in> snd ` set gm" by (simp add: rwy_match_ok_def)
  from ok show "rwy_end G ac apt ei = Some ep" by (simp add: rwy_match_ok_def)
  from ok show "\<not> outside_envelope C ac (rwy_vsi G C ac ep)" by (simp add: rwy_match_ok_def)
  from s show "LTAptFindRwy G C ac gm = Some (rwy_position G C ac apt ei ep ts)"
    by (simp add: LTAptFindRwy_def)
next
  assume h: "(xapt, xei) \<in> set (rwy_candidates G C ac gm)
       \<and> (\<forall>c \<in> set (rwy_candidates G C ac gm). c = (xapt, xei) \<or> rwy_rejected G C ac c)
       \<and> rwy_end G ac xapt xei = Some xep
       \<and> inside_envelope C ac (rwy_vsi G C ac xep)
       \<and> \<not> dgt (rwy_headingDiff G ac xep) (ART_RWY_MAX_HEAD_DIFF C)"
  let ?X = "(Some (xapt, xei, xep), rwy_headingDiff G ac xep,
             dadd (p_ts (GetToPos ac)) (rwy_d_ts G C ac xep))"
  have a: "rwy_end G ac xapt xei = Some xep" using h by blast
  have i: "inside_envelope C ac (rwy_vsi G C ac xep)" using h by blast
  have b: "\<not> isnan (alt_m xep)" using i by (rule inside_alt)
  have c: "\<not> dgt (rwy_headingDiff G ac xep) (ART_RWY_MAX_HEAD_DIFF C)" using h by blast
  have d: "\<not> outside_envelope C ac (rwy_vsi G C ac xep)" using i by (rule inside_not_outside)
  have e: "\<forall>c \<in> set (rwy_candidates G C ac gm). c = (xapt, xei) \<or> rwy_rejected G C ac c"
    using h by blast
  have f: "(xapt, xei) \<in> set (rwy_candidates G C ac gm)" using h by blast
  from LTAptFindRwy_apts_one [OF a b c d refl e, of None NaN] f
  show "LTAptFindRwy_search G C ac gm = Some ?X"
    by (simp add: LTAptFindRwy_search_def)
next
  assume h: "\<forall>c \<in> set (rwy_candidates G C ac gm'). rwy_rejected G C ac c"
  from LTAptFindRwy_apts_rejected [OF h]
  show s: "LTAptFindRwy_search G C ac gm' = Some (None, ART_RWY_MAX_HEAD_DIFF C, NaN)"
    by (simp add: LTAptFindRwy_search_def)
  show "LTAptFindRwy G C ac gm' = Some empty_positionTy"
    by (simp add: LTAptFindRwy_def s)
next
  assume "\<not> isnan v \<and> \<not> isnan (vsi_min C ac) \<and> \<not> isnan (vsi_max C ac)"
  thus "outside_envelope C ac v = (\<not> inside_envelope C ac v)"
    using outside_iff_not_inside by blast
qed

theorem C4_LTAptFindRwy_witness:
  "LTAptFindRwy_search flat_geo example_cfg example_ac
       [(''XAAA'', rwy_apt ''XAAA'' 0 (1 / 20)), (''XBBB'', rwy_apt ''XBBB'' 0 (1 / 100))] =
     Some (Some (rwy_apt ''XAAA'' 0 (1 / 20), 0, rwy_apt_end 0 (1 / 20)), Fin 0, Fin 1100)
   \<and> LTAptFindRwy_search flat_geo example_cfg example_ac
       [(''XAAA'', rwy_apt ''XAAA'' 0 (1 / 100)), (''XBBB'', rwy_apt ''XBBB'' 0 (1 / 20))] =
     Some (Some (rwy_apt ''XBBB'' 0 (1 / 20), 0, rwy_apt_end 0 (1 / 20)), Fin 0, Fin 1100)
   \<and> LTAptFindRwy flat_geo example_cfg example_ac
       [(''XAAA'', rwy_apt ''XAAA'' 0 (1 / 20)), (''XBBB'', rwy_apt ''XBBB'' 0 (1 / 100))] =
     Some (rwy_position flat_geo example_cfg example_ac (rwy_apt ''XAAA'' 0 (1 / 20)) 0
             (rwy_apt_end 0 (1 / 20)) (Fin 1100))
   \<and> rwy_headingDiff flat_geo example_ac (rwy_apt_end 0 (1 / 20)) =
       rwy_headingDiff flat_geo example_ac (rwy_apt_end 0 (1 / 100))
   \<and> rwy_vsi flat_geo example_cfg example_ac (rwy_apt_end 0 (1 / 20)) = Fin (- 3)
   \<and> rwy_vsi flat_geo example_cfg example_ac (rwy_apt_end 0 (1 / 100)) = Fin (- 15)
   \<and> inside_envelope example_cfg example_ac (Fin (- 3))
   \<and> outside_envelope example_cfg example_ac (Fin (- 15))
   \<and> \<not> inside_envelope example_cfg example_ac (Fin (- 15))
   \<and> LTAptFindRwy flat_geo example_cfg example_ac [(''XAAA'', rwy_apt ''XAAA'' 0 (1 / 100))] =
       Some empty_positionTy"
proof -
  let ?far = "rwy_apt_end 0 (1 / 20)"
  let ?gm1 = "[(''XAAA'', rwy_apt ''XAAA'' 0 (1 / 20)), (''XBBB'', rwy_apt ''XBBB'' 0 (1 / 100))]"
  let ?gm2 = "[(''XAAA'', rwy_apt ''XAAA'' 0 (1 / 100)), (''XBBB'', rwy_apt ''XBBB'' 0 (1 / 20))]"
  have v: "rwy_vsi flat_geo example_cfg example_ac (rwy_apt_end 0 (1 / 20)) = Fin (- 3)"
          "rwy_vsi flat_geo example_cfg example_ac (rwy_apt_end 0 (1 / 100)) = Fin (- 15)"
    by (simp_all add: flat_vsi)
  have o: "inside_envelope example_cfg example_ac (Fin (- 3))"
          "outside_envelope example_cfg example_ac (Fin (- 15))"
    by (simp_all add: inside_envelope_def outside_envelope_def example_vsi_range dgt_def dle_def)
  have t: "dadd (p_ts (GetToPos example_ac)) (rwy_d_ts flat_geo example_cfg example_ac ?far) = Fin 1100"
    by (simp add: flat_d_ts example_ts)
  have m: "\<not> dgt (Fin 0) (ART_RWY_MAX_HEAD_DIFF example_cfg)"
    by (simp add: example_max dgt_def)
  have c1: "rwy_candidates flat_geo example_cfg example_ac ?gm1 =
              [(rwy_apt ''XAAA'' 0 (1 / 20), 0), (rwy_apt ''XBBB'' 0 (1 / 100), 0)]"
    and c2: "rwy_candidates flat_geo example_cfg example_ac ?gm2 =
              [(rwy_apt ''XAAA'' 0 (1 / 100), 0), (rwy_apt ''XBBB'' 0 (1 / 20), 0)]"
    by (rule rwy_apt_candidates)+
  have r: "rwy_rejected flat_geo example_cfg example_ac (rwy_apt ''XBBB'' 0 (1 / 100), 0)"
          "rwy_rejected flat_geo example_cfg example_ac (rwy_apt ''XAAA'' 0 (1 / 100), 0)"
    unfolding rwy_rejected_def fst_conv snd_conv rwy_apt_rwy_end option.case v by (rule o(2))+
  have i: "inside_envelope example_cfg example_ac (rwy_vsi flat_geo example_cfg example_ac ?far)"
    unfolding v by (rule o(1))
  have h: "\<not> dgt (rwy_headingDiff flat_geo example_ac ?far) (ART_RWY_MAX_HEAD_DIFF example_cfg)"
    unfolding flat_headingDiff by (rule m)
  have s1: "LTAptFindRwy_search flat_geo example_cfg example_ac ?gm1 =
     Some (Some (rwy_apt ''XAAA'' 0 (1 / 20), 0, ?far), Fin 0, Fin 1100)"
  proof -
    have "LTAptFindRwy_search flat_geo example_cfg example_ac ?gm1 =
            Some (Some (rwy_apt ''XAAA'' 0 (1 / 20), 0, ?far),
                  rwy_headingDiff flat_geo example_ac ?far,
                  dadd (p_ts (GetToPos example_ac)) (rwy_d_ts flat_geo example_cfg example_ac ?far))"
      by (rule C4_LTAptFindRwy [THEN conjunct2, THEN conjunct1, rule_format])
         (use r i h in \<open>simp add: c1 rwy_apt_rwy_end\<close>)
    thus ?thesis unfolding t flat_headingDiff .
  qed
  have s2: "LTAptFindRwy_search flat_geo example_cfg example_ac ?gm2 =
     Some (Some (rwy_apt ''XBBB'' 0 (1 / 20), 0, ?far), Fin 0, Fin 1100)"
  proof -
    have "LTAptFindRwy_search flat_geo example_cfg example_ac ?gm2 =
            Some (Some (rwy_apt ''XBBB'' 0 (1 / 20), 0, ?far),
                  rwy_headingDiff flat_geo example_ac ?far,
                  dadd (p_ts (GetToPos example_ac)) (rwy_d_ts flat_geo example_cfg example_ac ?far))"
      by (rule C4_LTAptFindRwy [THEN conjunct2, THEN conjunct1, rule_format])
         (use r i h in \<open>simp add: c2 rwy_apt_rwy_end\<close>)
    thus ?thesis unfolding t flat_headingDiff .
  qed
  have s3: "LTAptFindRwy flat_geo example_cfg example_ac ?gm1 =
     Some (rwy_position flat_geo example_cfg example_ac (rwy_apt ''XAAA'' 0 (1 / 20)) 0
             ?far (Fin 1100))"
    using C4_LTAptFindRwy [THEN conjunct1, rule_format, OF s1] by blast
  have s4: "LTAptFindRwy flat_geo example_cfg example_ac [(''XAAA'', rwy_apt ''XAAA'' 0 (1 / 100))] =
       Some empty_positionTy"
  proof -
    have "\<forall>c \<in> set (rwy_candidates flat_geo example_cfg example_ac
                       [(''XAAA'', rwy_apt ''XAAA'' 0 (1 / 100))]).
            rwy_rejected flat_geo example_cfg example_ac c"
      using r by (simp add: rwy_apt_candidates)
    from C4_LTAptFindRwy [THEN conjunct2, THEN conjunct2, THEN conjunct1, THEN mp, OF this]
    show ?thesis by blast
  qed
  have n: "\<not> inside_envelope example_cfg example_ac (Fin (- 15))"
    using C4_LTAptFindRwy [THEN conjunct2, THEN conjunct2, THEN conjunct2, rule_format,
            of "Fin (- 15)" example_cfg example_ac] o(2)
    by (simp add: example_vsi_range)
  show ?thesis
    unfolding flat_headingDiff using s1 s2 s3 s4 v o n by blast
qed

text \<open>
  Claim C4, as stated for any two candidates, fails where the heading deviation exceeds
  \<open>ART_RWY_MAX_HEAD_DIFF\<close>, to which the loop initialises the best deviation: an
  aircraft flies east, and the runways of two airports, both of heading 90, have their
  endpoints due north of it, 5000 and 1000 metres away. Both are candidates, both
  deviate by 90 degrees from the heading of the aircraft, and the vertical speed is
  inside the permitted range for the first (-3 metres per second, in the range from
  -6.096 to -1.524) and outside for the second; the function returns the default
  position and not the first runway.
\<close>

theorem C4_heading_counterexample:
  "rwy_candidates compass_geo example_cfg example_ac
       [(''XAAA'', rwy_apt ''XAAA'' (1 / 20) 0), (''XBBB'', rwy_apt ''XBBB'' (1 / 100) 0)] =
     [(rwy_apt ''XAAA'' (1 / 20) 0, 0), (rwy_apt ''XBBB'' (1 / 100) 0, 0)]
   \<and> rwy_end compass_geo example_ac (rwy_apt ''XAAA'' (1 / 20) 0) 0 = Some (rwy_apt_end (1 / 20) 0)
   \<and> rwy_end compass_geo example_ac (rwy_apt ''XBBB'' (1 / 100) 0) 0 = Some (rwy_apt_end (1 / 100) 0)
   \<and> rwy_headingDiff compass_geo example_ac (rwy_apt_end (1 / 20) 0) = Fin 90
   \<and> rwy_headingDiff compass_geo example_ac (rwy_apt_end (1 / 100) 0) = Fin 90
   \<and> rwy_vsi compass_geo example_cfg example_ac (rwy_apt_end (1 / 20) 0) = Fin (- 3)
   \<and> inside_envelope example_cfg example_ac (Fin (- 3))
   \<and> outside_envelope example_cfg example_ac
        (rwy_vsi compass_geo example_cfg example_ac (rwy_apt_end (1 / 100) 0))
   \<and> LTAptFindRwy compass_geo example_cfg example_ac
       [(''XAAA'', rwy_apt ''XAAA'' (1 / 20) 0), (''XBBB'', rwy_apt ''XBBB'' (1 / 100) 0)] =
     Some empty_positionTy"
proof -
  note m = example_max
  have r: "LTAptFindRwy compass_geo example_cfg example_ac
       [(''XAAA'', rwy_apt ''XAAA'' (1 / 20) 0), (''XBBB'', rwy_apt ''XBBB'' (1 / 100) 0)] =
     Some empty_positionTy"
    unfolding LTAptFindRwy_def LTAptFindRwy_search_def LTAptFindRwy_apts_step
    by (simp add: flat_headSearch rwy_apt_find LTAptFindRwy_edges_step rwy_apt_rwy_end
          rwy_apt_end_alt compass_headingDiff m dgt_def
          del: LTAptFindRwy_edges.simps(2) LTAptFindRwy_apts.simps(2))
  show ?thesis
    using r
    by (simp add: rwy_apt_candidates rwy_apt_rwy_end compass_headingDiff compass_vsi
          outside_envelope_def inside_envelope_def example_vsi_range dgt_def dle_def)
qed

end
